theory Spec2Isabelle
  imports Complex_Main
begin

section \<open>Data model\<close>

text \<open>
  The C++ sources compute on \<open>int\<close> and \<open>double\<close>. Game quantities (coordinates on a
  small board, wetness, power, cooldowns, scores in the thousands) stay far inside the
  32-bit range, so \<open>int\<close> is modelled by the mathematical integers. The \<open>double\<close>
  expressions of the combat model multiply integers by multiples of \<open>0.25\<close> or divide
  them by small constants; they are modelled by the reals, which is exact for products of
  magnitude below \<open>2^53\<close>.
\<close>

datatype GameAgentClass = GUNNER | SNIPER | BOMBER | ASSAULT | BERSERKER

record AgentData =
  data_agent_id :: int
  player :: int
  shoot_cooldown :: int
  optimal_range :: int
  soaking_power :: int
  data_splash_bombs :: int
  agent_class :: GameAgentClass

record AgentState =
  agent_id :: int
  pos_x :: int
  pos_y :: int
  cooldown :: int
  splash_bombs :: int
  wetness :: int

definition is_alive :: "AgentState \<Rightarrow> bool" where
  "is_alive a = (wetness a < 100)"

definition get_health :: "AgentState \<Rightarrow> int" where
  "get_health a = 100 - wetness a"

text \<open>
  \<open>TacticalDecision\<close> of \<open>SmartGameAI\<close>. The field \<open>tactical_reasoning\<close> is a
  diagnostic string that no branch ever reads; it is left out.
\<close>

record TacticalDecision =
  action_type :: string
  target_x :: int
  target_y :: int
  target_agent_id :: int
  bomb_x :: int
  bomb_y :: int
  expected_value :: real
  kill_probability :: real
  expected_damage :: int

definition default_decision :: TacticalDecision where
  "default_decision =
     \<lparr>action_type = '''', target_x = -1, target_y = -1, target_agent_id = -1,
      bomb_x = -1, bomb_y = -1, expected_value = 0, kill_probability = 0,
      expected_damage = 0\<rparr>"

definition THROW_DAMAGE :: int where
  "THROW_DAMAGE = 30"

definition THROW_DISTANCE_MAX :: int where
  "THROW_DISTANCE_MAX = 4"

definition WETNESS_AFFECTS_DISTANCE :: bool where
  "WETNESS_AFFECTS_DISTANCE = True"

section \<open>Primitive operations of the C++ source\<close>

text \<open>The conversion \<open>(int) d\<close> of a \<open>double\<close> truncates toward zero.\<close>

definition cast_int :: "real \<Rightarrow> int" where
  "cast_int r = (if 0 \<le> r then \<lfloor>r\<rfloor> else \<lceil>r\<rceil>)"

text \<open>
  \<open>v[i]\<close> on a \<open>std::vector\<close>: reading outside \<open>0 .. size - 1\<close> is undefined
  behaviour, which the model reports as \<open>None\<close>.
\<close>

definition vec_at :: "'a list \<Rightarrow> int \<Rightarrow> 'a option" where
  "vec_at v i = (if 0 \<le> i \<and> i < int (length v) then Some (v ! nat i) else None)"

text \<open>
  Integer division of C++ truncates toward zero; \<open>int_quot\<close> is used where the
  divisor is a non-zero literal, \<open>int_div\<close> reports a zero divisor as \<open>None\<close>.
\<close>

definition int_quot :: "int \<Rightarrow> int \<Rightarrow> int" where
  "int_quot a b = sgn a * sgn b * (\<bar>a\<bar> div \<bar>b\<bar>)"

definition int_div :: "int \<Rightarrow> int \<Rightarrow> int option" where
  "int_div a b = (if b = 0 then None else Some (int_quot a b))"

definition INT_MAX :: int where
  "INT_MAX = 2147483647"

definition double_div :: "real \<Rightarrow> real \<Rightarrow> real option" where
  "double_div a b = (if b = 0 then None else Some (a / b))"

definition manhattan_distance :: "int \<Rightarrow> int \<Rightarrow> int \<Rightarrow> int \<Rightarrow> int" where
  "manhattan_distance x1 y1 x2 y2 = \<bar>x1 - x2\<bar> + \<bar>y1 - y2\<bar>"

section \<open>Combat model: \<open>GameMechanics\<close>\<close>

definition calculate_exact_shooting_damage :: "int \<Rightarrow> int \<Rightarrow> int \<Rightarrow> int" where
  "calculate_exact_shooting_damage soaking optimal distance =
     (if distance > optimal \<or> distance = 0 then 0
      else
        let base_damage = soaking;
            base_damage =
              (if distance > 1 then
                 (let penalty = 0.25 * real_of_int (distance - 1)
                  in cast_int (real_of_int base_damage * (1.0 - penalty)))
               else base_damage)
        in max 0 base_damage)"

definition calculate_exact_bomb_damage :: "int \<Rightarrow> bool \<Rightarrow> int option" where
  "calculate_exact_bomb_damage splash_distance is_hunkered =
     (if splash_distance > 1 then Some 0
      else
        let damage = THROW_DAMAGE
        in if is_hunkered then int_div damage 2 else Some damage)"

definition calculate_movement_cost :: "int \<Rightarrow> int" where
  "calculate_movement_cost w =
     (if \<not> WETNESS_AFFECTS_DISTANCE then 1
      else
        let wetness_factor = 1.0 + (real_of_int w * 0.01)
        in cast_int (real_of_int \<lceil>wetness_factor\<rceil>))"

definition provides_cover ::
  "int \<Rightarrow> int \<Rightarrow> int \<Rightarrow> int \<Rightarrow> int list list \<Rightarrow> bool option" where
  "provides_cover x y board_width board_height tile_map =
     (if x < 0 \<or> x \<ge> board_width \<or> y < 0 \<or> y \<ge> board_height then Some False
      else if y \<ge> 0 \<and> y < int (length tile_map) \<and> x \<ge> 0
              \<and> (case vec_at tile_map 0 of None \<Rightarrow> False
                  | Some row0 \<Rightarrow> x < int (length row0))
      then
        (case vec_at tile_map y of
           None \<Rightarrow> None
         | Some row \<Rightarrow>
             (case vec_at row x of None \<Rightarrow> None | Some t \<Rightarrow> Some (t = 1)))
      else Some False)"

definition calculate_kill_probability :: "int \<Rightarrow> int \<Rightarrow> real option" where
  "calculate_kill_probability current_wetness damage =
     (if current_wetness + damage \<ge> 100 then Some 1.0
      else double_div (real_of_int (current_wetness + damage)) 100.0)"

definition calculate_tactical_advantage :: "int \<Rightarrow> int \<Rightarrow> int \<Rightarrow> int \<Rightarrow> real option" where
  "calculate_tactical_advantage my_agents_alive enemy_agents_alive
       my_total_health enemy_total_health =
     (case double_div (real_of_int my_agents_alive)
             (real_of_int (max 1 enemy_agents_alive)) of
        None \<Rightarrow> None
      | Some agent_ratio \<Rightarrow>
          (case double_div (real_of_int my_total_health)
                  (real_of_int (max 1 enemy_total_health)) of
             None \<Rightarrow> None
           | Some health_ratio \<Rightarrow> Some ((agent_ratio * 0.6) + (health_ratio * 0.4))))"

section \<open>Search-engine variant: \<open>calculate_shooting_damage\<close>\<close>

text \<open>
  The variant in \<open>reference_integration.cpp\<close> takes the shooter's profile; its target
  argument is unused. It has no test for distance zero.
\<close>

definition calculate_shooting_damage :: "AgentData \<Rightarrow> AgentState \<Rightarrow> int \<Rightarrow> int" where
  "calculate_shooting_damage shooter target distance =
     (if distance > optimal_range shooter then 0
      else
        let base_damage = soaking_power shooter;
            base_damage =
              (if distance > 1 then
                 (let penalty = 0.25 * real_of_int (distance - 1)
                  in cast_int (real_of_int base_damage * (1.0 - penalty)))
               else base_damage)
        in max 0 base_damage)"

section \<open>The heuristic engine \<open>SmartGameAI\<close>\<close>

datatype cpp_exception = out_of_range | runtime_failure

record SmartGameAI =
  all_agents_data :: "int \<Rightarrow> AgentData option"
  my_agent_ids :: "int list"
  enemy_agent_ids :: "int list"
  board_width :: int
  board_height :: int
  tile_map :: "int list list"

text \<open>\<open>all_agents_data.at(id)\<close> throws \<open>std::out_of_range\<close> for a missing key.\<close>

definition data_at :: "(int \<Rightarrow> AgentData option) \<Rightarrow> int \<Rightarrow> cpp_exception + AgentData" where
  "data_at m k = (case m k of None \<Rightarrow> Inl out_of_range | Some d \<Rightarrow> Inr d)"

definition determine_agent_class :: "AgentData \<Rightarrow> GameAgentClass" where
  "determine_agent_class d =
     (if optimal_range d = 6 \<and> soaking_power d = 24 then SNIPER
      else if optimal_range d = 2 \<and> data_splash_bombs d \<ge> 3 then BOMBER
      else if optimal_range d = 2 \<and> soaking_power d = 32 then BERSERKER
      else if optimal_range d = 4 \<and> data_splash_bombs d \<ge> 2 then ASSAULT
      else GUNNER)"

definition hunker_decision :: "real \<Rightarrow> TacticalDecision" where
  "hunker_decision v = default_decision\<lparr>action_type := ''HUNKER_DOWN'', expected_value := v\<rparr>"

text \<open>The nested loops \<open>for dx = -1..1, for dy = -1..1\<close>, in their order.\<close>

definition offsets3 :: "(int \<times> int) list" where
  "offsets3 = [(-1, -1), (-1, 0), (-1, 1), (0, -1), (0, 0), (0, 1), (1, -1), (1, 0), (1, 1)]"

text \<open>The direction table \<open>dx[], dy[]\<close> of \<open>generate_random_moves\<close>.\<close>

definition dirs8 :: "(int \<times> int) list" where
  "dirs8 = [(1, 0), (1, 1), (0, 1), (-1, 1), (-1, 0), (-1, -1), (0, -1), (1, -1)]"

definition tile_at :: "int list list \<Rightarrow> int \<Rightarrow> int \<Rightarrow> int" where
  \<comment> \<open>\<open>tile_map[y][x]\<close> behind the guard \<open>y < tile_map.size() && x < tile_map[y].size()\<close>,
      with the default 0 the caller keeps when the guard fails\<close>
  "tile_at tm cx cy =
     (case vec_at tm cy of
        None \<Rightarrow> 0
      | Some row \<Rightarrow> (case vec_at row cx of None \<Rightarrow> 0 | Some t \<Rightarrow> t))"

fun cover_scan :: "SmartGameAI \<Rightarrow> AgentState \<Rightarrow> AgentState \<Rightarrow> (int \<times> int) list \<Rightarrow> real" where
  "cover_scan ai shooter target [] = 1.0"
| "cover_scan ai shooter target ((dx, dy) # rest) =
     (if dx = 0 \<and> dy = 0 then cover_scan ai shooter target rest
      else
        let cover_x = pos_x target + dx;
            cover_y = pos_y target + dy
        in if cover_x \<ge> 0 \<and> cover_x < board_width ai \<and> cover_y \<ge> 0 \<and> cover_y < board_height ai
           then
             (let cover_type = tile_at (tile_map ai) cover_x cover_y
              in if (cover_type = 1 \<or> cover_type = 2)
                    \<and> ((cover_x = pos_x target + 1 \<and> pos_x shooter < pos_x target)
                       \<or> (cover_x = pos_x target - 1 \<and> pos_x shooter > pos_x target)
                       \<or> (cover_y = pos_y target + 1 \<and> pos_y shooter < pos_y target)
                       \<or> (cover_y = pos_y target - 1 \<and> pos_y shooter > pos_y target))
                 then (if cover_type = 1 then 0.5 else 0.25)
                 else cover_scan ai shooter target rest)
           else cover_scan ai shooter target rest)"

definition calculate_cover_protection :: "SmartGameAI \<Rightarrow> AgentState \<Rightarrow> AgentState \<Rightarrow> real" where
  "calculate_cover_protection ai shooter target = cover_scan ai shooter target offsets3"

definition agent_distance :: "AgentState \<Rightarrow> AgentState \<Rightarrow> int" where
  "agent_distance a b = \<bar>pos_x a - pos_x b\<bar> + \<bar>pos_y a - pos_y b\<bar>"

definition shooting_step ::
  "SmartGameAI \<Rightarrow> AgentData \<Rightarrow> AgentState \<Rightarrow> AgentState \<Rightarrow> TacticalDecision \<Rightarrow> TacticalDecision" where
  "shooting_step ai d agent enemy best_shot =
     (if \<not> is_alive enemy then best_shot
      else
        let distance = agent_distance agent enemy
        in if distance > optimal_range d * 2 then best_shot
           else
             let base_damage = soaking_power d;
                 base_damage = (if distance > optimal_range d then int_quot base_damage 2 else base_damage);
                 cover_multiplier = calculate_cover_protection ai agent enemy;
                 final_damage = cast_int (real_of_int base_damage * cover_multiplier)
             in if final_damage > 0 then
                  (let ev = real_of_int final_damage * 150.0;
                       ev = (if wetness enemy + final_damage \<ge> 100 then ev + 8000.0
                             else ev + real_of_int (wetness enemy + final_damage) * 80.0);
                       ev = (if wetness enemy > 50 then ev * 1.5 else ev);
                       ev = (if wetness enemy > 80 then ev * 2.0 else ev)
                   in if ev > expected_value best_shot
                      then best_shot\<lparr>action_type := ''SHOOT'', target_agent_id := agent_id enemy,
                                      expected_value := ev, expected_damage := final_damage\<rparr>
                      else best_shot)
                else best_shot)"

definition find_best_shooting_target ::
  "SmartGameAI \<Rightarrow> AgentState \<Rightarrow> AgentState list \<Rightarrow> cpp_exception + TacticalDecision" where
  "find_best_shooting_target ai agent enemies =
     (let best_shot = hunker_decision 0
      in if cooldown agent > 0 \<or> enemies = [] then Inr best_shot
         else
           (case data_at (all_agents_data ai) (agent_id agent) of
              Inl e \<Rightarrow> Inl e
            | Inr d \<Rightarrow> Inr (fold (shooting_step ai d agent) enemies best_shot)))"

definition in_splash :: "int \<Rightarrow> int \<Rightarrow> AgentState \<Rightarrow> bool" where
  "in_splash b_x b_y a = (\<bar>b_x - pos_x a\<bar> + \<bar>b_y - pos_y a\<bar> \<le> 1)"

definition calculate_total_splash_damage_clean :: "AgentState list \<Rightarrow> int \<Rightarrow> int \<Rightarrow> int" where
  "calculate_total_splash_damage_clean enemies b_x b_y =
     max 0 (fold (\<lambda>enemy total_damage.
                    if \<not> is_alive enemy then total_damage
                    else if in_splash b_x b_y enemy then total_damage + 30
                    else total_damage) enemies 0)"

definition count_enemies_in_splash_clean :: "AgentState list \<Rightarrow> int \<Rightarrow> int \<Rightarrow> int" where
  "count_enemies_in_splash_clean enemies b_x b_y =
     fold (\<lambda>enemy n.
             if \<not> is_alive enemy then n
             else if in_splash b_x b_y enemy then n + 1
             else n) enemies 0"

text \<open>
  The friendly-fire test of \<open>find_best_bombing_target_with_allies\<close>: some living ally
  other than the thrower stands within Manhattan distance 1 of the landing tile.
\<close>

definition hits_friendly :: "AgentState \<Rightarrow> AgentState list \<Rightarrow> int \<Rightarrow> int \<Rightarrow> bool" where
  "hits_friendly agent allies b_x b_y =
     list_ex (\<lambda>ally. agent_id ally \<noteq> agent_id agent \<and> is_alive ally \<and> in_splash b_x b_y ally) allies"

definition bomb_tile_step ::
  "SmartGameAI \<Rightarrow> AgentState \<Rightarrow> AgentState list \<Rightarrow> AgentState list \<Rightarrow> AgentState
     \<Rightarrow> int \<times> int \<Rightarrow> int \<times> int \<times> int \<Rightarrow> int \<times> int \<times> int" where
  "bomb_tile_step ai agent enemies allies enemy off best =
     (let b_x = pos_x enemy + fst off;
          b_y = pos_y enemy + snd off
      in if b_x < 0 \<or> b_x \<ge> board_width ai \<or> b_y < 0 \<or> b_y \<ge> board_height ai then best
         else if \<bar>pos_x agent - b_x\<bar> + \<bar>pos_y agent - b_y\<bar> > THROW_DISTANCE_MAX then best
         else if hits_friendly agent allies b_x b_y then best
         else
           let total_damage = calculate_total_splash_damage_clean enemies b_x b_y
           in if total_damage > snd (snd best) then (b_x, b_y, total_damage) else best)"

definition bomb_enemy_step ::
  "SmartGameAI \<Rightarrow> AgentState \<Rightarrow> AgentState list \<Rightarrow> AgentState list \<Rightarrow> AgentState
     \<Rightarrow> int \<times> int \<times> int \<Rightarrow> int \<times> int \<times> int" where
  "bomb_enemy_step ai agent enemies allies enemy best =
     (if \<not> is_alive enemy then best
      else if agent_distance agent enemy \<le> THROW_DISTANCE_MAX
      then fold (bomb_tile_step ai agent enemies allies enemy) offsets3 best
      else best)"

definition find_best_bombing_target_with_allies ::
  "SmartGameAI \<Rightarrow> AgentState \<Rightarrow> AgentState list \<Rightarrow> AgentState list \<Rightarrow> TacticalDecision" where
  "find_best_bombing_target_with_allies ai agent enemies allies =
     (let best_bomb = hunker_decision 0
      in if cooldown agent > 0 \<or> splash_bombs agent \<le> 0 then best_bomb
         else
           let best = fold (bomb_enemy_step ai agent enemies allies) enemies (-1, -1, 0);
               best_x = fst best;
               best_y = fst (snd best);
               best_damage = snd (snd best)
           in if best_x \<noteq> -1 \<and> best_y \<noteq> -1 \<and> best_damage > 0 then
                (let ev = real_of_int best_damage * 20.0;
                     enemies_hit = count_enemies_in_splash_clean enemies best_x best_y;
                     ev = (if enemies_hit > 1 then ev + real_of_int enemies_hit * 500.0 else ev)
                 in best_bomb\<lparr>action_type := ''THROW'', target_x := best_x, target_y := best_y,
                                expected_value := ev, expected_damage := best_damage\<rparr>)
              else best_bomb)"

definition find_best_bombing_target ::
  "SmartGameAI \<Rightarrow> AgentState \<Rightarrow> AgentState list \<Rightarrow> TacticalDecision" where
  "find_best_bombing_target ai agent enemies =
     find_best_bombing_target_with_allies ai agent enemies []"

text \<open>
  The scan for the closest living enemy (\<open>closest_enemy\<close>, \<open>priority_target\<close>,
  \<open>closest_target\<close>): the first agent at the least Manhattan distance from \<open>(px, py)\<close>,
  or \<open>None\<close> for the null pointer.
\<close>

definition closest_step ::
  "int \<Rightarrow> int \<Rightarrow> AgentState \<Rightarrow> AgentState option \<times> int \<Rightarrow> AgentState option \<times> int" where
  "closest_step px py other best =
     (if \<not> is_alive other then best
      else
        let distance = \<bar>px - pos_x other\<bar> + \<bar>py - pos_y other\<bar>
        in if distance < snd best then (Some other, distance) else best)"

definition closest_alive :: "int \<Rightarrow> int \<Rightarrow> AgentState list \<Rightarrow> AgentState option \<times> int" where
  "closest_alive px py others = fold (closest_step px py) others (None, INT_MAX)"

text \<open>The list \<open>occupied\<close>: living allies other than the agent, then living enemies.\<close>

definition occupied_positions ::
  "AgentState \<Rightarrow> AgentState list \<Rightarrow> AgentState list \<Rightarrow> (int \<times> int) list" where
  "occupied_positions agent enemies allies =
     map (\<lambda>a. (pos_x a, pos_y a))
       (filter (\<lambda>ally. agent_id ally \<noteq> agent_id agent \<and> is_alive ally) allies)
     @ map (\<lambda>a. (pos_x a, pos_y a)) (filter is_alive enemies)"

definition in_bounds :: "SmartGameAI \<Rightarrow> int \<Rightarrow> int \<Rightarrow> bool" where
  "in_bounds ai nx ny = (nx \<ge> 0 \<and> nx < board_width ai \<and> ny \<ge> 0 \<and> ny < board_height ai)"

definition movement_candidates :: "SmartGameAI \<Rightarrow> AgentState \<Rightarrow> bool \<Rightarrow> (int \<times> int) list" where
  "movement_candidates ai agent has_target =
     filter (\<lambda>c. in_bounds ai (fst c) (snd c))
       (map (\<lambda>off. (pos_x agent + fst off, pos_y agent + snd off)) dirs8)
     @ (if has_target then
          concat (map (\<lambda>step.
             filter (\<lambda>c. in_bounds ai (fst c) (snd c))
               (map (\<lambda>off. (pos_x agent + fst off * step, pos_y agent + snd off * step)) dirs8))
             [1, 2])
        else [])"

definition move_value :: "AgentData \<Rightarrow> AgentState \<Rightarrow> AgentState \<Rightarrow> int \<Rightarrow> int \<Rightarrow> real" where
  "move_value d agent target nx ny =
     (let ev = 300.0;
          old_distance = \<bar>pos_x agent - pos_x target\<bar> + \<bar>pos_y agent - pos_y target\<bar>;
          new_distance = \<bar>nx - pos_x target\<bar> + \<bar>ny - pos_y target\<bar>;
          ev = (if new_distance < old_distance then ev + 2000.0 else ev);
          ev = (if nx > pos_x agent then ev + 1500.0 else ev);
          ev = (if new_distance \<le> optimal_range d then ev + 3000.0 else ev);
          ev = (if new_distance \<le> optimal_range d + 2 then ev + 1000.0 else ev);
          ev = (if new_distance > old_distance then ev - 1000.0 else ev);
          ev = (if nx < pos_x agent then ev - 700.0 else ev)
      in ev)"

definition random_move_candidate ::
  "SmartGameAI \<Rightarrow> AgentState \<Rightarrow> (int \<times> int) list \<Rightarrow> AgentState option \<Rightarrow> int \<times> int
     \<Rightarrow> cpp_exception + TacticalDecision option" where
  "random_move_candidate ai agent occupied priority_target c =
     (let nx = fst c; ny = snd c
      in if list_ex (\<lambda>pos. fst pos = nx \<and> snd pos = ny) occupied then Inr None
         else
           let move_decision = default_decision\<lparr>action_type := ''MOVE'', target_x := nx, target_y := ny\<rparr>
           in case priority_target of
                None \<Rightarrow> Inr (Some (move_decision\<lparr>expected_value := 300.0\<rparr>))
              | Some target \<Rightarrow>
                  (case data_at (all_agents_data ai) (agent_id agent) of
                     Inl e \<Rightarrow> Inl e
                   | Inr d \<Rightarrow>
                       Inr (Some (move_decision\<lparr>expected_value := move_value d agent target nx ny\<rparr>))))"

text \<open>A loop that appends to a vector and is left by the first exception thrown.\<close>

fun collect :: "('a \<Rightarrow> cpp_exception + 'b option) \<Rightarrow> 'a list \<Rightarrow> cpp_exception + 'b list" where
  "collect f [] = Inr []"
| "collect f (c # cs) =
     (case f c of
        Inl e \<Rightarrow> Inl e
      | Inr r \<Rightarrow>
          (case collect f cs of
             Inl e \<Rightarrow> Inl e
           | Inr rs \<Rightarrow> Inr ((case r of None \<Rightarrow> [] | Some m \<Rightarrow> [m]) @ rs)))"

text \<open>The parameter \<open>num_simulations\<close> of \<open>generate_random_moves\<close> is never read.\<close>

definition generate_random_moves ::
  "SmartGameAI \<Rightarrow> AgentState \<Rightarrow> AgentState list \<Rightarrow> AgentState list \<Rightarrow> int
     \<Rightarrow> cpp_exception + TacticalDecision list" where
  "generate_random_moves ai agent enemies allies num_simulations =
     (let occupied = occupied_positions agent enemies allies;
          priority_target = fst (closest_alive (pos_x agent) (pos_y agent) enemies);
          candidates = movement_candidates ai agent (priority_target \<noteq> None)
      in case collect (random_move_candidate ai agent occupied priority_target) candidates of
           Inl e \<Rightarrow> Inl e
         | Inr moves \<Rightarrow> Inr (if moves = [] then [hunker_decision 200.0] else moves))"

subsection \<open>\<open>evaluate_tactical_movement\<close>\<close>

definition dirs8_tactical :: "(int \<times> int) list" where
  "dirs8_tactical = [(-1, 0), (1, 0), (0, -1), (0, 1), (-1, -1), (-1, 1), (1, -1), (1, 1)]"

definition tactical_enemy_step ::
  "AgentData \<Rightarrow> AgentState \<Rightarrow> int \<Rightarrow> int \<Rightarrow> AgentState \<Rightarrow> real \<Rightarrow> real" where
  "tactical_enemy_step d agent nx ny enemy ev0 =
     (if \<not> is_alive enemy then ev0
      else
        let current_distance = \<bar>pos_x agent - pos_x enemy\<bar> + \<bar>pos_y agent - pos_y enemy\<bar>;
            new_distance = \<bar>nx - pos_x enemy\<bar> + \<bar>ny - pos_y enemy\<bar>;
            ev = (if new_distance \<le> optimal_range d \<and> current_distance > optimal_range d
                  then ev0 + 1000.0 else ev0);
            ev = (if new_distance \<le> optimal_range d then ev + 500.0 else ev);
            ev = (case agent_class d of
                    SNIPER \<Rightarrow> (if new_distance \<ge> 4 \<and> new_distance \<le> 6 then ev + 700.0 else ev)
                  | BOMBER \<Rightarrow> (if new_distance \<le> 4 then ev + 600.0 else ev)
                  | BERSERKER \<Rightarrow> (if new_distance \<le> 2 then ev + 800.0 else ev)
                  | _ \<Rightarrow> (if new_distance \<le> 4 then ev + 400.0 else ev));
            ev = (if wetness enemy > 50 \<and> new_distance < current_distance then ev + 300.0 else ev)
        in ev)"

definition tactical_tile_value ::
  "AgentData \<Rightarrow> AgentState \<Rightarrow> AgentState list \<Rightarrow> int \<Rightarrow> int \<Rightarrow> real" where
  "tactical_tile_value d agent enemies nx ny =
     (let ev = 150.0;
          movement_cost = calculate_movement_cost (wetness agent);
          ev = (if movement_cost > 1 then ev - real_of_int (movement_cost - 1) * 50.0 else ev);
          ev = fold (tactical_enemy_step d agent nx ny) enemies ev;
          ev = (if ev > 1500.0 then 1500.0 else ev)
      in ev)"

definition tactical_dir_step ::
  "SmartGameAI \<Rightarrow> AgentData \<Rightarrow> AgentState \<Rightarrow> AgentState list \<Rightarrow> (int \<times> int) list
     \<Rightarrow> int \<times> int \<Rightarrow> TacticalDecision \<Rightarrow> TacticalDecision" where
  "tactical_dir_step ai d agent enemies occupied off best_move =
     (let nx = pos_x agent + fst off;
          ny = pos_y agent + snd off
      in if nx < 0 \<or> nx \<ge> board_width ai \<or> ny < 0 \<or> ny \<ge> board_height ai then best_move
         else if list_ex (\<lambda>pos. fst pos = nx \<and> snd pos = ny) occupied then best_move
         else
           let ev = tactical_tile_value d agent enemies nx ny
           in if ev > expected_value best_move
              then best_move\<lparr>action_type := ''MOVE'', target_x := nx, target_y := ny,
                              expected_value := ev\<rparr>
              else best_move)"

definition evaluate_tactical_movement ::
  "SmartGameAI \<Rightarrow> AgentState \<Rightarrow> AgentState list \<Rightarrow> AgentState list
     \<Rightarrow> cpp_exception + TacticalDecision" where
  "evaluate_tactical_movement ai agent enemies allies =
     (case data_at (all_agents_data ai) (agent_id agent) of
        Inl e \<Rightarrow> Inl e
      | Inr d \<Rightarrow>
          Inr (fold (tactical_dir_step ai d agent enemies (occupied_positions agent enemies allies))
                 dirs8_tactical (hunker_decision 0)))"

subsection \<open>\<open>evaluate_focus_fire\<close>\<close>

definition focus_shoot :: "AgentData \<Rightarrow> AgentState \<Rightarrow> AgentState \<Rightarrow> TacticalDecision \<Rightarrow> TacticalDecision" where
  "focus_shoot d agent priority_target focus_decision =
     (if cooldown agent = 0 \<and> agent_distance agent priority_target \<le> optimal_range d then
        (let base_damage = soaking_power d
         in if base_damage > 0 then
              (let ev = real_of_int base_damage * 200.0;
                   ev = (if wetness priority_target + base_damage \<ge> 100 then ev + 10000.0
                         else ev + real_of_int (wetness priority_target + base_damage) * 100.0)
               in focus_decision\<lparr>action_type := ''SHOOT'',
                                   target_agent_id := agent_id priority_target,
                                   expected_value := ev, expected_damage := base_damage\<rparr>)
            else focus_decision)
      else focus_decision)"

definition focus_throw :: "AgentState \<Rightarrow> AgentState \<Rightarrow> TacticalDecision \<Rightarrow> TacticalDecision" where
  "focus_throw agent priority_target focus_decision =
     (if splash_bombs agent > 0 \<and> wetness agent < 80 then
        (let bomb_throw_distance = agent_distance agent priority_target
         in if bomb_throw_distance \<le> THROW_DISTANCE_MAX then
              (let bomb_damage = 30;
                   ev = real_of_int bomb_damage * 150.0;
                   ev = (if wetness priority_target + bomb_damage \<ge> 100 then ev + 8000.0 else ev)
               in if ev > expected_value focus_decision
                  then focus_decision\<lparr>action_type := ''THROW'',
                                        target_x := pos_x priority_target,
                                        target_y := pos_y priority_target,
                                        expected_value := ev, expected_damage := bomb_damage\<rparr>
                  else focus_decision)
            else focus_decision)
      else focus_decision)"

definition evaluate_focus_fire ::
  "SmartGameAI \<Rightarrow> AgentState \<Rightarrow> AgentState \<Rightarrow> cpp_exception + TacticalDecision" where
  "evaluate_focus_fire ai agent priority_target =
     (case data_at (all_agents_data ai) (agent_id agent) of
        Inl e \<Rightarrow> Inl e
      | Inr d \<Rightarrow>
          Inr (focus_throw agent priority_target
                 (focus_shoot d agent priority_target (hunker_decision 0))))"

subsection \<open>Action lines\<close>

text \<open>\<open>std::to_string\<close> on an \<open>int\<close>: decimal digits, with a minus sign when negative.\<close>

definition digit_char :: "nat \<Rightarrow> char" where
  "digit_char n = ''0123456789'' ! n"

function string_of_nat :: "nat \<Rightarrow> string" where
  "string_of_nat n =
     (if n < 10 then [digit_char n] else string_of_nat (n div 10) @ [digit_char (n mod 10)])"
  by pat_completeness auto
termination
  by (relation "measure id") auto

declare string_of_nat.simps [simp del]

definition to_string :: "int \<Rightarrow> string" where
  "to_string i = (if i < 0 then ''-'' @ string_of_nat (nat (- i)) else string_of_nat (nat i))"

definition format_compound_action :: "int \<Rightarrow> TacticalDecision \<Rightarrow> string" where
  "format_compound_action aid decision =
     (if action_type decision = ''SHOOT'' then
        to_string aid @ '';SHOOT '' @ to_string (target_agent_id decision) @ ''; HUNKER_DOWN''
      else if action_type decision = ''MOVE'' then
        to_string aid @ '';MOVE '' @ to_string (target_x decision) @ '' ''
          @ to_string (target_y decision) @ ''; HUNKER_DOWN''
      else if action_type decision = ''THROW'' then
        to_string aid @ '';THROW '' @ to_string (target_x decision) @ '' ''
          @ to_string (target_y decision) @ ''; HUNKER_DOWN''
      else if action_type decision = ''MOVE_SHOOT'' then
        to_string aid @ '';MOVE '' @ to_string (target_x decision) @ '' ''
          @ to_string (target_y decision) @ ''; SHOOT '' @ to_string (target_agent_id decision)
      else if action_type decision = ''MOVE_THROW'' then
        to_string aid @ '';MOVE '' @ to_string (target_x decision) @ '' ''
          @ to_string (target_y decision) @ ''; THROW '' @ to_string (bomb_x decision) @ '' ''
          @ to_string (bomb_y decision)
      else to_string aid @ '';HUNKER_DOWN'')"

subsection \<open>The joint step of \<open>SmitsimaxSearch\<close>\<close>

text \<open>
  The body of the loop of \<open>apply_joint_action\<close> for one agent and its action. The
  parameter \<open>enemies\<close> of \<open>apply_joint_action\<close> is never read.
\<close>

definition apply_joint_action_step :: "AgentState \<Rightarrow> TacticalDecision \<Rightarrow> AgentState" where
  "apply_joint_action_step agent0 action =
     (if \<not> is_alive agent0 then agent0
      else
        let agent =
              (if action_type action = ''MOVE'' then
                 agent0\<lparr>pos_x := target_x action, pos_y := target_y action\<rparr>
               else if action_type action = ''SHOOT'' \<and> cooldown agent0 = 0 then
                 agent0\<lparr>cooldown := 1\<rparr>
               else if action_type action = ''THROW'' \<and> splash_bombs agent0 > 0 then
                 agent0\<lparr>splash_bombs := splash_bombs agent0 - 1, cooldown := 2\<rparr>
               else agent0)
        in if cooldown agent > 0 then agent\<lparr>cooldown := cooldown agent - 1\<rparr> else agent)"

fun apply_joint_action ::
  "AgentState list \<Rightarrow> TacticalDecision list \<Rightarrow> AgentState list \<Rightarrow> AgentState list" where
  "apply_joint_action (agent # agents) (action # actions) enemies =
     apply_joint_action_step agent action # apply_joint_action agents actions enemies"
| "apply_joint_action agents actions enemies = agents"

definition enemy_response_step :: "AgentState list \<Rightarrow> AgentState \<Rightarrow> AgentState" where
  "enemy_response_step my_agents enemy =
     (if \<not> is_alive enemy then enemy
      else
        (case fst (closest_alive (pos_x enemy) (pos_y enemy) my_agents) of
           None \<Rightarrow> enemy
         | Some closest_target \<Rightarrow>
             (if pos_x enemy < pos_x closest_target then enemy\<lparr>pos_x := pos_x enemy + 1\<rparr>
              else if pos_x enemy > pos_x closest_target then enemy\<lparr>pos_x := pos_x enemy - 1\<rparr>
              else if pos_y enemy < pos_y closest_target then enemy\<lparr>pos_y := pos_y enemy + 1\<rparr>
              else if pos_y enemy > pos_y closest_target then enemy\<lparr>pos_y := pos_y enemy - 1\<rparr>
              else enemy)))"

definition simulate_enemy_response_enhanced ::
  "AgentState list \<Rightarrow> AgentState list \<Rightarrow> bool \<Rightarrow> AgentState list" where
  "simulate_enemy_response_enhanced enemies my_agents use_game_folder =
     map (enemy_response_step my_agents) enemies"

text \<open>
  One expansion step of \<open>smitsimax_search\<close>: the child state a joint action leads to,
  as the pair of the new controlled agents and the new enemies.
\<close>

definition joint_simulation ::
  "AgentState list \<Rightarrow> AgentState list \<Rightarrow> TacticalDecision list
     \<Rightarrow> AgentState list \<times> AgentState list" where
  "joint_simulation my_agents enemy_agents joint_action =
     (let new_my_agents = apply_joint_action my_agents joint_action enemy_agents;
          new_enemies = simulate_enemy_response_enhanced enemy_agents new_my_agents False
      in (new_my_agents, new_enemies))"

section \<open>The turn orchestrator (\<open>main\<close> of the heuristic engine)\<close>

text \<open>
  The decision of one agent comes from \<open>make_optimal_decision\<close> or, in search mode, from
  \<open>smitsimax_search\<close>, whose result depends on the wall clock. The orchestrator only
  consumes these proposals, so both are parameters of its model; either may end in an
  exception, which \<open>main\<close> catches.
\<close>

record TurnState =
  movement_blacklist :: "(int \<times> int) set"
  agent_decisions :: "int \<Rightarrow> TacticalDecision option"

definition is_move_class :: "TacticalDecision \<Rightarrow> bool" where
  "is_move_class decision =
     (action_type decision = ''MOVE'' \<or> action_type decision = ''MOVE_SHOOT''
      \<or> action_type decision = ''MOVE_THROW'')"

text \<open>The direction table \<open>dx[], dy[]\<close> of the search for an alternative tile.\<close>

definition alt_dirs :: "(int \<times> int) list" where
  "alt_dirs = [(1, 0), (-1, 0), (0, 1), (0, -1), (1, 1), (-1, 1), (1, -1), (-1, -1)]"

definition tile_occupied :: "AgentState \<Rightarrow> AgentState list \<Rightarrow> AgentState list \<Rightarrow> int \<times> int \<Rightarrow> bool" where
  "tile_occupied agent current_my_agents current_enemy_agents alt_pos =
     (list_ex (\<lambda>other. agent_id other \<noteq> agent_id agent
                        \<and> pos_x other = fst alt_pos \<and> pos_y other = snd alt_pos) current_my_agents
      \<or> list_ex (\<lambda>enemy. pos_x enemy = fst alt_pos \<and> pos_y enemy = snd alt_pos)
           current_enemy_agents)"

definition alternative_free ::
  "SmartGameAI \<Rightarrow> (int \<times> int) set \<Rightarrow> AgentState \<Rightarrow> AgentState list \<Rightarrow> AgentState list
     \<Rightarrow> int \<times> int \<Rightarrow> bool" where
  "alternative_free ai blacklist agent current_my_agents current_enemy_agents alt_pos =
     (in_bounds ai (fst alt_pos) (snd alt_pos)
      \<and> alt_pos \<notin> blacklist
      \<and> \<not> tile_occupied agent current_my_agents current_enemy_agents alt_pos)"

definition alternatives :: "TacticalDecision \<Rightarrow> (int \<times> int) list" where
  "alternatives decision =
     map (\<lambda>off. (target_x decision + fst off, target_y decision + snd off)) alt_dirs"

definition resolve_collision ::
  "SmartGameAI \<Rightarrow> AgentState list \<Rightarrow> AgentState list \<Rightarrow> AgentState \<Rightarrow> TacticalDecision
     \<Rightarrow> (int \<times> int) set \<Rightarrow> TacticalDecision \<times> (int \<times> int) set" where
  "resolve_collision ai current_my_agents current_enemy_agents agent decision blacklist =
     (if is_move_class decision then
        (let target_pos = (target_x decision, target_y decision)
         in if target_pos \<in> blacklist then
              (case find (alternative_free ai blacklist agent current_my_agents current_enemy_agents)
                      (alternatives decision) of
                 Some alt_pos \<Rightarrow>
                   (decision\<lparr>target_x := fst alt_pos, target_y := snd alt_pos\<rparr>,
                    insert alt_pos blacklist)
               | None \<Rightarrow> (decision\<lparr>action_type := ''HUNKER_DOWN''\<rparr>, blacklist))
            else (decision, insert target_pos blacklist))
      else (decision, blacklist))"

definition focus_fire_override ::
  "SmartGameAI \<Rightarrow> AgentState option \<Rightarrow> AgentState \<Rightarrow> TacticalDecision
     \<Rightarrow> cpp_exception + TacticalDecision" where
  "focus_fire_override ai priority_target agent decision =
     (case priority_target of
        None \<Rightarrow> Inr decision
      | Some target \<Rightarrow>
          (if cooldown agent = 0 then
             (case evaluate_focus_fire ai agent target of
                Inl e \<Rightarrow> Inl e
              | Inr focus_fire \<Rightarrow>
                  Inr (if expected_value focus_fire > expected_value decision * 0.8
                       then focus_fire else decision))
           else Inr decision))"

text \<open>
  The decision an agent starts from: the one stored for its id by the search, when the
  search ran and stored one, and \<open>make_optimal_decision\<close> otherwise.
\<close>

definition proposed_decision ::
  "bool \<Rightarrow> (AgentState \<Rightarrow> cpp_exception + TacticalDecision)
     \<Rightarrow> (int \<Rightarrow> TacticalDecision option) \<Rightarrow> AgentState \<Rightarrow> cpp_exception + TacticalDecision" where
  "proposed_decision use_smitsimax make_optimal_decision decisions agent =
     (case (if use_smitsimax then decisions (agent_id agent) else None) of
        Some d \<Rightarrow> Inr d
      | None \<Rightarrow> make_optimal_decision agent)"

definition process_agent ::
  "SmartGameAI \<Rightarrow> bool \<Rightarrow> (AgentState \<Rightarrow> cpp_exception + TacticalDecision)
     \<Rightarrow> AgentState list \<Rightarrow> AgentState list \<Rightarrow> AgentState option
     \<Rightarrow> AgentState \<Rightarrow> TurnState \<Rightarrow> cpp_exception + TurnState" where
  "process_agent ai use_smitsimax make_optimal_decision current_my_agents current_enemy_agents
       priority_target agent st =
     (if is_alive agent then
        (case proposed_decision use_smitsimax make_optimal_decision (agent_decisions st) agent of
           Inl e \<Rightarrow> Inl e
         | Inr proposed \<Rightarrow>
             (let resolved = resolve_collision ai current_my_agents current_enemy_agents agent
                               proposed (movement_blacklist st)
              in case focus_fire_override ai priority_target agent (fst resolved) of
                   Inl e \<Rightarrow> Inl e
                 | Inr decision \<Rightarrow>
                     Inr \<lparr>movement_blacklist = snd resolved,
                          agent_decisions = (agent_decisions st)(agent_id agent \<mapsto> decision)\<rparr>))
      else
        Inr (st\<lparr>agent_decisions :=
                   (agent_decisions st)(agent_id agent \<mapsto> hunker_decision 0)\<rparr>))"

fun process_agents ::
  "SmartGameAI \<Rightarrow> bool \<Rightarrow> (AgentState \<Rightarrow> cpp_exception + TacticalDecision)
     \<Rightarrow> AgentState list \<Rightarrow> AgentState list \<Rightarrow> AgentState option
     \<Rightarrow> AgentState list \<Rightarrow> TurnState \<Rightarrow> cpp_exception + TurnState" where
  "process_agents ai use_smitsimax mk current_my_agents current_enemy_agents priority_target [] st =
     Inr st"
| "process_agents ai use_smitsimax mk current_my_agents current_enemy_agents priority_target
       (agent # rest) st =
     (case process_agent ai use_smitsimax mk current_my_agents current_enemy_agents
             priority_target agent st of
        Inl e \<Rightarrow> Inl e
      | Inr st' \<Rightarrow>
          process_agents ai use_smitsimax mk current_my_agents current_enemy_agents
            priority_target rest st')"

definition target_score :: "AgentState list \<Rightarrow> AgentState \<Rightarrow> real" where
  "target_score current_my_agents enemy =
     (let min_distance_to_enemy =
            fold (\<lambda>my_agent m. min m (agent_distance my_agent enemy)) current_my_agents INT_MAX;
          ts = 0.0;
          ts = (if splash_bombs enemy > 0 then ts + real_of_int (splash_bombs enemy) * 3000.0 else ts);
          ts = (if wetness enemy > 50 then ts + real_of_int (wetness enemy - 50) * 60.0 else ts);
          ts = ts + real_of_int (10 - min_distance_to_enemy) * 100.0;
          ts = (if cooldown enemy \<le> 1 then ts + 1500.0 else ts)
      in ts)"

definition priority_step ::
  "AgentState list \<Rightarrow> AgentState \<Rightarrow> AgentState option \<times> real \<Rightarrow> AgentState option \<times> real" where
  "priority_step current_my_agents enemy best =
     (let ts = target_score current_my_agents enemy
      in if ts > snd best then (Some enemy, ts) else best)"

definition select_priority_target :: "AgentState list \<Rightarrow> AgentState list \<Rightarrow> AgentState option" where
  "select_priority_target current_my_agents current_enemy_agents =
     fst (fold (priority_step current_my_agents) current_enemy_agents (None, -1000.0))"

definition initial_decisions ::
  "AgentState list \<Rightarrow> TacticalDecision list \<Rightarrow> int \<Rightarrow> TacticalDecision option" where
  "initial_decisions current_my_agents joint_actions =
     fold (\<lambda>p m. m(agent_id (fst p) \<mapsto> snd p)) (zip current_my_agents joint_actions) Map.empty"

definition compute_decisions ::
  "SmartGameAI \<Rightarrow> int
     \<Rightarrow> (AgentState list \<Rightarrow> AgentState list \<Rightarrow> cpp_exception + TacticalDecision list)
     \<Rightarrow> (AgentState \<Rightarrow> cpp_exception + TacticalDecision)
     \<Rightarrow> AgentState list \<Rightarrow> AgentState list
     \<Rightarrow> cpp_exception + (int \<Rightarrow> TacticalDecision option)" where
  "compute_decisions ai turn_number smitsimax_search make_optimal_decision
       current_my_agents current_enemy_agents =
     (let priority_target = select_priority_target current_my_agents current_enemy_agents;
          use_smitsimax = (length current_my_agents \<ge> 2 \<and> length current_enemy_agents \<ge> 1
                           \<and> turn_number \<ge> 3)
      in case (if use_smitsimax then smitsimax_search current_my_agents current_enemy_agents
               else Inr []) of
           Inl e \<Rightarrow> Inl e
         | Inr joint_actions \<Rightarrow>
             (case process_agents ai use_smitsimax make_optimal_decision current_my_agents
                     current_enemy_agents priority_target current_my_agents
                     \<lparr>movement_blacklist = {},
                      agent_decisions = initial_decisions current_my_agents joint_actions\<rparr> of
                Inl e \<Rightarrow> Inl e
              | Inr st \<Rightarrow> Inr (agent_decisions st)))"

text \<open>
  One output line. \<open>my_agent_ids[0]\<close> on an empty vector is undefined behaviour, reported
  as \<open>None\<close>.
\<close>

definition output_line ::
  "SmartGameAI \<Rightarrow> AgentState list \<Rightarrow> (int \<Rightarrow> TacticalDecision option) \<Rightarrow> nat \<Rightarrow> string option" where
  "output_line ai alive_agents decisions line =
     (if line < length alive_agents then
        (let aid = agent_id (alive_agents ! line);
             decision = (case decisions aid of
                           Some d \<Rightarrow> d
                         | None \<Rightarrow> default_decision\<lparr>action_type := ''HUNKER_DOWN''\<rparr>)
         in Some (format_compound_action aid decision))
      else
        (case (if alive_agents = [] then vec_at (my_agent_ids ai) 0
               else Some (agent_id (alive_agents ! 0))) of
           None \<Rightarrow> None
         | Some fallback_agent_id \<Rightarrow> Some (to_string fallback_agent_id @ '';HUNKER_DOWN'')))"

definition output_lines ::
  "SmartGameAI \<Rightarrow> AgentState list \<Rightarrow> (int \<Rightarrow> TacticalDecision option) \<Rightarrow> int
     \<Rightarrow> string option list" where
  "output_lines ai current_my_agents decisions expected_count =
     map (output_line ai (filter is_alive current_my_agents) decisions) [0..<nat expected_count]"

record TurnInput =
  turn_agents :: "AgentState list"
  my_agent_count :: int

definition current_my_agents_of :: "SmartGameAI \<Rightarrow> TurnInput \<Rightarrow> AgentState list" where
  "current_my_agents_of ai inp =
     filter (\<lambda>a. agent_id a \<in> set (my_agent_ids ai)) (turn_agents inp)"

definition current_enemy_agents_of :: "SmartGameAI \<Rightarrow> TurnInput \<Rightarrow> AgentState list" where
  "current_enemy_agents_of ai inp =
     filter (\<lambda>a. agent_id a \<notin> set (my_agent_ids ai)) (turn_agents inp)"

text \<open>
  The body of the match loop for one turn: \<open>None\<close> as input is the exhausted or failed
  stream, on which the loop is left. The \<open>catch\<close> block prints one line per entry of
  \<open>my_agent_ids\<close>.
\<close>

datatype turn_outcome = Stream_end | Lines "string option list"

definition exception_lines :: "SmartGameAI \<Rightarrow> string option list" where
  "exception_lines ai = map (\<lambda>i. Some (to_string i @ '';HUNKER_DOWN'')) (my_agent_ids ai)"

definition run_turn ::
  "SmartGameAI \<Rightarrow> int \<Rightarrow> TurnInput option
     \<Rightarrow> (AgentState list \<Rightarrow> AgentState list \<Rightarrow> cpp_exception + TacticalDecision list)
     \<Rightarrow> (AgentState \<Rightarrow> cpp_exception + TacticalDecision)
     \<Rightarrow> turn_outcome" where
  "run_turn ai turn_number input smitsimax_search make_optimal_decision =
     (case input of
        None \<Rightarrow> Stream_end
      | Some inp \<Rightarrow>
          (case compute_decisions ai turn_number smitsimax_search make_optimal_decision
                  (current_my_agents_of ai inp) (current_enemy_agents_of ai inp) of
             Inl e \<Rightarrow> Lines (exception_lines ai)
           | Inr decisions \<Rightarrow>
               Lines (output_lines ai (current_my_agents_of ai inp) decisions
                        (my_agent_count inp))))"

text \<open>
  The match loop over the turns of the input stream, each with the behaviour of the
  proposal generators in that turn. \<open>turn_number\<close> is the value before its increment.
\<close>

fun run_match ::
  "SmartGameAI \<Rightarrow> int
     \<Rightarrow> (TurnInput option
          \<times> (AgentState list \<Rightarrow> AgentState list \<Rightarrow> cpp_exception + TacticalDecision list)
          \<times> (AgentState \<Rightarrow> cpp_exception + TacticalDecision)) list
     \<Rightarrow> string option list list" where
  "run_match ai turn_number [] = []"
| "run_match ai turn_number ((input, smitsimax_search, make_optimal_decision) # rest) =
     (case run_turn ai (turn_number + 1) input smitsimax_search make_optimal_decision of
        Stream_end \<Rightarrow> []
      | Lines ls \<Rightarrow> ls # run_match ai (turn_number + 1) rest)"

section \<open>The search variant (\<open>reference_integration.cpp\<close>)\<close>

text \<open>
  A \<open>SmitsimaxNode\<close> carries the move it stands for; its tree links and statistics
  (\<open>parent\<close>, \<open>children\<close>, \<open>visits\<close>, \<open>total_score\<close>, \<open>tactical_priority\<close>) are not
  read by \<open>apply_action\<close> or by the output loop and are left out.
\<close>

record SmitsimaxNode =
  node_action_type :: string
  node_target_x :: int
  node_target_y :: int
  node_target_agent_id :: int

record SimulationState =
  sim_my_agents :: "AgentState list"
  sim_enemy_agents :: "AgentState list"
  sim_agent_data :: "int \<Rightarrow> AgentData option"
  sim_width :: int
  sim_height :: int
  current_nodes :: "SmitsimaxNode list"

text \<open>
  \<open>sim.agent_data[id]\<close> on an \<open>unordered_map\<close>: a missing key is inserted with a
  value-initialised (all zero) profile.
\<close>

definition zero_agent_data :: AgentData where
  "zero_agent_data =
     \<lparr>data_agent_id = 0, player = 0, shoot_cooldown = 0, optimal_range = 0,
      soaking_power = 0, data_splash_bombs = 0, agent_class = GUNNER\<rparr>"

definition data_index :: "(int \<Rightarrow> AgentData option) \<Rightarrow> int \<Rightarrow> AgentData" where
  "data_index m k = (case m k of None \<Rightarrow> zero_agent_data | Some d \<Rightarrow> d)"

definition data_touch :: "(int \<Rightarrow> AgentData option) \<Rightarrow> int \<Rightarrow> int \<Rightarrow> AgentData option" where
  "data_touch m k = (case m k of None \<Rightarrow> m(k \<mapsto> zero_agent_data) | Some d \<Rightarrow> m)"

definition reset_cooldown :: "AgentState \<Rightarrow> AgentState" where
  "reset_cooldown agent = (if cooldown agent > 0 then agent\<lparr>cooldown := cooldown agent - 1\<rparr> else agent)"

definition reset_to_base_state ::
  "SimulationState \<Rightarrow> AgentState list \<Rightarrow> AgentState list \<Rightarrow> SimulationState" where
  "reset_to_base_state sim base_my base_enemy =
     sim\<lparr>sim_my_agents := map reset_cooldown base_my,
         sim_enemy_agents := map reset_cooldown base_enemy\<rparr>"

text \<open>
  The \<open>SHOOT\<close> loop of \<open>apply_action\<close>: the first target with the node's id takes the
  damage and ends the loop; the result says whether one was found.
\<close>

fun shoot_targets :: "AgentData \<Rightarrow> AgentState \<Rightarrow> int \<Rightarrow> AgentState list \<Rightarrow> AgentState list \<times> bool" where
  "shoot_targets d agent tid [] = ([], False)"
| "shoot_targets d agent tid (target # rest) =
     (if agent_id target = tid then
        (let distance = manhattan_distance (pos_x agent) (pos_y agent) (pos_x target) (pos_y target);
             damage = calculate_shooting_damage d target distance
         in (target\<lparr>wetness := wetness target + damage\<rparr> # rest, True))
      else
        (let r = shoot_targets d agent tid rest in (target # fst r, snd r)))"

definition throw_target :: "AgentData \<Rightarrow> SmitsimaxNode \<Rightarrow> AgentState \<Rightarrow> AgentState" where
  "throw_target d node target =
     (let dist_to_throw = manhattan_distance (pos_x target) (pos_y target)
                            (node_target_x node) (node_target_y node)
      in if dist_to_throw \<le> 1
         then (let damage = int_quot (soaking_power d) 2
               in target\<lparr>wetness := wetness target + damage\<rparr>)
         else target)"

text \<open>
  The effect of the node's action on the acting agent and on the opposing side; the
  third component tells whether \<open>sim.agent_data[agent.agent_id]\<close> was evaluated.
\<close>

definition apply_node ::
  "SimulationState \<Rightarrow> SmitsimaxNode \<Rightarrow> AgentState \<Rightarrow> AgentState list
     \<Rightarrow> AgentState \<times> AgentState list \<times> bool" where
  "apply_node sim node agent targets =
     (let d = data_index (sim_agent_data sim) (agent_id agent)
      in if node_action_type node = ''SHOOT'' \<and> cooldown agent = 0 then
           (let r = shoot_targets d agent (node_target_agent_id node) targets
            in if snd r then (agent\<lparr>cooldown := shoot_cooldown d\<rparr>, fst r, True)
               else (agent, targets, False))
         else if node_action_type node = ''MOVE'' then
           (if node_target_x node \<ge> 0 \<and> node_target_x node < sim_width sim
               \<and> node_target_y node \<ge> 0 \<and> node_target_y node < sim_height sim
            then (agent\<lparr>pos_x := node_target_x node, pos_y := node_target_y node\<rparr>, targets, False)
            else (agent, targets, False))
         else if node_action_type node = ''THROW'' \<and> cooldown agent = 0 \<and> splash_bombs agent > 0 then
           (agent\<lparr>splash_bombs := splash_bombs agent - 1, cooldown := shoot_cooldown d\<rparr>,
            map (throw_target d node) targets, True)
         else (agent, targets, False))"

text \<open>
  \<open>apply_action\<close>. A negative index compares as a huge unsigned value and returns at
  once, like an index past the end. \<open>None\<close> is the undefined read of \<open>current_nodes\<close>
  outside its range.
\<close>

definition apply_action :: "SimulationState \<Rightarrow> int \<Rightarrow> bool \<Rightarrow> SimulationState option" where
  "apply_action sim agent_index is_my_agent =
     (let agents = (if is_my_agent then sim_my_agents sim else sim_enemy_agents sim);
          targets = (if is_my_agent then sim_enemy_agents sim else sim_my_agents sim)
      in if agent_index < 0 \<or> agent_index \<ge> int (length agents) then Some sim
         else
           (case vec_at (current_nodes sim)
                   (if is_my_agent then agent_index
                    else agent_index + int (length (sim_my_agents sim))) of
              None \<Rightarrow> None
            | Some node \<Rightarrow>
                (let agent = agents ! nat agent_index;
                     r = apply_node sim node agent targets;
                     agents' = agents[nat agent_index := fst r];
                     targets' = fst (snd r);
                     data' = (if snd (snd r) then data_touch (sim_agent_data sim) (agent_id agent)
                              else sim_agent_data sim)
                 in Some (sim\<lparr>sim_my_agents := (if is_my_agent then agents' else targets'),
                               sim_enemy_agents := (if is_my_agent then targets' else agents'),
                               sim_agent_data := data'\<rparr>))))"

text \<open>
  One simulated turn of \<open>search_original\<close>: every agent's current node is applied in
  turn, the controlled agents first. (Selection and expansion choose the nodes; here
  they are the \<open>current_nodes\<close> of the state.)
\<close>

fun apply_all :: "SimulationState \<Rightarrow> (int \<times> bool) list \<Rightarrow> SimulationState option" where
  "apply_all sim [] = Some sim"
| "apply_all sim ((i, mine) # rest) =
     (case apply_action sim i mine of None \<Rightarrow> None | Some sim' \<Rightarrow> apply_all sim' rest)"

definition simulated_turn :: "SimulationState \<Rightarrow> SimulationState option" where
  "simulated_turn sim =
     apply_all sim
       (map (\<lambda>i. (int i, True)) [0..<length (sim_my_agents sim)]
        @ map (\<lambda>i. (int i, False)) [0..<length (sim_enemy_agents sim)])"

subsection \<open>\<open>MergedSmitsimaxSearch::compute_best_move_quick\<close>\<close>

record PrecomputedMove =
  pm_action_type :: string
  pm_target_x :: int
  pm_target_y :: int
  pm_target_agent_id :: int
  confidence_score :: real

definition default_move :: PrecomputedMove where
  "default_move =
     \<lparr>pm_action_type = [], pm_target_x = -1, pm_target_y = -1, pm_target_agent_id = -1,
      confidence_score = 0\<rparr>"

definition sim_distance :: "AgentState \<Rightarrow> AgentState \<Rightarrow> int" where
  "sim_distance a b = manhattan_distance (pos_x a) (pos_y a) (pos_x b) (pos_y b)"

definition sniper_shot_score :: "AgentState \<Rightarrow> int \<Rightarrow> int \<Rightarrow> real" where
  "sniper_shot_score enemy distance damage =
     (let score = 2000.0 + real_of_int damage * 25.0;
          score = (if wetness enemy + damage \<ge> 100 then score + 3000.0 else score);
          score = (if distance \<ge> 4 then score + 1000.0 else score);
          score = (if distance = 6 then score + 500.0 else score)
      in score)"

definition sniper_step ::
  "AgentData \<Rightarrow> AgentState \<Rightarrow> AgentState \<Rightarrow> real \<times> PrecomputedMove \<Rightarrow> real \<times> PrecomputedMove" where
  "sniper_step d agent enemy best =
     (if wetness enemy < 100 then
        (let distance = sim_distance agent enemy
         in if distance \<le> 6 then
              (let damage = calculate_shooting_damage d enemy distance
               in if damage > 0 then
                    (let score = sniper_shot_score enemy distance damage
                     in if score > fst best
                        then (score, (snd best)\<lparr>pm_action_type := ''SHOOT'',
                                                 pm_target_agent_id := agent_id enemy,
                                                 confidence_score := 1.0\<rparr>)
                        else best)
                  else best)
            else best)
      else best)"

text \<open>The enemies within the splash of a bomb on \<open>center\<close>: their number and the damage.\<close>

definition splash_step :: "AgentData \<Rightarrow> AgentState \<Rightarrow> AgentState \<Rightarrow> int \<times> int \<Rightarrow> int \<times> int" where
  "splash_step d center other acc =
     (if wetness other < 100 then
        (if sim_distance center other \<le> 1
         then (fst acc + 1, snd acc + int_quot (soaking_power d) 2)
         else acc)
      else acc)"

definition splash_count :: "AgentData \<Rightarrow> AgentState list \<Rightarrow> AgentState \<Rightarrow> int \<times> int" where
  "splash_count d enemies center = fold (splash_step d center) enemies (0, 0)"

definition bomber_step ::
  "AgentData \<Rightarrow> AgentState \<Rightarrow> AgentState list \<Rightarrow> AgentState
     \<Rightarrow> (int \<times> int) \<times> real \<Rightarrow> (int \<times> int) \<times> real" where
  "bomber_step d agent enemies primary_enemy best =
     (if wetness primary_enemy < 100 then
        (if sim_distance agent primary_enemy \<le> 4 then
           (let sc = splash_count d enemies primary_enemy;
                bomb_score = 800.0 + real_of_int (snd sc) * 15.0;
                bomb_score = (if fst sc > 1 then bomb_score + real_of_int (fst sc) * 1000.0
                              else bomb_score)
            in if bomb_score > snd best
               then ((pos_x primary_enemy, pos_y primary_enemy), bomb_score)
               else best)
         else best)
      else best)"

definition bomber_phase ::
  "AgentData \<Rightarrow> AgentState \<Rightarrow> AgentState list \<Rightarrow> real \<times> PrecomputedMove \<Rightarrow> real \<times> PrecomputedMove" where
  "bomber_phase d agent enemies best =
     (let bb = fold (bomber_step d agent enemies) enemies ((-1, -1), 0)
      in if snd bb > fst best
         then (snd bb, (snd best)\<lparr>pm_action_type := ''THROW'', pm_target_x := fst (fst bb),
                                  pm_target_y := snd (fst bb), confidence_score := 1.0\<rparr>)
         else best)"

definition shot_score :: "GameAgentClass \<Rightarrow> AgentState \<Rightarrow> int \<Rightarrow> int \<Rightarrow> real" where
  "shot_score cls enemy distance damage =
     (let score = 1500.0 + real_of_int damage * 20.0;
          score = (if wetness enemy + damage \<ge> 100 then score + 2500.0 else score);
          score = (if cls = GUNNER \<and> distance \<le> 2 then score + 500.0 else score);
          score = (if cls = ASSAULT \<and> distance \<le> 3 then score + 600.0 else score);
          score = (if cls = BERSERKER \<and> distance \<le> 2 then score + 800.0 else score)
      in score)"

definition shooter_step ::
  "AgentData \<Rightarrow> GameAgentClass \<Rightarrow> AgentState \<Rightarrow> AgentState
     \<Rightarrow> real \<times> PrecomputedMove \<Rightarrow> real \<times> PrecomputedMove" where
  "shooter_step d cls agent enemy best =
     (if wetness enemy < 100 then
        (let distance = sim_distance agent enemy
         in if distance \<le> optimal_range d then
              (let damage = calculate_shooting_damage d enemy distance
               in if damage > 0 then
                    (let score = shot_score cls enemy distance damage
                     in if score > fst best
                        then (score, (snd best)\<lparr>pm_action_type := ''SHOOT'',
                                                 pm_target_agent_id := agent_id enemy,
                                                 confidence_score := 1.0\<rparr>)
                        else best)
                  else best)
            else best)
      else best)"

definition thrower_step ::
  "AgentData \<Rightarrow> AgentState \<Rightarrow> AgentState list \<Rightarrow> AgentState
     \<Rightarrow> real \<times> PrecomputedMove \<Rightarrow> real \<times> PrecomputedMove" where
  "thrower_step d agent enemies enemy best =
     (if wetness enemy < 100 then
        (if sim_distance agent enemy \<le> optimal_range d * 2 then
           (let sc = splash_count d enemies enemy;
                score = 600.0 + real_of_int (snd sc) * 12.0;
                score = (if fst sc > 1 then score + real_of_int (fst sc) * 800.0 else score)
            in if score > fst best
               then (score, (snd best)\<lparr>pm_action_type := ''THROW'', pm_target_x := pos_x enemy,
                                        pm_target_y := pos_y enemy, confidence_score := 0.9\<rparr>)
               else best)
         else best)
      else best)"

definition quick_closest_step :: "AgentState \<Rightarrow> AgentState \<Rightarrow> int \<times> int \<times> int \<Rightarrow> int \<times> int \<times> int" where
  "quick_closest_step agent enemy best =
     (if wetness enemy < 100 then
        (let dist = sim_distance agent enemy
         in if dist < fst best then (dist, pos_x enemy, pos_y enemy) else best)
      else best)"

definition positioning_step ::
  "AgentData \<Rightarrow> GameAgentClass \<Rightarrow> AgentState \<Rightarrow> int \<times> int \<Rightarrow> int \<Rightarrow> int \<Rightarrow> AgentState
     \<Rightarrow> real \<Rightarrow> real" where
  "positioning_step d cls agent closest_enemy_pos nx ny enemy cps0 =
     (if wetness enemy < 100 then
        (let current_dist = manhattan_distance (pos_x agent) (pos_y agent) (pos_x enemy) (pos_y enemy);
             new_dist = manhattan_distance nx ny (pos_x enemy) (pos_y enemy);
             cps = (if new_dist \<le> optimal_range d \<and> current_dist > optimal_range d
                    then cps0 + 800.0 else cps0);
             cps = (if new_dist \<le> optimal_range d then cps + 400.0 else cps);
             cps = (if cls = SNIPER then
                      (let c1 = (if new_dist \<ge> 4 \<and> new_dist \<le> 6 then cps + 600.0 else cps)
                       in if new_dist > current_dist \<and> current_dist < 4 then c1 + 300.0 else c1)
                    else cps);
             cps = (if cls = BOMBER \<and> new_dist \<le> 4 then
                      (let c1 = cps + 500.0 in if new_dist \<le> 2 then c1 + 300.0 else c1)
                    else cps);
             cps = (if cls = BERSERKER \<and> new_dist \<le> 2 then cps + 700.0 else cps);
             cps = (if fst closest_enemy_pos \<noteq> -1 then
                      (let current_approach = manhattan_distance (pos_x agent) (pos_y agent)
                                                (fst closest_enemy_pos) (snd closest_enemy_pos);
                           new_approach = manhattan_distance nx ny
                                            (fst closest_enemy_pos) (snd closest_enemy_pos)
                       in if new_approach < current_approach then cps + 200.0 else cps)
                    else cps)
         in cps)
      else cps0)"

text \<open>
  The score of a move to \<open>(nx, ny)\<close>, capped at 1400. \<open>strategic nx ny\<close> stands for
  \<open>evaluate_tile_strategic_value\<close>, which is computed with \<open>sqrt\<close> and \<open>pow\<close> on doubles.
\<close>

definition quick_move_score ::
  "(int \<Rightarrow> int \<Rightarrow> real) \<Rightarrow> AgentData \<Rightarrow> GameAgentClass \<Rightarrow> AgentState \<Rightarrow> AgentState list
     \<Rightarrow> int \<times> int \<Rightarrow> int \<Rightarrow> int \<Rightarrow> real" where
  "quick_move_score strategic d cls agent enemies closest_enemy_pos nx ny =
     (let strategic_score = strategic nx ny;
          combat_positioning_score =
            fold (positioning_step d cls agent closest_enemy_pos nx ny) enemies 0.0;
          combined_score = strategic_score * 50.0 + combat_positioning_score
      in if combined_score > 1400.0 then 1400.0 else combined_score)"

definition quick_blocked :: "SimulationState \<Rightarrow> AgentState \<Rightarrow> int \<Rightarrow> int \<Rightarrow> bool" where
  "quick_blocked temp_sim agent nx ny =
     (list_ex (\<lambda>other. pos_x other = nx \<and> pos_y other = ny \<and> agent_id other \<noteq> agent_id agent)
        (sim_my_agents temp_sim)
      \<or> list_ex (\<lambda>other. pos_x other = nx \<and> pos_y other = ny) (sim_enemy_agents temp_sim))"

definition quick_move_step ::
  "(int \<Rightarrow> int \<Rightarrow> real) \<Rightarrow> SimulationState \<Rightarrow> AgentData \<Rightarrow> GameAgentClass \<Rightarrow> AgentState
     \<Rightarrow> int \<times> int \<Rightarrow> int \<times> int \<Rightarrow> real \<times> PrecomputedMove \<Rightarrow> real \<times> PrecomputedMove" where
  "quick_move_step strategic temp_sim d cls agent closest_enemy_pos off best =
     (let nx = pos_x agent + fst off;
          ny = pos_y agent + snd off
      in if nx \<ge> 0 \<and> nx < sim_width temp_sim \<and> ny \<ge> 0 \<and> ny < sim_height temp_sim then
           (if \<not> quick_blocked temp_sim agent nx ny then
              (let combined_score = quick_move_score strategic d cls agent
                                      (sim_enemy_agents temp_sim) closest_enemy_pos nx ny
               in if combined_score > fst best
                  then (combined_score,
                        (snd best)\<lparr>pm_action_type := ''MOVE'', pm_target_x := nx, pm_target_y := ny,
                                    confidence_score := min 1.0 (combined_score / 1400.0)\<rparr>)
                  else best)
            else best)
         else best)"

definition quick_phases ::
  "(int \<Rightarrow> int \<Rightarrow> real) \<Rightarrow> SimulationState \<Rightarrow> AgentData \<Rightarrow> AgentState \<Rightarrow> PrecomputedMove" where
  "quick_phases strategic temp_sim d agent =
     (let cls = determine_agent_class d;
          enemies = sim_enemy_agents temp_sim;
          best = (-1000.0, default_move);
          best = (if cls = SNIPER \<and> cooldown agent = 0
                  then fold (sniper_step d agent) enemies best else best);
          best = (if cls = BOMBER \<and> cooldown agent = 0 \<and> splash_bombs agent > 0
                  then bomber_phase d agent enemies best else best);
          best = (if cooldown agent = 0 \<and> cls \<noteq> SNIPER \<and> cls \<noteq> BOMBER
                  then fold (shooter_step d cls agent) enemies best else best);
          best = (if cooldown agent = 0 \<and> splash_bombs agent > 0 \<and> (cls = ASSAULT \<or> cls = GUNNER)
                  then fold (thrower_step d agent enemies) enemies best else best);
          closest = fold (quick_closest_step agent) enemies (999, -1, -1);
          best = fold (quick_move_step strategic temp_sim d cls agent (snd closest))
                   dirs8_tactical best;
          move = snd best
      in if pm_action_type move = [] then
           move\<lparr>pm_action_type := ''HUNKER_DOWN'', confidence_score := 0.1\<rparr>
         else move)"

text \<open>The parameter \<open>agent_index\<close> of \<open>compute_best_move_quick\<close> is never read.\<close>

definition compute_best_move_quick ::
  "(int \<Rightarrow> int \<Rightarrow> real) \<Rightarrow> AgentState \<Rightarrow> SimulationState \<Rightarrow> int
     \<Rightarrow> cpp_exception + PrecomputedMove" where
  "compute_best_move_quick strategic agent temp_sim agent_index =
     (case data_at (sim_agent_data temp_sim) (agent_id agent) of
        Inl e \<Rightarrow> Inl e
      | Inr d \<Rightarrow> Inr (quick_phases strategic temp_sim d agent))"

subsection \<open>The output loop of the search variant's \<open>main\<close>\<close>

text \<open>\<open>best_moves\<close> holds node pointers, \<open>None\<close> for the null pointer.\<close>

definition reference_action :: "int \<Rightarrow> SmitsimaxNode option \<Rightarrow> string" where
  "reference_action aid best_move =
     (case best_move of
        Some move \<Rightarrow>
          (if node_action_type move = ''SHOOT'' then
             to_string aid @ '';SHOOT '' @ to_string (node_target_agent_id move) @ ''; HUNKER_DOWN''
           else if node_action_type move = ''MOVE'' then
             to_string aid @ '';MOVE '' @ to_string (node_target_x move) @ '' ''
               @ to_string (node_target_y move) @ ''; HUNKER_DOWN''
           else if node_action_type move = ''THROW'' then
             to_string aid @ '';THROW '' @ to_string (node_target_x move) @ '' ''
               @ to_string (node_target_y move) @ ''; HUNKER_DOWN''
           else to_string aid @ '';HUNKER_DOWN; HUNKER_DOWN'')
      | None \<Rightarrow> to_string aid @ '';HUNKER_DOWN; HUNKER_DOWN'')"

definition reference_output_line ::
  "int list \<Rightarrow> AgentState list \<Rightarrow> SmitsimaxNode option list \<Rightarrow> nat \<Rightarrow> string option" where
  "reference_output_line ids my_current_agents best_moves i =
     (if i < length my_current_agents then
        Some (reference_action (agent_id (my_current_agents ! i))
                (if i < length best_moves then best_moves ! i else None))
      else
        (case (if i < length ids then vec_at ids (int i) else vec_at ids 0) of
           None \<Rightarrow> None
         | Some default_id \<Rightarrow> Some (to_string default_id @ '';HUNKER_DOWN; HUNKER_DOWN'')))"

definition reference_output_lines ::
  "int list \<Rightarrow> AgentState list \<Rightarrow> SmitsimaxNode option list \<Rightarrow> int \<Rightarrow> string option list" where
  "reference_output_lines ids my_current_agents best_moves expected_count =
     map (reference_output_line ids my_current_agents best_moves) [0..<nat expected_count]"

section \<open>Views of the simulation state used in the statements\<close>

definition acting_side :: "bool \<Rightarrow> SimulationState \<Rightarrow> AgentState list" where
  "acting_side mine sim = (if mine then sim_my_agents sim else sim_enemy_agents sim)"

definition opposing_side :: "bool \<Rightarrow> SimulationState \<Rightarrow> AgentState list" where
  "opposing_side mine sim = (if mine then sim_enemy_agents sim else sim_my_agents sim)"

definition node_index :: "bool \<Rightarrow> SimulationState \<Rightarrow> int \<Rightarrow> int" where
  "node_index mine sim i = (if mine then i else i + int (length (sim_my_agents sim)))"

section \<open>Concrete states\<close>

text \<open>
  The profiles are those the source lists for the classes: a Gunner (cooldown 1, power
  16, range 4, one bomb), a Sniper (cooldown 5, power 24, range 6, no bomb) and a Bomber
  (cooldown 2, power 8, range 2, three bombs).
\<close>

definition gunner_profile :: "int \<Rightarrow> AgentData" where
  "gunner_profile i =
     \<lparr>data_agent_id = i, player = 0, shoot_cooldown = 1, optimal_range = 4,
      soaking_power = 16, data_splash_bombs = 1, agent_class = GUNNER\<rparr>"

definition sniper_profile :: "int \<Rightarrow> AgentData" where
  "sniper_profile i =
     \<lparr>data_agent_id = i, player = 0, shoot_cooldown = 5, optimal_range = 6,
      soaking_power = 24, data_splash_bombs = 0, agent_class = SNIPER\<rparr>"

definition bomber_profile :: "int \<Rightarrow> AgentData" where
  "bomber_profile i =
     \<lparr>data_agent_id = i, player = 0, shoot_cooldown = 2, optimal_range = 2,
      soaking_power = 8, data_splash_bombs = 3, agent_class = BOMBER\<rparr>"

text \<open>An agent with the given id and position, off cooldown, unhurt and without bombs.\<close>

definition agent_at :: "int \<Rightarrow> int \<Rightarrow> int \<Rightarrow> AgentState" where
  "agent_at i x y =
     \<lparr>agent_id = i, pos_x = x, pos_y = y, cooldown = 0, splash_bombs = 0, wetness = 0\<rparr>"

text \<open>
  An 8 by 6 board of open tiles; agents 1 (Gunner), 2 (Sniper) and 3 (Bomber) are
  controlled, agents 4 and 5 (Gunners of the other side) are not.
\<close>

definition example_profiles :: "int \<Rightarrow> AgentData option" where
  "example_profiles =
     [1 \<mapsto> gunner_profile 1, 2 \<mapsto> sniper_profile 2, 3 \<mapsto> bomber_profile 3,
      4 \<mapsto> (gunner_profile 4)\<lparr>player := 1\<rparr>, 5 \<mapsto> (gunner_profile 5)\<lparr>player := 1\<rparr>]"

definition example_ai :: SmartGameAI where
  "example_ai =
     \<lparr>all_agents_data = example_profiles, my_agent_ids = [1, 2, 3], enemy_agent_ids = [4, 5],
      board_width = 8, board_height = 6, tile_map = replicate 6 (replicate 8 0)\<rparr>"

definition shoot_node :: "int \<Rightarrow> SmitsimaxNode" where
  "shoot_node tid =
     \<lparr>node_action_type = ''SHOOT'', node_target_x = -1, node_target_y = -1,
      node_target_agent_id = tid\<rparr>"

definition move_node :: "int \<Rightarrow> int \<Rightarrow> SmitsimaxNode" where
  "move_node x y =
     \<lparr>node_action_type = ''MOVE'', node_target_x = x, node_target_y = y,
      node_target_agent_id = -1\<rparr>"

definition throw_node :: "int \<Rightarrow> int \<Rightarrow> SmitsimaxNode" where
  "throw_node x y =
     \<lparr>node_action_type = ''THROW'', node_target_x = x, node_target_y = y,
      node_target_agent_id = -1\<rparr>"

definition hunker_node :: SmitsimaxNode where
  "hunker_node =
     \<lparr>node_action_type = ''HUNKER_DOWN'', node_target_x = -1, node_target_y = -1,
      node_target_agent_id = -1\<rparr>"

text \<open>
  A simulation state with the Sniper 2 at \<open>(0, 0)\<close> and the enemy Gunner 4 at \<open>(1, 0)\<close>
  with wetness 90, and the nodes currently selected for the two.
\<close>

definition example_sim :: "SmitsimaxNode list \<Rightarrow> SimulationState" where
  "example_sim nodes =
     \<lparr>sim_my_agents = [agent_at 2 0 0],
      sim_enemy_agents = [(agent_at 4 1 0)\<lparr>wetness := 90, cooldown := 3\<rparr>],
      sim_agent_data = example_profiles, sim_width = 8, sim_height = 6,
      current_nodes = nodes\<rparr>"

definition shoot_decision :: "int \<Rightarrow> TacticalDecision" where
  "shoot_decision tid = default_decision\<lparr>action_type := ''SHOOT'', target_agent_id := tid\<rparr>"

definition move_decision_to :: "int \<Rightarrow> int \<Rightarrow> TacticalDecision" where
  "move_decision_to x y = default_decision\<lparr>action_type := ''MOVE'', target_x := x, target_y := y\<rparr>"

definition throw_decision_at :: "int \<Rightarrow> int \<Rightarrow> TacticalDecision" where
  "throw_decision_at x y = default_decision\<lparr>action_type := ''THROW'', target_x := x, target_y := y\<rparr>"

text \<open>
  The input of a turn after agent 3 has left the match: the controlled agents 1 and 2
  (on cooldown) and the enemy 4 remain, and two lines are expected.
\<close>

definition two_left :: TurnInput where
  "two_left =
     \<lparr>turn_agents = [(agent_at 1 0 0)\<lparr>cooldown := 1\<rparr>, (agent_at 2 0 1)\<lparr>cooldown := 1\<rparr>,
                     agent_at 4 5 5],
      my_agent_count = 2\<rparr>"

text \<open>The Bomber 3 at \<open>(0, 0)\<close>, off cooldown, unhurt, with its three bombs.\<close>

definition bomber_3 :: AgentState where
  "bomber_3 = (agent_at 3 0 0)\<lparr>splash_bombs := 3\<rparr>"





section \<open>The output grammar, after the specification\<close>

text \<open>
  Following the words of the specification: a line is \<open><agentId>;<PRIMARY>[; <SECONDARY>]\<close>
  with the commands \<open>HUNKER_DOWN\<close>, \<open>MOVE <x> <y>\<close>, \<open>ATTACK <targetAgentId>\<close> and
  \<open>THROW <x> <y>\<close>. The keyword of the attack command is a parameter, so that the
  grammar can be read with the specification's word and with the word the code prints.
\<close>

datatype action_command = Hunker | Move int int | Attack int | Throw int int

fun spec_command :: "string \<Rightarrow> action_command \<Rightarrow> string" where
  "spec_command kw Hunker = ''HUNKER_DOWN''"
| "spec_command kw (Move x y) = ''MOVE '' @ to_string x @ '' '' @ to_string y"
| "spec_command kw (Attack t) = kw @ '' '' @ to_string t"
| "spec_command kw (Throw x y) = ''THROW '' @ to_string x @ '' '' @ to_string y"

definition spec_line :: "string \<Rightarrow> int \<Rightarrow> action_command \<Rightarrow> action_command option \<Rightarrow> string" where
  "spec_line kw aid primary secondary =
     to_string aid @ '';'' @ spec_command kw primary
       @ (case secondary of None \<Rightarrow> [] | Some c \<Rightarrow> ''; '' @ spec_command kw c)"

section \<open>The destinations a turn emits\<close>


section \<open>Properties of the combat model\<close>

lemma max_cast_int: "max 0 (cast_int r) = max 0 \<lfloor>r\<rfloor>"
  unfolding cast_int_def by (auto simp: max_def) linarith+

text \<open>
  Claim C1, as amended. For a distance \<open>d\<close> with \<open>1 \<le> d \<le> optimal_range\<close> the attack
  damage is \<open>floor (power * (1 - 0.25 * (d - 1)))\<close> clamped below at 0, in the combat
  model (\<open>calculate_exact_shooting_damage\<close>) and in the search variant
  (\<open>calculate_shooting_damage\<close>) alike; both return 0 for \<open>d > optimal_range\<close>, the combat
  model also for \<open>d = 0\<close>; and neither result is ever negative. (What the search variant
  returns at \<open>d = 0\<close> is left open.)
\<close>

theorem attack_damage_formula:
  "(1 \<le> d \<and> d \<le> r \<longrightarrow>
      calculate_exact_shooting_damage p r d
        = max 0 \<lfloor>real_of_int p * (1 - 0.25 * (real_of_int d - 1))\<rfloor>)
   \<and> (1 \<le> d \<and> d \<le> optimal_range sh \<longrightarrow>
      calculate_shooting_damage sh t d
        = max 0 \<lfloor>real_of_int (soaking_power sh) * (1 - 0.25 * (real_of_int d - 1))\<rfloor>)
   \<and> (d = 0 \<or> d > r \<longrightarrow> calculate_exact_shooting_damage p r d = 0)
   \<and> (d > optimal_range sh \<longrightarrow> calculate_shooting_damage sh t d = 0)
   \<and> 0 \<le> calculate_exact_shooting_damage p r d
   \<and> 0 \<le> calculate_shooting_damage sh t d"
  unfolding calculate_exact_shooting_damage_def calculate_shooting_damage_def Let_def
  using max_cast_int by auto

theorem attack_damage_formula_witness:
  "calculate_exact_shooting_damage 24 6 3 = 12
   \<and> calculate_shooting_damage
        \<lparr>data_agent_id = 1, player = 0, shoot_cooldown = 5, optimal_range = 6,
         soaking_power = 24, data_splash_bombs = 0, agent_class = SNIPER\<rparr>
        \<lparr>agent_id = 2, pos_x = 3, pos_y = 0, cooldown = 0, splash_bombs = 0, wetness = 0\<rparr> 3 = 12
   \<and> calculate_exact_shooting_damage 24 6 0 = 0
   \<and> calculate_exact_shooting_damage 24 6 7 = 0
   \<and> calculate_shooting_damage
        \<lparr>data_agent_id = 1, player = 0, shoot_cooldown = 5, optimal_range = 6,
         soaking_power = 24, data_splash_bombs = 0, agent_class = SNIPER\<rparr>
        \<lparr>agent_id = 2, pos_x = 3, pos_y = 0, cooldown = 0, splash_bombs = 0, wetness = 0\<rparr> 7 = 0"
  using attack_damage_formula [of 3 6 24
          "\<lparr>data_agent_id = 1, player = 0, shoot_cooldown = 5, optimal_range = 6,
            soaking_power = 24, data_splash_bombs = 0, agent_class = SNIPER\<rparr>"
          "\<lparr>agent_id = 2, pos_x = 3, pos_y = 0, cooldown = 0, splash_bombs = 0, wetness = 0\<rparr>"]
        attack_damage_formula [of 0 6 24]
        attack_damage_formula [of 7 6 24
          "\<lparr>data_agent_id = 1, player = 0, shoot_cooldown = 5, optimal_range = 6,
            soaking_power = 24, data_splash_bombs = 0, agent_class = SNIPER\<rparr>"
          "\<lparr>agent_id = 2, pos_x = 3, pos_y = 0, cooldown = 0, splash_bombs = 0, wetness = 0\<rparr>"]
  by simp

text \<open>
  Claim C1 as stated fails for a Sniper (power 24, optimal range 6) at distance 6: the
  formula gives \<open>-6\<close>, the function returns 0.
\<close>

theorem attack_damage_counterexample:
  "calculate_exact_shooting_damage 24 6 6 \<noteq> \<lfloor>(24::real) * (1 - 0.25 * (6 - 1))\<rfloor>"
  unfolding calculate_exact_shooting_damage_def cast_int_def Let_def by simp

section \<open>Totality of the combat model\<close>

lemma provides_cover_rect:
  assumes "\<forall>row\<in>set tm. length row = n"
  shows "\<exists>c. provides_cover x y bw bh tm = Some c"
proof (cases "0 \<le> y \<and> y < int (length tm)")
  case True
  then have "nat y < length tm" and "0 < length tm" by auto
  then have "tm ! nat y \<in> set tm" and "tm ! 0 \<in> set tm"
    using nth_mem by blast+
  with assms have "length (tm ! nat y) = length (tm ! 0)" by simp
  with True show ?thesis
    by (auto simp: provides_cover_def vec_at_def)
next
  case False
  then show ?thesis
    by (auto simp: provides_cover_def vec_at_def)
qed

lemma bomb_damage_some: "\<exists>v. calculate_exact_bomb_damage sd h = Some v"
  by (simp add: calculate_exact_bomb_damage_def int_div_def Let_def)

lemma kill_probability_some: "\<exists>p. calculate_kill_probability w dmg = Some p"
proof (cases "100 \<le> w + dmg")
  case True
  then have "calculate_kill_probability w dmg = Some 1"
    by (simp add: calculate_kill_probability_def)
  then show ?thesis ..
next
  case False
  then have "calculate_kill_probability w dmg = Some (real_of_int (w + dmg) / 100)"
    by (simp add: calculate_kill_probability_def double_div_def)
  then show ?thesis ..
qed

lemma tactical_advantage_some: "\<exists>v. calculate_tactical_advantage a b c e = Some v"
proof -
  have "calculate_tactical_advantage a b c e \<noteq> None"
    by (simp add: calculate_tactical_advantage_def double_div_def max_def)
  then show ?thesis by (simp only: not_None_eq)
qed

text \<open>
  Claim C10, as amended. The combat model never divides by zero and never reads the grid
  out of range on a rectangular grid: the bomb damage, the kill probability and the
  tactical advantage return a value for all inputs (also with zero living enemies and
  zero enemy health, where the divisors are \<open>max 1 0 = 1\<close>), and the cover test returns
  a value whenever all rows of the grid have the same length, as the grid built by \<open>main\<close>
  has. Attack damage and movement cost contain no division and no grid access.
\<close>

theorem combat_model_total:
  "(\<exists>v. calculate_exact_bomb_damage sd h = Some v)
   \<and> (\<exists>p. calculate_kill_probability w dmg = Some p)
   \<and> (\<exists>v. calculate_tactical_advantage a b c e = Some v)
   \<and> ((\<forall>row\<in>set tm. length row = n) \<longrightarrow> (\<exists>c. provides_cover x y bw bh tm = Some c))"
  using provides_cover_rect [of tm n x y bw bh] bomb_damage_some kill_probability_some
    tactical_advantage_some
  by blast

theorem combat_model_total_witness:
  "calculate_exact_bomb_damage 1 True = Some 15
   \<and> calculate_kill_probability 90 20 = Some 1
   \<and> calculate_tactical_advantage 2 0 150 0 = Some 61.2
   \<and> provides_cover 1 1 2 2 [[0, 1], [0, 1]] = Some True"
  using combat_model_total [of 1 True 90 20 2 0 150 0 "[[0, 1], [0, 1]]" 2 1 1 2 2]
  by (simp add: calculate_exact_bomb_damage_def calculate_kill_probability_def
      calculate_tactical_advantage_def double_div_def int_div_def int_quot_def Let_def
      provides_cover_def vec_at_def THROW_DAMAGE_def)

text \<open>
  Claim C10 as stated fails on a ragged grid: \<open>provides_cover\<close> checks the column against
  the length of row 0 and then reads row \<open>y\<close>, here past the end of a row of length 1.
\<close>

theorem combat_model_total_counterexample:
  "provides_cover 2 1 3 2 [[0, 0, 0], [0]] = None"
  by (simp add: provides_cover_def vec_at_def)


section \<open>Loops as folds\<close>

lemma fold_invariant:
  assumes "I b" and "\<And>x b. I b \<Longrightarrow> I (f x b)"
  shows "I (fold f xs b)"
  using assms(1) by (induction xs arbitrary: b) (simp_all add: assms(2))

lemma fold_mono:
  fixes m :: "'b \<Rightarrow> real"
  assumes "\<And>x b. m b \<le> m (f x b)"
  shows "m b \<le> m (fold f xs b)"
proof (induction xs arbitrary: b)
  case Nil
  show ?case by simp
next
  case (Cons x xs)
  have "m b \<le> m (f x b)" by (rule assms)
  also have "\<dots> \<le> m (fold f xs (f x b))" by (rule Cons.IH)
  finally show ?case by simp
qed

lemma fold_reaches:
  fixes m :: "'b \<Rightarrow> real"
  assumes "x \<in> set xs" and "\<And>b. c \<le> m (f x b)" and "\<And>y b. m b \<le> m (f y b)"
  shows "c \<le> m (fold f xs b)"
proof -
  from assms(1) obtain ys zs where xs: "xs = ys @ x # zs"
    by (auto dest: split_list)
  have "c \<le> m (f x (fold f ys b))" by (rule assms(2))
  also have "\<dots> \<le> m (fold f zs (f x (fold f ys b)))" by (rule fold_mono) (rule assms(3))
  finally show ?thesis by (simp add: xs)
qed


section \<open>Lemmas about the simulated steps\<close>

lemma apply_joint_action_length:
  "length (apply_joint_action agents actions enemies) = length agents"
  by (induction agents actions enemies rule: apply_joint_action.induct) auto

lemma apply_joint_action_nth:
  "i < length agents \<Longrightarrow>
     apply_joint_action agents actions enemies ! i =
       (if i < length actions then apply_joint_action_step (agents ! i) (actions ! i)
        else agents ! i)"
proof (induction agents actions enemies arbitrary: i rule: apply_joint_action.induct)
  case (1 agent agents action actions enemies)
  then show ?case by (cases i) auto
qed auto

lemma apply_joint_action_step_wetness:
  "wetness (apply_joint_action_step a act) = wetness a"
  by (simp add: apply_joint_action_step_def Let_def)

lemma apply_joint_action_wetness:
  "map wetness (apply_joint_action agents actions enemies) = map wetness agents"
  by (induction agents actions enemies rule: apply_joint_action.induct)
     (auto simp: apply_joint_action_step_wetness)

lemma enemy_response_step_keeps:
  "wetness (enemy_response_step my e) = wetness e
   \<and> cooldown (enemy_response_step my e) = cooldown e"
  by (simp add: enemy_response_step_def split: option.split)

lemma joint_simulation_no_damage:
  "map wetness (fst (joint_simulation my en acts)) = map wetness my
   \<and> map wetness (snd (joint_simulation my en acts)) = map wetness en
   \<and> map cooldown (snd (joint_simulation my en acts)) = map cooldown en"
  by (simp add: joint_simulation_def Let_def apply_joint_action_wetness
      simulate_enemy_response_enhanced_def enemy_response_step_keeps comp_def)

lemma apply_joint_action_step_cases:
  "(\<not> is_alive a \<longrightarrow> apply_joint_action_step a act = a)
   \<and> (is_alive a \<and> action_type act = ''MOVE'' \<longrightarrow>
        apply_joint_action_step a act
          = reset_cooldown (a\<lparr>pos_x := target_x act, pos_y := target_y act\<rparr>))
   \<and> (is_alive a \<and> action_type act = ''SHOOT'' \<and> cooldown a = 0 \<longrightarrow>
        apply_joint_action_step a act = a)
   \<and> (is_alive a \<and> action_type act = ''THROW'' \<and> splash_bombs a > 0 \<longrightarrow>
        apply_joint_action_step a act = a\<lparr>splash_bombs := splash_bombs a - 1, cooldown := 1\<rparr>)
   \<and> (is_alive a \<and> action_type act = ''HUNKER_DOWN'' \<longrightarrow>
        apply_joint_action_step a act = reset_cooldown a)"
  by (simp add: apply_joint_action_step_def reset_cooldown_def Let_def)

lemma shoot_targets_found:
  "tid \<notin> agent_id ` set pre \<Longrightarrow> agent_id t = tid \<Longrightarrow>
     shoot_targets d agent tid (pre @ t # post)
       = (pre @ t\<lparr>wetness := wetness t
                    + calculate_shooting_damage d t
                        (manhattan_distance (pos_x agent) (pos_y agent) (pos_x t) (pos_y t))\<rparr> # post,
          True)"
  by (induction pre) (auto simp: Let_def)

lemma shoot_targets_missing:
  "tid \<notin> agent_id ` set targets \<Longrightarrow> shoot_targets d agent tid targets = (targets, False)"
  by (induction targets) (auto simp: Let_def)

lemma apply_node_cases:
  "(node_action_type node = ''MOVE'' \<and> node_target_x node \<ge> 0 \<and> node_target_x node < sim_width sim
      \<and> node_target_y node \<ge> 0 \<and> node_target_y node < sim_height sim \<longrightarrow>
      apply_node sim node agent targets
        = (agent\<lparr>pos_x := node_target_x node, pos_y := node_target_y node\<rparr>, targets, False))
   \<and> (node_action_type node = ''HUNKER_DOWN'' \<longrightarrow>
      apply_node sim node agent targets = (agent, targets, False))
   \<and> (node_action_type node = ''SHOOT'' \<and> cooldown agent = 0
      \<and> node_target_agent_id node \<notin> agent_id ` set pre \<and> agent_id t = node_target_agent_id node \<longrightarrow>
      apply_node sim node agent (pre @ t # post)
        = (agent\<lparr>cooldown := shoot_cooldown (data_index (sim_agent_data sim) (agent_id agent))\<rparr>,
           pre @ t\<lparr>wetness := wetness t
                    + calculate_shooting_damage (data_index (sim_agent_data sim) (agent_id agent)) t
                        (manhattan_distance (pos_x agent) (pos_y agent) (pos_x t) (pos_y t))\<rparr> # post,
           True))
   \<and> (node_action_type node = ''THROW'' \<and> cooldown agent = 0 \<and> splash_bombs agent > 0 \<longrightarrow>
      apply_node sim node agent targets
        = (agent\<lparr>splash_bombs := splash_bombs agent - 1,
                  cooldown := shoot_cooldown (data_index (sim_agent_data sim) (agent_id agent))\<rparr>,
           map (throw_target (data_index (sim_agent_data sim) (agent_id agent)) node) targets,
           True))"
  by (simp add: apply_node_def Let_def shoot_targets_found)

lemma step_cooldown_idle:
  "is_alive a \<Longrightarrow> \<not> (action_type act = ''SHOOT'' \<and> cooldown a = 0) \<Longrightarrow>
   \<not> (action_type act = ''THROW'' \<and> splash_bombs a > 0) \<Longrightarrow>
     cooldown (apply_joint_action_step a act) = cooldown (reset_cooldown a)"
  by (auto simp: apply_joint_action_step_def reset_cooldown_def Let_def)

lemma reset_cooldown_value:
  "cooldown (reset_cooldown a) = (if cooldown a > 0 then cooldown a - 1 else cooldown a)"
  by (simp add: reset_cooldown_def)

lemma reset_to_base_state_cooldowns:
  "map cooldown (sim_my_agents (reset_to_base_state sim base_my base_enemy))
     = map (\<lambda>a. if cooldown a > 0 then cooldown a - 1 else cooldown a) base_my
   \<and> map cooldown (sim_enemy_agents (reset_to_base_state sim base_my base_enemy))
     = map (\<lambda>a. if cooldown a > 0 then cooldown a - 1 else cooldown a) base_enemy"
  by (simp add: reset_to_base_state_def reset_cooldown_def comp_def)

lemma shoot_targets_length: "length (fst (shoot_targets d agent tid targets)) = length targets"
  by (induction targets) (auto simp: Let_def)

lemma shoot_targets_cooldown:
  "map cooldown (fst (shoot_targets d agent tid targets)) = map cooldown targets"
  by (induction targets) (auto simp: Let_def)

lemma shoot_targets_wetness:
  "list_all2 (\<lambda>a b. wetness a \<le> wetness b) targets (fst (shoot_targets d agent tid targets))"
proof (induction targets)
  case Nil
  then show ?case by simp
next
  case (Cons t ts)
  have "0 \<le> calculate_shooting_damage d t k" for k
    by (simp add: calculate_shooting_damage_def Let_def)
  with Cons show ?case
    by (auto simp: Let_def list_all2_refl)
qed

lemma throw_target_keeps_cooldown: "cooldown (throw_target d node t) = cooldown t"
  by (simp add: throw_target_def Let_def)

lemma int_quot_2_nonneg: "0 \<le> p \<Longrightarrow> 0 \<le> int_quot p 2"
  by (simp add: int_quot_def sgn_if)

lemma throw_target_wetness: "0 \<le> soaking_power d \<Longrightarrow> wetness t \<le> wetness (throw_target d node t)"
  using int_quot_2_nonneg [of "soaking_power d"] by (simp add: throw_target_def Let_def)

lemma apply_node_targets_cooldown:
  "map cooldown (fst (snd (apply_node sim node agent targets))) = map cooldown targets"
  by (simp add: apply_node_def Let_def shoot_targets_cooldown throw_target_keeps_cooldown comp_def)

lemma apply_node_targets_length:
  "length (fst (snd (apply_node sim node agent targets))) = length targets"
  using apply_node_targets_cooldown [of sim node agent targets] by (metis length_map)

lemma apply_node_targets_wetness:
  "0 \<le> soaking_power (data_index (sim_agent_data sim) (agent_id agent)) \<Longrightarrow>
     list_all2 (\<lambda>a b. wetness a \<le> wetness b) targets (fst (snd (apply_node sim node agent targets)))"
  by (auto simp: apply_node_def Let_def shoot_targets_wetness list_all2_refl
      list_all2_map2 throw_target_wetness intro!: list_all2_all_nthI)

lemma apply_node_agent_wetness:
  "wetness (fst (apply_node sim node agent targets)) = wetness agent"
  by (simp add: apply_node_def Let_def)

lemma shoot_targets_hit:
  "snd (shoot_targets d agent tid targets) = (tid \<in> agent_id ` set targets)"
  by (induction targets) (auto simp: Let_def)

lemma apply_node_agent_cooldown:
  "cooldown (fst (apply_node sim node agent targets)) =
     (if (node_action_type node = ''SHOOT'' \<and> cooldown agent = 0
          \<and> node_target_agent_id node \<in> agent_id ` set targets)
         \<or> (node_action_type node = ''THROW'' \<and> cooldown agent = 0 \<and> splash_bombs agent > 0)
      then shoot_cooldown (data_index (sim_agent_data sim) (agent_id agent))
      else cooldown agent)"
  by (simp add: apply_node_def Let_def shoot_targets_hit)

lemma apply_action_skip:
  "i < 0 \<or> i \<ge> int (length (acting_side mine sim)) \<Longrightarrow> apply_action sim i mine = Some sim"
  by (auto simp: apply_action_def acting_side_def Let_def)

lemma apply_action_sides:
  assumes "apply_action sim i mine = Some sim'"
    and "0 \<le> i" and "i < int (length (acting_side mine sim))"
  shows "\<exists>node. vec_at (current_nodes sim) (node_index mine sim i) = Some node
           \<and> acting_side mine sim'
               = (acting_side mine sim)[nat i :=
                    fst (apply_node sim node (acting_side mine sim ! nat i) (opposing_side mine sim))]
           \<and> opposing_side mine sim'
               = fst (snd (apply_node sim node (acting_side mine sim ! nat i) (opposing_side mine sim)))"
  using assms
  by (cases mine)
     (auto simp: apply_action_def acting_side_def opposing_side_def node_index_def Let_def
       split: option.splits)

lemma data_index_nonneg:
  "\<forall>k d. m k = Some d \<longrightarrow> 0 \<le> soaking_power d \<Longrightarrow> 0 \<le> soaking_power (data_index m k)"
  by (auto simp: data_index_def zero_agent_data_def split: option.splits)

lemma list_all2_update_same:
  "n < length xs \<Longrightarrow> wetness y = wetness (xs ! n) \<Longrightarrow>
     list_all2 (\<lambda>a b. wetness a \<le> wetness b) xs (xs[n := y])"
  by (auto simp: list_all2_conv_all_nth nth_list_update)

lemma apply_action_wetness_sides:
  assumes "apply_action sim i mine = Some sim'"
    and "\<forall>k d. sim_agent_data sim k = Some d \<longrightarrow> 0 \<le> soaking_power d"
  shows "list_all2 (\<lambda>a b. wetness a \<le> wetness b) (acting_side mine sim) (acting_side mine sim')
         \<and> list_all2 (\<lambda>a b. wetness a \<le> wetness b) (opposing_side mine sim) (opposing_side mine sim')"
proof (cases "i < 0 \<or> i \<ge> int (length (acting_side mine sim))")
  case True
  with assms(1) have "sim' = sim" using apply_action_skip [of i mine sim] by simp
  then show ?thesis by (simp add: list_all2_refl)
next
  case False
  then have r: "0 \<le> i" "i < int (length (acting_side mine sim))" by auto
  from apply_action_sides [OF assms(1) r] obtain node where
    a: "acting_side mine sim'
          = (acting_side mine sim)[nat i :=
               fst (apply_node sim node (acting_side mine sim ! nat i) (opposing_side mine sim))]"
    and o: "opposing_side mine sim'
          = fst (snd (apply_node sim node (acting_side mine sim ! nat i) (opposing_side mine sim)))"
    by blast
  have n: "nat i < length (acting_side mine sim)" using r by simp
  show ?thesis
    unfolding a o
    using list_all2_update_same [OF n, of "fst (apply_node sim node (acting_side mine sim ! nat i) (opposing_side mine sim))"]
      apply_node_agent_wetness apply_node_targets_wetness data_index_nonneg [OF assms(2)]
    by simp
qed

lemma apply_action_wetness:
  assumes "apply_action sim i mine = Some sim'"
    and "\<forall>k d. sim_agent_data sim k = Some d \<longrightarrow> 0 \<le> soaking_power d"
  shows "list_all2 (\<lambda>a b. wetness a \<le> wetness b) (sim_my_agents sim) (sim_my_agents sim')
         \<and> list_all2 (\<lambda>a b. wetness a \<le> wetness b) (sim_enemy_agents sim) (sim_enemy_agents sim')"
  using apply_action_wetness_sides [OF assms, unfolded acting_side_def opposing_side_def]
  by (cases mine) auto

lemma kill_probability_le_1:
  "calculate_kill_probability w dmg = Some p \<Longrightarrow> p \<le> 1"
  by (auto simp: calculate_kill_probability_def double_div_def split: if_splits)

lemmas example_defs = agent_at_def move_decision_to_def shoot_decision_def throw_decision_at_def
  default_decision_def hunker_decision_def example_sim_def example_profiles_def
  gunner_profile_def sniper_profile_def bomber_profile_def
  move_node_def shoot_node_def throw_node_def hunker_node_def example_ai_def

section \<open>The joint simulation step\<close>

lemma step_frame_shoot:
  "action_type act = ''SHOOT'' \<Longrightarrow>
     (apply_joint_action_step a act)\<lparr>cooldown := c\<rparr> = a\<lparr>cooldown := c\<rparr>"
  by (simp add: apply_joint_action_step_def Let_def)

lemma step_frame_throw:
  "is_alive a \<Longrightarrow> action_type act = ''THROW'' \<Longrightarrow> splash_bombs a > 0 \<Longrightarrow>
     (apply_joint_action_step a act)\<lparr>cooldown := c\<rparr>
       = a\<lparr>splash_bombs := splash_bombs a - 1, cooldown := c\<rparr>"
  by (simp add: apply_joint_action_step_def Let_def)

lemma int_quot_by_2: "int_quot p 2 = (if 0 \<le> p then p div 2 else - ((- p) div 2))"
  by (simp add: int_quot_def sgn_if)

lemma throw_target_splash:
  "throw_target d node
     = (\<lambda>tg. if \<bar>pos_x tg - node_target_x node\<bar> + \<bar>pos_y tg - node_target_y node\<bar> \<le> 1
             then tg\<lparr>wetness := wetness tg
                      + (if 0 \<le> soaking_power d then soaking_power d div 2
                         else - ((- soaking_power d) div 2))\<rparr>
             else tg)"
  by (rule ext) (simp add: throw_target_def manhattan_distance_def int_quot_by_2 Let_def)

text \<open>
  Claim C2, as amended. In the heuristic engine's search (\<open>apply_joint_action\<close>, then
  \<open>simulate_enemy_response_enhanced\<close>) the action at index \<open>i\<close> is applied to the agent
  at index \<open>i\<close>, agents without an action and dead agents stay as they are, and for a
  living agent: a Move sets the position to the target and lowers a positive cooldown by
  one; an Attack changes nothing but the agent's own cooldown; a Throw with a bomb left
  takes one bomb and otherwise changes nothing but the cooldown; Hunker only lowers a
  positive cooldown by one. No wetness of any agent changes in the step, and the enemies'
  cooldowns are not touched. In the search variant (\<open>apply_action\<close>) a Move inside the
  board sets the position; an Attack at cooldown 0 adds the computed damage to the first
  opposing agent with the target id and sets the cooldown to the profile's period; a Throw
  at cooldown 0 with a bomb left adds half the profile's power (the integer quotient) to
  the wetness of every opposing agent within Manhattan distance 1 of the landing tile and
  leaves the others as they are, takes one bomb and sets the cooldown likewise; Hunker
  changes nothing.
  \<open>apply_action\<close> replaces the acting agent and the opposing side by these results and
  decrements no cooldown.
\<close>

theorem joint_step_effects:
  "length (apply_joint_action agents actions enemies) = length agents
   \<and> (i < length agents \<longrightarrow>
        apply_joint_action agents actions enemies ! i
          = (if i < length actions then apply_joint_action_step (agents ! i) (actions ! i)
             else agents ! i))
   \<and> (\<not> is_alive a \<longrightarrow> apply_joint_action_step a act = a)
   \<and> (is_alive a \<and> action_type act = ''MOVE'' \<longrightarrow>
        apply_joint_action_step a act
          = (if cooldown a > 0
             then a\<lparr>pos_x := target_x act, pos_y := target_y act, cooldown := cooldown a - 1\<rparr>
             else a\<lparr>pos_x := target_x act, pos_y := target_y act\<rparr>))
   \<and> (action_type act = ''SHOOT'' \<longrightarrow>
        (apply_joint_action_step a act)\<lparr>cooldown := c\<rparr> = a\<lparr>cooldown := c\<rparr>)
   \<and> (is_alive a \<and> action_type act = ''THROW'' \<and> splash_bombs a > 0 \<longrightarrow>
        (apply_joint_action_step a act)\<lparr>cooldown := c\<rparr>
          = a\<lparr>splash_bombs := splash_bombs a - 1, cooldown := c\<rparr>)
   \<and> (is_alive a \<and> action_type act = ''HUNKER_DOWN'' \<longrightarrow>
        apply_joint_action_step a act
          = (if cooldown a > 0 then a\<lparr>cooldown := cooldown a - 1\<rparr> else a))
   \<and> map wetness (fst (joint_simulation my en acts)) = map wetness my
   \<and> map wetness (snd (joint_simulation my en acts)) = map wetness en
   \<and> map cooldown (snd (joint_simulation my en acts)) = map cooldown en
   \<and> (node_action_type node = ''MOVE'' \<and> node_target_x node \<ge> 0 \<and> node_target_x node < sim_width sim
        \<and> node_target_y node \<ge> 0 \<and> node_target_y node < sim_height sim \<longrightarrow>
        apply_node sim node agent targets
          = (agent\<lparr>pos_x := node_target_x node, pos_y := node_target_y node\<rparr>, targets, False))
   \<and> (node_action_type node = ''HUNKER_DOWN'' \<longrightarrow>
        apply_node sim node agent targets = (agent, targets, False))
   \<and> (node_action_type node = ''SHOOT'' \<and> cooldown agent = 0
        \<and> node_target_agent_id node \<notin> agent_id ` set pre
        \<and> agent_id t = node_target_agent_id node \<longrightarrow>
        apply_node sim node agent (pre @ t # post)
          = (agent\<lparr>cooldown := shoot_cooldown (data_index (sim_agent_data sim) (agent_id agent))\<rparr>,
             pre @ t\<lparr>wetness := wetness t
                      + calculate_shooting_damage
                          (data_index (sim_agent_data sim) (agent_id agent)) t
                          (manhattan_distance (pos_x agent) (pos_y agent) (pos_x t) (pos_y t))\<rparr>
                 # post,
             True))
   \<and> (node_action_type node = ''THROW'' \<and> cooldown agent = 0 \<and> splash_bombs agent > 0 \<longrightarrow>
        apply_node sim node agent targets
          = (agent\<lparr>splash_bombs := splash_bombs agent - 1,
                    cooldown := shoot_cooldown (data_index (sim_agent_data sim) (agent_id agent))\<rparr>,
             map (\<lambda>tg. if \<bar>pos_x tg - node_target_x node\<bar> + \<bar>pos_y tg - node_target_y node\<bar> \<le> 1
                       then tg\<lparr>wetness := wetness tg
                              + (if 0 \<le> soaking_power (data_index (sim_agent_data sim) (agent_id agent))
                                 then soaking_power (data_index (sim_agent_data sim) (agent_id agent)) div 2
                                 else - ((- soaking_power (data_index (sim_agent_data sim)
                                                            (agent_id agent))) div 2))\<rparr>
                       else tg) targets,
             True))
   \<and> (k < 0 \<or> k \<ge> int (length (acting_side mine sim)) \<longrightarrow> apply_action sim k mine = Some sim)
   \<and> (apply_action sim k mine = Some sim' \<and> 0 \<le> k \<and> k < int (length (acting_side mine sim)) \<longrightarrow>
        (\<exists>nd. vec_at (current_nodes sim) (node_index mine sim k) = Some nd
           \<and> acting_side mine sim'
               = (acting_side mine sim)[nat k :=
                    fst (apply_node sim nd (acting_side mine sim ! nat k) (opposing_side mine sim))]
           \<and> opposing_side mine sim'
               = fst (snd (apply_node sim nd (acting_side mine sim ! nat k)
                             (opposing_side mine sim)))
           \<and> map cooldown (opposing_side mine sim') = map cooldown (opposing_side mine sim)))"
proof -
  have sides: "apply_action sim k mine = Some sim' \<and> 0 \<le> k
        \<and> k < int (length (acting_side mine sim)) \<longrightarrow>
        (\<exists>nd. vec_at (current_nodes sim) (node_index mine sim k) = Some nd
           \<and> acting_side mine sim'
               = (acting_side mine sim)[nat k :=
                    fst (apply_node sim nd (acting_side mine sim ! nat k) (opposing_side mine sim))]
           \<and> opposing_side mine sim'
               = fst (snd (apply_node sim nd (acting_side mine sim ! nat k)
                             (opposing_side mine sim)))
           \<and> map cooldown (opposing_side mine sim') = map cooldown (opposing_side mine sim))"
  proof
    assume h: "apply_action sim k mine = Some sim' \<and> 0 \<le> k
        \<and> k < int (length (acting_side mine sim))"
    then obtain nd where
      nd: "vec_at (current_nodes sim) (node_index mine sim k) = Some nd"
        "acting_side mine sim'
           = (acting_side mine sim)[nat k :=
                fst (apply_node sim nd (acting_side mine sim ! nat k) (opposing_side mine sim))]"
        "opposing_side mine sim'
           = fst (snd (apply_node sim nd (acting_side mine sim ! nat k) (opposing_side mine sim)))"
      using apply_action_sides [of sim k mine sim'] by blast
    from nd(3) have "map cooldown (opposing_side mine sim') = map cooldown (opposing_side mine sim)"
      by (simp add: apply_node_targets_cooldown)
    with nd show "\<exists>nd. vec_at (current_nodes sim) (node_index mine sim k) = Some nd
           \<and> acting_side mine sim'
               = (acting_side mine sim)[nat k :=
                    fst (apply_node sim nd (acting_side mine sim ! nat k) (opposing_side mine sim))]
           \<and> opposing_side mine sim'
               = fst (snd (apply_node sim nd (acting_side mine sim ! nat k)
                             (opposing_side mine sim)))
           \<and> map cooldown (opposing_side mine sim') = map cooldown (opposing_side mine sim)"
      by blast
  qed
  have nth: "i < length agents \<longrightarrow>
        apply_joint_action agents actions enemies ! i
          = (if i < length actions then apply_joint_action_step (agents ! i) (actions ! i)
             else agents ! i)"
    using apply_joint_action_nth [where i = i and agents = agents and actions = actions
        and enemies = enemies] by blast
  have shoot: "action_type act = ''SHOOT'' \<longrightarrow>
        (apply_joint_action_step a act)\<lparr>cooldown := c\<rparr> = a\<lparr>cooldown := c\<rparr>"
    using step_frame_shoot [where a = a and act = act and c = c] by blast
  have throw: "is_alive a \<and> action_type act = ''THROW'' \<and> splash_bombs a > 0 \<longrightarrow>
        (apply_joint_action_step a act)\<lparr>cooldown := c\<rparr>
          = a\<lparr>splash_bombs := splash_bombs a - 1, cooldown := c\<rparr>"
    using step_frame_throw [where a = a and act = act and c = c] by blast
  have skip: "k < 0 \<or> k \<ge> int (length (acting_side mine sim)) \<longrightarrow>
        apply_action sim k mine = Some sim"
    using apply_action_skip [where i = k and mine = mine and sim = sim] by blast
  have move_step: "is_alive a \<and> action_type act = ''MOVE'' \<longrightarrow>
        apply_joint_action_step a act
          = (if cooldown a > 0
             then a\<lparr>pos_x := target_x act, pos_y := target_y act, cooldown := cooldown a - 1\<rparr>
             else a\<lparr>pos_x := target_x act, pos_y := target_y act\<rparr>)"
    by (simp add: apply_joint_action_step_def Let_def)
  have hunker_step: "is_alive a \<and> action_type act = ''HUNKER_DOWN'' \<longrightarrow>
        apply_joint_action_step a act
          = (if cooldown a > 0 then a\<lparr>cooldown := cooldown a - 1\<rparr> else a)"
    by (simp add: apply_joint_action_step_def Let_def)
  have throw_node: "node_action_type node = ''THROW'' \<and> cooldown agent = 0
        \<and> splash_bombs agent > 0 \<longrightarrow>
        apply_node sim node agent targets
          = (agent\<lparr>splash_bombs := splash_bombs agent - 1,
                    cooldown := shoot_cooldown (data_index (sim_agent_data sim) (agent_id agent))\<rparr>,
             map (\<lambda>tg. if \<bar>pos_x tg - node_target_x node\<bar> + \<bar>pos_y tg - node_target_y node\<bar> \<le> 1
                       then tg\<lparr>wetness := wetness tg
                              + (if 0 \<le> soaking_power (data_index (sim_agent_data sim) (agent_id agent))
                                 then soaking_power (data_index (sim_agent_data sim) (agent_id agent)) div 2
                                 else - ((- soaking_power (data_index (sim_agent_data sim)
                                                            (agent_id agent))) div 2))\<rparr>
                       else tg) targets,
             True)"
    using apply_node_cases [where node = node and sim = sim and agent = agent
        and targets = targets, THEN conjunct2, THEN conjunct2, THEN conjunct2]
    by (simp only: throw_target_splash)
  note step = apply_joint_action_step_cases [where a = a and act = act]
  note sim = joint_simulation_no_damage [where my = my and en = en and acts = acts]
  note node = apply_node_cases [where node = node and sim = sim and agent = agent
        and targets = targets and pre = pre and t = t and post = post]
  show ?thesis
    using apply_joint_action_length [of agents actions enemies] nth
      step [THEN conjunct1] move_step shoot throw hunker_step
      sim [THEN conjunct1] sim [THEN conjunct2, THEN conjunct1] sim [THEN conjunct2, THEN conjunct2]
      node [THEN conjunct1] node [THEN conjunct2, THEN conjunct1]
      node [THEN conjunct2, THEN conjunct2, THEN conjunct1]
      throw_node
      skip sides
    by - (intro conjI; assumption)
qed

text \<open>
  Instances: a Move, an idle agent, an Attack, a Throw whose targets stand at distances
  0, 1 and 2 of the landing tile, Hunker and a dead agent; and \<open>apply_action\<close> carrying
  out the Move of the Sniper 2 and a Throw of the Bomber 3 at the tile of agent 4.
\<close>

theorem joint_step_effects_witness:
  "apply_joint_action [(agent_at 1 0 0)\<lparr>cooldown := 2\<rparr>, agent_at 2 5 5]
       [move_decision_to 1 0] [agent_at 4 3 0] ! 0
     = (agent_at 1 1 0)\<lparr>cooldown := 1\<rparr>
   \<and> apply_joint_action [(agent_at 1 0 0)\<lparr>cooldown := 2\<rparr>, agent_at 2 5 5]
       [move_decision_to 1 0] [agent_at 4 3 0] ! 1
     = agent_at 2 5 5
   \<and> apply_joint_action_step (agent_at 1 0 0) (move_decision_to 1 0) = agent_at 1 1 0
   \<and> (apply_joint_action_step (agent_at 1 0 0) (shoot_decision 4))\<lparr>cooldown := 0\<rparr>
     = agent_at 1 0 0
   \<and> (apply_joint_action_step ((agent_at 3 0 1)\<lparr>splash_bombs := 3\<rparr>)
        (throw_decision_at 3 0))\<lparr>cooldown := 0\<rparr>
     = (agent_at 3 0 1)\<lparr>splash_bombs := 2\<rparr>
   \<and> apply_joint_action_step ((agent_at 1 0 0)\<lparr>cooldown := 2\<rparr>) (hunker_decision 50)
     = (agent_at 1 0 0)\<lparr>cooldown := 1\<rparr>
   \<and> apply_joint_action_step (agent_at 1 0 0) (hunker_decision 50) = agent_at 1 0 0
   \<and> apply_joint_action_step ((agent_at 1 0 0)\<lparr>cooldown := 2, wetness := 100\<rparr>)
        (move_decision_to 1 0)
     = (agent_at 1 0 0)\<lparr>cooldown := 2, wetness := 100\<rparr>
   \<and> apply_node (example_sim [move_node 1 0, hunker_node]) (move_node 1 0) (agent_at 2 0 0)
        [agent_at 4 1 0]
     = (agent_at 2 1 0, [agent_at 4 1 0], False)
   \<and> apply_node (example_sim []) (shoot_node 4) (agent_at 2 0 0)
        [agent_at 5 3 3, (agent_at 4 1 0)\<lparr>wetness := 90\<rparr>]
     = ((agent_at 2 0 0)\<lparr>cooldown := 5\<rparr>,
        [agent_at 5 3 3, (agent_at 4 1 0)\<lparr>wetness := 114\<rparr>], True)
   \<and> apply_node (example_sim [throw_node 1 0, hunker_node]) (throw_node 1 0) bomber_3
        [agent_at 4 1 0, agent_at 5 1 1, agent_at 6 2 1]
     = (bomber_3\<lparr>splash_bombs := 2, cooldown := 2\<rparr>,
        [(agent_at 4 1 0)\<lparr>wetness := 4\<rparr>, (agent_at 5 1 1)\<lparr>wetness := 4\<rparr>, agent_at 6 2 1],
        True)
   \<and> apply_node (example_sim [move_node 1 0, hunker_node]) hunker_node (agent_at 2 0 0)
          [agent_at 4 1 0]
     = (agent_at 2 0 0, [agent_at 4 1 0], False)
   \<and> apply_action (example_sim [move_node 1 0, hunker_node]) (- 1) True
     = Some (example_sim [move_node 1 0, hunker_node])
   \<and> apply_action (example_sim [move_node 1 0, hunker_node]) 0 True
     = Some ((example_sim [move_node 1 0, hunker_node])\<lparr>sim_my_agents := [agent_at 2 1 0]\<rparr>)
   \<and> acting_side True
        ((example_sim [move_node 1 0, hunker_node])\<lparr>sim_my_agents := [agent_at 2 1 0]\<rparr>)
     = [agent_at 2 1 0]
   \<and> opposing_side True
        ((example_sim [move_node 1 0, hunker_node])\<lparr>sim_my_agents := [agent_at 2 1 0]\<rparr>)
     = [(agent_at 4 1 0)\<lparr>wetness := 90, cooldown := 3\<rparr>]
   \<and> apply_action ((example_sim [throw_node 1 0, hunker_node])\<lparr>sim_my_agents := [bomber_3]\<rparr>)
        0 True
     = Some ((example_sim [throw_node 1 0, hunker_node])
               \<lparr>sim_my_agents := [bomber_3\<lparr>splash_bombs := 2, cooldown := 2\<rparr>],
                 sim_enemy_agents := [(agent_at 4 1 0)\<lparr>wetness := 94, cooldown := 3\<rparr>]\<rparr>)
   \<and> acting_side True
        ((example_sim [throw_node 1 0, hunker_node])
           \<lparr>sim_my_agents := [bomber_3\<lparr>splash_bombs := 2, cooldown := 2\<rparr>],
             sim_enemy_agents := [(agent_at 4 1 0)\<lparr>wetness := 94, cooldown := 3\<rparr>]\<rparr>)
     = [bomber_3\<lparr>splash_bombs := 2, cooldown := 2\<rparr>]
   \<and> opposing_side True
        ((example_sim [throw_node 1 0, hunker_node])
           \<lparr>sim_my_agents := [bomber_3\<lparr>splash_bombs := 2, cooldown := 2\<rparr>],
             sim_enemy_agents := [(agent_at 4 1 0)\<lparr>wetness := 94, cooldown := 3\<rparr>]\<rparr>)
     = [(agent_at 4 1 0)\<lparr>wetness := 94, cooldown := 3\<rparr>]"
proof -
  have run_move: "apply_action (example_sim [move_node 1 0, hunker_node]) 0 True
     = Some ((example_sim [move_node 1 0, hunker_node])\<lparr>sim_my_agents := [agent_at 2 1 0]\<rparr>)"
    by (simp add: apply_action_def apply_node_def vec_at_def example_defs Let_def)
  have run_throw:
    "apply_action ((example_sim [throw_node 1 0, hunker_node])\<lparr>sim_my_agents := [bomber_3]\<rparr>)
        0 True
     = Some ((example_sim [throw_node 1 0, hunker_node])
               \<lparr>sim_my_agents := [bomber_3\<lparr>splash_bombs := 2, cooldown := 2\<rparr>],
                 sim_enemy_agents := [(agent_at 4 1 0)\<lparr>wetness := 94, cooldown := 3\<rparr>]\<rparr>)"
    by (simp add: apply_action_def apply_node_def vec_at_def example_defs bomber_3_def
        data_index_def data_touch_def throw_target_def manhattan_distance_def int_quot_def Let_def)
  have move: "apply_joint_action [(agent_at 1 0 0)\<lparr>cooldown := 2\<rparr>, agent_at 2 5 5]
       [move_decision_to 1 0] [agent_at 4 3 0] ! 0
     = (agent_at 1 1 0)\<lparr>cooldown := 1\<rparr>
     \<and> apply_node (example_sim [move_node 1 0, hunker_node]) (move_node 1 0) (agent_at 2 0 0)
          [agent_at 4 1 0]
       = (agent_at 2 1 0, [agent_at 4 1 0], False)
     \<and> acting_side True
        ((example_sim [move_node 1 0, hunker_node])\<lparr>sim_my_agents := [agent_at 2 1 0]\<rparr>)
       = [agent_at 2 1 0]
     \<and> opposing_side True
        ((example_sim [move_node 1 0, hunker_node])\<lparr>sim_my_agents := [agent_at 2 1 0]\<rparr>)
       = [(agent_at 4 1 0)\<lparr>wetness := 90, cooldown := 3\<rparr>]"
    using joint_step_effects [where agents = "[(agent_at 1 0 0)\<lparr>cooldown := 2\<rparr>, agent_at 2 5 5]"
      and actions = "[move_decision_to 1 0]" and enemies = "[agent_at 4 3 0]" and i = 0
      and a = "(agent_at 1 0 0)\<lparr>cooldown := 2\<rparr>" and act = "move_decision_to 1 0" and c = 0
      and my = "[(agent_at 1 0 0)\<lparr>cooldown := 2\<rparr>]" and en = "[agent_at 4 3 0]"
      and acts = "[move_decision_to 1 0]"
      and node = "move_node 1 0" and sim = "example_sim [move_node 1 0, hunker_node]"
      and agent = "agent_at 2 0 0" and targets = "[agent_at 4 1 0]" and pre = "[]"
      and t = "agent_at 4 1 0" and post = "[]" and k = 0 and mine = True
      and sim' = "(example_sim [move_node 1 0, hunker_node])\<lparr>sim_my_agents := [agent_at 2 1 0]\<rparr>"]
      run_move
    by (simp add: example_defs is_alive_def acting_side_def opposing_side_def node_index_def
        vec_at_def)
  have move0: "apply_joint_action_step (agent_at 1 0 0) (move_decision_to 1 0) = agent_at 1 1 0
     \<and> apply_joint_action_step (agent_at 1 0 0) (hunker_decision 50) = agent_at 1 0 0"
    using joint_step_effects [where agents = "[]" and actions = "[]" and enemies = "[]" and i = 0
      and a = "agent_at 1 0 0" and act = "move_decision_to 1 0" and c = 0
      and my = "[]" and en = "[]" and acts = "[]"
      and node = "hunker_node" and sim = "example_sim []"
      and agent = "agent_at 2 0 0" and targets = "[]" and pre = "[]"
      and t = "agent_at 4 1 0" and post = "[]" and k = "- 1" and mine = True
      and sim' = "example_sim []"]
      joint_step_effects [where agents = "[]" and actions = "[]" and enemies = "[]" and i = 0
      and a = "agent_at 1 0 0" and act = "hunker_decision 50" and c = 0
      and my = "[]" and en = "[]" and acts = "[]"
      and node = "hunker_node" and sim = "example_sim []"
      and agent = "agent_at 2 0 0" and targets = "[]" and pre = "[]"
      and t = "agent_at 4 1 0" and post = "[]" and k = "- 1" and mine = True
      and sim' = "example_sim []"]
    by (simp add: example_defs is_alive_def)
  have idle: "apply_joint_action [(agent_at 1 0 0)\<lparr>cooldown := 2\<rparr>, agent_at 2 5 5]
       [move_decision_to 1 0] [agent_at 4 3 0] ! 1
     = agent_at 2 5 5
     \<and> apply_joint_action_step ((agent_at 1 0 0)\<lparr>cooldown := 2\<rparr>) (hunker_decision 50)
       = (agent_at 1 0 0)\<lparr>cooldown := 1\<rparr>
     \<and> apply_node (example_sim [move_node 1 0, hunker_node]) hunker_node (agent_at 2 0 0)
          [agent_at 4 1 0]
       = (agent_at 2 0 0, [agent_at 4 1 0], False)
     \<and> apply_action (example_sim [move_node 1 0, hunker_node]) (- 1) True
       = Some (example_sim [move_node 1 0, hunker_node])"
    using joint_step_effects [where agents = "[(agent_at 1 0 0)\<lparr>cooldown := 2\<rparr>, agent_at 2 5 5]"
      and actions = "[move_decision_to 1 0]" and enemies = "[agent_at 4 3 0]" and i = 1
      and a = "(agent_at 1 0 0)\<lparr>cooldown := 2\<rparr>" and act = "hunker_decision 50" and c = 0
      and my = "[(agent_at 1 0 0)\<lparr>cooldown := 2\<rparr>]" and en = "[agent_at 4 3 0]"
      and acts = "[hunker_decision 50]"
      and node = "hunker_node" and sim = "example_sim [move_node 1 0, hunker_node]"
      and agent = "agent_at 2 0 0" and targets = "[agent_at 4 1 0]" and pre = "[]"
      and t = "agent_at 4 1 0" and post = "[]" and k = "- 1" and mine = True
      and sim' = "example_sim [move_node 1 0, hunker_node]"]
    by (simp add: example_defs is_alive_def acting_side_def)
  have shoot: "(apply_joint_action_step (agent_at 1 0 0) (shoot_decision 4))\<lparr>cooldown := 0\<rparr>
       = agent_at 1 0 0
     \<and> apply_node (example_sim []) (shoot_node 4) (agent_at 2 0 0)
          [agent_at 5 3 3, (agent_at 4 1 0)\<lparr>wetness := 90\<rparr>]
       = ((agent_at 2 0 0)\<lparr>cooldown := 5\<rparr>,
          [agent_at 5 3 3, (agent_at 4 1 0)\<lparr>wetness := 114\<rparr>], True)"
    using joint_step_effects [where agents = "[]" and actions = "[]" and enemies = "[]" and i = 0
      and a = "agent_at 1 0 0" and act = "shoot_decision 4" and c = 0
      and my = "[]" and en = "[]" and acts = "[]"
      and node = "shoot_node 4" and sim = "example_sim []"
      and agent = "agent_at 2 0 0" and targets = "[]" and pre = "[agent_at 5 3 3]"
      and t = "(agent_at 4 1 0)\<lparr>wetness := 90\<rparr>" and post = "[]" and k = "- 1" and mine = True
      and sim' = "example_sim []"]
    by (simp add: example_defs data_index_def calculate_shooting_damage_def
        manhattan_distance_def Let_def)
  have throw: "(apply_joint_action_step ((agent_at 3 0 1)\<lparr>splash_bombs := 3\<rparr>)
        (throw_decision_at 3 0))\<lparr>cooldown := 0\<rparr>
       = (agent_at 3 0 1)\<lparr>splash_bombs := 2\<rparr>
     \<and> apply_node (example_sim [throw_node 1 0, hunker_node]) (throw_node 1 0) bomber_3
          [agent_at 4 1 0, agent_at 5 1 1, agent_at 6 2 1]
       = (bomber_3\<lparr>splash_bombs := 2, cooldown := 2\<rparr>,
          [(agent_at 4 1 0)\<lparr>wetness := 4\<rparr>, (agent_at 5 1 1)\<lparr>wetness := 4\<rparr>, agent_at 6 2 1],
          True)"
    using joint_step_effects [where agents = "[]" and actions = "[]" and enemies = "[]" and i = 0
      and a = "(agent_at 3 0 1)\<lparr>splash_bombs := 3\<rparr>" and act = "throw_decision_at 3 0" and c = 0
      and my = "[]" and en = "[]" and acts = "[]"
      and node = "throw_node 1 0" and sim = "example_sim [throw_node 1 0, hunker_node]"
      and agent = bomber_3
      and targets = "[agent_at 4 1 0, agent_at 5 1 1, agent_at 6 2 1]" and pre = "[]"
      and t = "agent_at 4 1 0" and post = "[]" and k = "- 1" and mine = True
      and sim' = "example_sim []"]
    by (simp add: example_defs bomber_3_def is_alive_def data_index_def)
  have thrown: "acting_side True
        ((example_sim [throw_node 1 0, hunker_node])
           \<lparr>sim_my_agents := [bomber_3\<lparr>splash_bombs := 2, cooldown := 2\<rparr>],
             sim_enemy_agents := [(agent_at 4 1 0)\<lparr>wetness := 94, cooldown := 3\<rparr>]\<rparr>)
       = [bomber_3\<lparr>splash_bombs := 2, cooldown := 2\<rparr>]
     \<and> opposing_side True
        ((example_sim [throw_node 1 0, hunker_node])
           \<lparr>sim_my_agents := [bomber_3\<lparr>splash_bombs := 2, cooldown := 2\<rparr>],
             sim_enemy_agents := [(agent_at 4 1 0)\<lparr>wetness := 94, cooldown := 3\<rparr>]\<rparr>)
       = [(agent_at 4 1 0)\<lparr>wetness := 94, cooldown := 3\<rparr>]"
  proof -
    let ?sim = "(example_sim [throw_node 1 0, hunker_node])\<lparr>sim_my_agents := [bomber_3]\<rparr>"
    let ?sim' = "(example_sim [throw_node 1 0, hunker_node])
           \<lparr>sim_my_agents := [bomber_3\<lparr>splash_bombs := 2, cooldown := 2\<rparr>],
             sim_enemy_agents := [(agent_at 4 1 0)\<lparr>wetness := 94, cooldown := 3\<rparr>]\<rparr>"
    note t = joint_step_effects [where node = "throw_node 1 0" and sim = ?sim and agent = bomber_3
        and targets = "[(agent_at 4 1 0)\<lparr>wetness := 90, cooldown := 3\<rparr>]"
        and k = 0 and mine = True and sim' = ?sim']
    note sides = t [THEN conjunct2, THEN conjunct2, THEN conjunct2, THEN conjunct2,
        THEN conjunct2, THEN conjunct2, THEN conjunct2, THEN conjunct2, THEN conjunct2,
        THEN conjunct2, THEN conjunct2, THEN conjunct2, THEN conjunct2, THEN conjunct2,
        THEN conjunct2]
    note thrown_node = t [THEN conjunct2, THEN conjunct2, THEN conjunct2, THEN conjunct2,
        THEN conjunct2, THEN conjunct2, THEN conjunct2, THEN conjunct2, THEN conjunct2,
        THEN conjunct2, THEN conjunct2, THEN conjunct2, THEN conjunct2, THEN conjunct1]
    have side: "acting_side True ?sim = [bomber_3]"
      "opposing_side True ?sim = [(agent_at 4 1 0)\<lparr>wetness := 90, cooldown := 3\<rparr>]"
      by (simp_all add: acting_side_def opposing_side_def example_sim_def)
    have pre: "apply_action ?sim 0 True = Some ?sim' \<and> (0::int) \<le> 0
        \<and> 0 < int (length (acting_side True ?sim))"
      using run_throw by (simp add: side)
    from sides [THEN mp, OF pre] obtain nd where
      nd: "vec_at (current_nodes ?sim) (node_index True ?sim 0) = Some nd"
      and act: "acting_side True ?sim'
        = (acting_side True ?sim)[nat 0 :=
             fst (apply_node ?sim nd (acting_side True ?sim ! nat 0) (opposing_side True ?sim))]"
      and opp: "opposing_side True ?sim'
        = fst (snd (apply_node ?sim nd (acting_side True ?sim ! nat 0) (opposing_side True ?sim)))"
      by blast
    from nd have nd_eq: "nd = throw_node 1 0"
      by (simp add: vec_at_def node_index_def example_sim_def)
    have can: "node_action_type (throw_node 1 0) = ''THROW'' \<and> cooldown bomber_3 = 0
        \<and> splash_bombs bomber_3 > 0"
      by (simp add: throw_node_def bomber_3_def agent_at_def)
    have node: "apply_node ?sim (throw_node 1 0) bomber_3
          [(agent_at 4 1 0)\<lparr>wetness := 90, cooldown := 3\<rparr>]
        = (bomber_3\<lparr>splash_bombs := 2, cooldown := 2\<rparr>,
           [(agent_at 4 1 0)\<lparr>wetness := 94, cooldown := 3\<rparr>], True)"
      unfolding thrown_node [THEN mp, OF can]
      by (simp add: example_defs bomber_3_def data_index_def)
    from act opp show ?thesis
      by (simp add: nd_eq side node)
  qed
  have dead: "apply_joint_action_step ((agent_at 1 0 0)\<lparr>cooldown := 2, wetness := 100\<rparr>)
        (move_decision_to 1 0)
     = (agent_at 1 0 0)\<lparr>cooldown := 2, wetness := 100\<rparr>"
    using joint_step_effects [where agents = "[]" and actions = "[]" and enemies = "[]" and i = 0
      and a = "(agent_at 1 0 0)\<lparr>cooldown := 2, wetness := 100\<rparr>"
      and act = "move_decision_to 1 0" and c = 0
      and my = "[]" and en = "[]" and acts = "[]"
      and node = "hunker_node" and sim = "example_sim []"
      and agent = "agent_at 2 0 0" and targets = "[]" and pre = "[]"
      and t = "agent_at 4 1 0" and post = "[]" and k = "- 1" and mine = True
      and sim' = "example_sim []"]
    by (simp add: example_defs is_alive_def)
  from move move0 idle shoot throw thrown dead run_move run_throw show ?thesis
    by - (intro conjI; (elim conjE)?; assumption)
qed

text \<open>
  Claim C2 as stated fails in both variants. In the heuristic engine the Gunner 1 at
  \<open>(0, 0)\<close> selects an Attack on agent 4 at distance 3 with a computed damage of 16, and
  after the joint step the wetness of agent 4 is still 0. In the search variant a
  simulated turn in which both agents hunker leaves the cooldown 3 of agent 4 at 3.
\<close>

theorem joint_step_counterexample:
  "find_best_shooting_target example_ai (agent_at 1 0 0) [agent_at 4 3 0]
     = Inr ((hunker_decision 3680)\<lparr>action_type := ''SHOOT'', target_agent_id := 4,
                                     expected_damage := 16\<rparr>)
   \<and> map wetness (snd (joint_simulation [agent_at 1 0 0] [agent_at 4 3 0]
        [(hunker_decision 3680)\<lparr>action_type := ''SHOOT'', target_agent_id := 4,
                                  expected_damage := 16\<rparr>])) = [0]
   \<and> map_option (\<lambda>s. map cooldown (sim_enemy_agents s))
        (simulated_turn (example_sim [hunker_node, hunker_node])) = Some [3]"
proof -
  have a: "find_best_shooting_target example_ai (agent_at 1 0 0) [agent_at 4 3 0]
     = Inr ((hunker_decision 3680)\<lparr>action_type := ''SHOOT'', target_agent_id := 4,
                                     expected_damage := 16\<rparr>)"
    by (simp add: find_best_shooting_target_def example_defs data_at_def shooting_step_def
        is_alive_def agent_distance_def calculate_cover_protection_def offsets3_def tile_at_def
        vec_at_def cast_int_def Let_def)
  have b: "map wetness (snd (joint_simulation [agent_at 1 0 0] [agent_at 4 3 0]
        [(hunker_decision 3680)\<lparr>action_type := ''SHOOT'', target_agent_id := 4,
                                  expected_damage := 16\<rparr>])) = [0]"
    by (simp add: joint_simulation_no_damage agent_at_def)
  have c: "map_option (\<lambda>s. map cooldown (sim_enemy_agents s))
        (simulated_turn (example_sim [hunker_node, hunker_node])) = Some [3]"
    by (simp add: simulated_turn_def apply_action_def example_defs vec_at_def apply_node_def
        data_index_def Let_def)
  from a b c show ?thesis by blast
qed

section \<open>Cooldowns in simulated rollouts\<close>

lemma apply_action_cooldown_frame:
  assumes "apply_action sim k mine = Some sim'"
  shows "map cooldown (opposing_side mine sim') = map cooldown (opposing_side mine sim)
         \<and> length (acting_side mine sim') = length (acting_side mine sim)
         \<and> (\<forall>j < length (acting_side mine sim). int j \<noteq> k \<longrightarrow>
               cooldown (acting_side mine sim' ! j) = cooldown (acting_side mine sim ! j))"
proof (cases "k < 0 \<or> k \<ge> int (length (acting_side mine sim))")
  case True
  with assms have "sim' = sim" using apply_action_skip [of k mine sim] by simp
  then show ?thesis by simp
next
  case False
  then have r: "0 \<le> k" "k < int (length (acting_side mine sim))" by auto
  from apply_action_sides [OF assms r] obtain nd where
    a: "acting_side mine sim'
          = (acting_side mine sim)[nat k :=
               fst (apply_node sim nd (acting_side mine sim ! nat k) (opposing_side mine sim))]"
    and o: "opposing_side mine sim'
          = fst (snd (apply_node sim nd (acting_side mine sim ! nat k) (opposing_side mine sim)))"
    by blast
  have "int j \<noteq> k \<Longrightarrow> nat k \<noteq> j" for j using r by auto
  then show ?thesis
    unfolding a o by (simp add: apply_node_targets_cooldown)
qed

text \<open>
  Claim C6, as amended. The tick of the heuristic engine's search lowers the cooldown of
  a living agent that does not act by exactly 1, and not below 0; \<open>reset_to_base_state\<close>
  of the search variant does the same to every agent, once per rollout. In the search
  variant an Attack at cooldown 0 on a present target, or a Throw at cooldown 0 with a
  bomb left, sets the acting agent's cooldown to the cooldown period of its own profile,
  every other action leaves it as it is, and \<open>apply_action\<close> changes the cooldown of no
  agent but the acting one. (What an Attack or a Throw does to the cooldown in the
  heuristic engine's search is left open.)
\<close>

theorem cooldown_evolution:
  "(is_alive a \<and> \<not> (action_type act = ''SHOOT'' \<and> cooldown a = 0)
      \<and> \<not> (action_type act = ''THROW'' \<and> splash_bombs a > 0) \<longrightarrow>
      cooldown (apply_joint_action_step a act)
        = (if cooldown a > 0 then cooldown a - 1 else cooldown a))
   \<and> map cooldown (sim_my_agents (reset_to_base_state sim base_my base_enemy))
       = map (\<lambda>b. if cooldown b > 0 then cooldown b - 1 else cooldown b) base_my
   \<and> map cooldown (sim_enemy_agents (reset_to_base_state sim base_my base_enemy))
       = map (\<lambda>b. if cooldown b > 0 then cooldown b - 1 else cooldown b) base_enemy
   \<and> cooldown (fst (apply_node sim node agent targets))
       = (if (node_action_type node = ''SHOOT'' \<and> cooldown agent = 0
              \<and> node_target_agent_id node \<in> agent_id ` set targets)
             \<or> (node_action_type node = ''THROW'' \<and> cooldown agent = 0 \<and> splash_bombs agent > 0)
          then shoot_cooldown (data_index (sim_agent_data sim) (agent_id agent))
          else cooldown agent)
   \<and> (apply_action sim k mine = Some sim' \<longrightarrow>
        map cooldown (opposing_side mine sim') = map cooldown (opposing_side mine sim)
        \<and> length (acting_side mine sim') = length (acting_side mine sim)
        \<and> (\<forall>j < length (acting_side mine sim). int j \<noteq> k \<longrightarrow>
              cooldown (acting_side mine sim' ! j) = cooldown (acting_side mine sim ! j)))"
proof -
  have idle: "is_alive a \<and> \<not> (action_type act = ''SHOOT'' \<and> cooldown a = 0)
      \<and> \<not> (action_type act = ''THROW'' \<and> splash_bombs a > 0) \<longrightarrow>
      cooldown (apply_joint_action_step a act)
        = (if cooldown a > 0 then cooldown a - 1 else cooldown a)"
    using step_cooldown_idle [of a act] reset_cooldown_value [of a] by simp
  have frame: "apply_action sim k mine = Some sim' \<longrightarrow>
        map cooldown (opposing_side mine sim') = map cooldown (opposing_side mine sim)
        \<and> length (acting_side mine sim') = length (acting_side mine sim)
        \<and> (\<forall>j < length (acting_side mine sim). int j \<noteq> k \<longrightarrow>
              cooldown (acting_side mine sim' ! j) = cooldown (acting_side mine sim ! j))"
    using apply_action_cooldown_frame [of sim k mine sim'] by blast
  note reset = reset_to_base_state_cooldowns [of sim base_my base_enemy]
  show ?thesis
    using idle reset [THEN conjunct1] reset [THEN conjunct2]
      apply_node_agent_cooldown [of sim node agent targets] frame
    by - (intro conjI; assumption)
qed

theorem cooldown_evolution_witness:
  "cooldown (apply_joint_action_step ((agent_at 1 0 0)\<lparr>cooldown := 2\<rparr>) (move_decision_to 1 0)) = 1
   \<and> map cooldown (sim_my_agents (reset_to_base_state (example_sim [shoot_node 4, hunker_node])
        [(agent_at 2 0 0)\<lparr>cooldown := 5\<rparr>, agent_at 1 1 1] [(agent_at 4 1 0)\<lparr>cooldown := 1\<rparr>]))
       = [4, 0]
   \<and> map cooldown (sim_enemy_agents (reset_to_base_state (example_sim [shoot_node 4, hunker_node])
        [(agent_at 2 0 0)\<lparr>cooldown := 5\<rparr>, agent_at 1 1 1] [(agent_at 4 1 0)\<lparr>cooldown := 1\<rparr>]))
       = [0]
   \<and> cooldown (fst (apply_node (example_sim [shoot_node 4, hunker_node]) (shoot_node 4) (agent_at 2 0 0) [agent_at 4 1 0])) = 5
   \<and> apply_action (example_sim [shoot_node 4, hunker_node]) 0 True
       = Some ((example_sim [shoot_node 4, hunker_node])
                 \<lparr>sim_my_agents := [(agent_at 2 0 0)\<lparr>cooldown := 5\<rparr>],
                  sim_enemy_agents := [(agent_at 4 1 0)\<lparr>wetness := 114, cooldown := 3\<rparr>]\<rparr>)
   \<and> map cooldown (opposing_side True ((example_sim [shoot_node 4, hunker_node])
                 \<lparr>sim_my_agents := [(agent_at 2 0 0)\<lparr>cooldown := 5\<rparr>],
                  sim_enemy_agents := [(agent_at 4 1 0)\<lparr>wetness := 114, cooldown := 3\<rparr>]\<rparr>))
       = [3]"
proof -
  have run: "apply_action (example_sim [shoot_node 4, hunker_node]) 0 True
       = Some ((example_sim [shoot_node 4, hunker_node])
                 \<lparr>sim_my_agents := [(agent_at 2 0 0)\<lparr>cooldown := 5\<rparr>],
                  sim_enemy_agents := [(agent_at 4 1 0)\<lparr>wetness := 114, cooldown := 3\<rparr>]\<rparr>)"
    by (simp add: apply_action_def example_defs vec_at_def apply_node_def data_index_def
        data_touch_def calculate_shooting_damage_def manhattan_distance_def Let_def)
  show ?thesis
    using cooldown_evolution [where a = "(agent_at 1 0 0)\<lparr>cooldown := 2\<rparr>"
      and act = "move_decision_to 1 0" and sim = "example_sim [shoot_node 4, hunker_node]"
      and base_my = "[(agent_at 2 0 0)\<lparr>cooldown := 5\<rparr>, agent_at 1 1 1]"
      and base_enemy = "[(agent_at 4 1 0)\<lparr>cooldown := 1\<rparr>]"
      and node = "shoot_node 4" and agent = "agent_at 2 0 0" and targets = "[agent_at 4 1 0]"
      and k = 0 and mine = True
      and sim' = "(example_sim [shoot_node 4, hunker_node])
                 \<lparr>sim_my_agents := [(agent_at 2 0 0)\<lparr>cooldown := 5\<rparr>],
                  sim_enemy_agents := [(agent_at 4 1 0)\<lparr>wetness := 114, cooldown := 3\<rparr>]\<rparr>"]
      run
    by (simp add: example_defs is_alive_def data_index_def opposing_side_def acting_side_def)
qed

text \<open>
  Claim C6 as stated fails in both variants. In the search variant a simulated turn in
  which agent 4 hunkers leaves its cooldown 3 at 3. In the heuristic engine's search the
  Sniper 2, whose profile has the cooldown period 5, attacks at cooldown 0 and ends the
  step at cooldown 0.
\<close>

theorem cooldown_evolution_counterexample:
  "map_option (\<lambda>s. map cooldown (sim_enemy_agents s))
     (simulated_turn (example_sim [move_node 1 1, hunker_node])) = Some [3]
   \<and> map cooldown (apply_joint_action [agent_at 2 0 0] [shoot_decision 4] [agent_at 4 1 0]) = [0]
   \<and> map_option shoot_cooldown (example_profiles 2) = Some 5"
  by (simp add: simulated_turn_def apply_action_def example_defs vec_at_def apply_node_def
      data_index_def apply_joint_action_step_def is_alive_def Let_def)

section \<open>Wetness under damage\<close>

lemma wetness_nonneg_kept:
  "list_all2 (\<lambda>a b. wetness a \<le> wetness b) xs ys \<Longrightarrow> \<forall>a\<in>set xs. 0 \<le> wetness a \<Longrightarrow>
     \<forall>b\<in>set ys. 0 \<le> wetness b"
  by (induction xs ys rule: list_all2_induct) auto

lemma example_profiles_nonneg:
  "\<forall>k d. example_profiles k = Some d \<longrightarrow> 0 \<le> soaking_power d"
  by (simp add: example_profiles_def gunner_profile_def sniper_profile_def bomber_profile_def)

text \<open>
  Claim C7, as amended. Applying damage never lowers a wetness: \<open>apply_action\<close> leaves
  every agent's wetness where it was or raises it (the profiles' powers being
  non-negative), so a wetness that was not below 0 stays so, and the heuristic engine's
  \<open>apply_joint_action\<close> changes no wetness at all. Wetness is not clamped from above and can
  pass 100; the kill probability computed from a wetness and a damage always exists and
  never exceeds 1.
\<close>

theorem wetness_bounds:
  "(apply_action sim i mine = Some sim'
      \<and> (\<forall>k d. sim_agent_data sim k = Some d \<longrightarrow> 0 \<le> soaking_power d) \<longrightarrow>
      list_all2 (\<lambda>a b. wetness a \<le> wetness b) (sim_my_agents sim) (sim_my_agents sim')
      \<and> list_all2 (\<lambda>a b. wetness a \<le> wetness b) (sim_enemy_agents sim) (sim_enemy_agents sim')
      \<and> ((\<forall>a\<in>set (sim_my_agents sim @ sim_enemy_agents sim). 0 \<le> wetness a) \<longrightarrow>
           (\<forall>b\<in>set (sim_my_agents sim' @ sim_enemy_agents sim'). 0 \<le> wetness b)))
   \<and> map wetness (apply_joint_action agents actions enemies) = map wetness agents
   \<and> (\<exists>q. calculate_kill_probability w dmg = Some q)
   \<and> (calculate_kill_probability w dmg = Some p \<longrightarrow> p \<le> 1)"
proof -
  have sim: "apply_action sim i mine = Some sim'
      \<and> (\<forall>k d. sim_agent_data sim k = Some d \<longrightarrow> 0 \<le> soaking_power d) \<longrightarrow>
      list_all2 (\<lambda>a b. wetness a \<le> wetness b) (sim_my_agents sim) (sim_my_agents sim')
      \<and> list_all2 (\<lambda>a b. wetness a \<le> wetness b) (sim_enemy_agents sim) (sim_enemy_agents sim')
      \<and> ((\<forall>a\<in>set (sim_my_agents sim @ sim_enemy_agents sim). 0 \<le> wetness a) \<longrightarrow>
           (\<forall>b\<in>set (sim_my_agents sim' @ sim_enemy_agents sim'). 0 \<le> wetness b))"
  proof
    assume h: "apply_action sim i mine = Some sim'
      \<and> (\<forall>k d. sim_agent_data sim k = Some d \<longrightarrow> 0 \<le> soaking_power d)"
    from h have h1: "apply_action sim i mine = Some sim'" by (rule conjunct1)
    from h have h2: "\<forall>k d. sim_agent_data sim k = Some d \<longrightarrow> 0 \<le> soaking_power d"
      by (rule conjunct2)
    note both = apply_action_wetness [OF h1 h2]
    from both have m: "list_all2 (\<lambda>a b. wetness a \<le> wetness b) (sim_my_agents sim) (sim_my_agents sim')"
      by (rule conjunct1)
    from both have e: "list_all2 (\<lambda>a b. wetness a \<le> wetness b) (sim_enemy_agents sim)
                (sim_enemy_agents sim')"
      by (rule conjunct2)
    have n: "(\<forall>a\<in>set (sim_my_agents sim @ sim_enemy_agents sim). 0 \<le> wetness a) \<longrightarrow>
           (\<forall>b\<in>set (sim_my_agents sim' @ sim_enemy_agents sim'). 0 \<le> wetness b)"
    proof
      assume all: "\<forall>a\<in>set (sim_my_agents sim @ sim_enemy_agents sim). 0 \<le> wetness a"
      then have "\<forall>a\<in>set (sim_my_agents sim). 0 \<le> wetness a"
        and "\<forall>a\<in>set (sim_enemy_agents sim). 0 \<le> wetness a" by simp_all
      then have "\<forall>b\<in>set (sim_my_agents sim'). 0 \<le> wetness b"
        and "\<forall>b\<in>set (sim_enemy_agents sim'). 0 \<le> wetness b"
        using wetness_nonneg_kept [OF m] wetness_nonneg_kept [OF e] by simp_all
      then show "\<forall>b\<in>set (sim_my_agents sim' @ sim_enemy_agents sim'). 0 \<le> wetness b"
        by (simp add: ball_Un)
    qed
    from m e n show "list_all2 (\<lambda>a b. wetness a \<le> wetness b) (sim_my_agents sim) (sim_my_agents sim')
      \<and> list_all2 (\<lambda>a b. wetness a \<le> wetness b) (sim_enemy_agents sim) (sim_enemy_agents sim')
      \<and> ((\<forall>a\<in>set (sim_my_agents sim @ sim_enemy_agents sim). 0 \<le> wetness a) \<longrightarrow>
           (\<forall>b\<in>set (sim_my_agents sim' @ sim_enemy_agents sim'). 0 \<le> wetness b))"
      by (intro conjI)
  qed
  have le: "calculate_kill_probability w dmg = Some p \<longrightarrow> p \<le> 1"
    using kill_probability_le_1 [of w dmg p] by blast
  show ?thesis
    using sim apply_joint_action_wetness [of agents actions enemies]
      kill_probability_some [of w dmg] le
    by - (intro conjI; assumption)
qed

theorem wetness_bounds_witness:
  "apply_action (example_sim [throw_node 1 0, hunker_node]) 0 False
       = Some (example_sim [throw_node 1 0, hunker_node])
   \<and> list_all2 (\<lambda>a b. wetness a \<le> wetness b)
        (sim_enemy_agents (example_sim [shoot_node 4, hunker_node]))
        [(agent_at 4 1 0)\<lparr>wetness := 114, cooldown := 3\<rparr>]
   \<and> map wetness (apply_joint_action [(agent_at 1 0 0)\<lparr>wetness := 40\<rparr>] [shoot_decision 4]
        [agent_at 4 1 0]) = [40]
   \<and> calculate_kill_probability 90 24 = Some 1
   \<and> calculate_kill_probability 10 24 = Some 0.34"
proof -
  have run: "apply_action (example_sim [shoot_node 4, hunker_node]) 0 True
       = Some ((example_sim [shoot_node 4, hunker_node])
                 \<lparr>sim_my_agents := [(agent_at 2 0 0)\<lparr>cooldown := 5\<rparr>],
                  sim_enemy_agents := [(agent_at 4 1 0)\<lparr>wetness := 114, cooldown := 3\<rparr>]\<rparr>)"
    by (simp add: apply_action_def example_defs vec_at_def apply_node_def data_index_def
        data_touch_def calculate_shooting_damage_def manhattan_distance_def Let_def)
  have idle: "apply_action (example_sim [throw_node 1 0, hunker_node]) 0 False
       = Some (example_sim [throw_node 1 0, hunker_node])"
    by (simp add: apply_action_def example_defs vec_at_def apply_node_def data_index_def Let_def)
  have nonneg: "\<forall>k d. sim_agent_data (example_sim [shoot_node 4, hunker_node]) k = Some d
                  \<longrightarrow> 0 \<le> soaking_power d"
    using example_profiles_nonneg by (simp add: example_sim_def)
  have a: "list_all2 (\<lambda>a b. wetness a \<le> wetness b)
        (sim_enemy_agents (example_sim [shoot_node 4, hunker_node]))
        [(agent_at 4 1 0)\<lparr>wetness := 114, cooldown := 3\<rparr>]
      \<and> map wetness (apply_joint_action [(agent_at 1 0 0)\<lparr>wetness := 40\<rparr>] [shoot_decision 4]
        [agent_at 4 1 0]) = [40]
      \<and> calculate_kill_probability 90 24 = Some 1"
    using wetness_bounds [where sim = "example_sim [shoot_node 4, hunker_node]" and i = 0
      and mine = True
      and sim' = "(example_sim [shoot_node 4, hunker_node])
                 \<lparr>sim_my_agents := [(agent_at 2 0 0)\<lparr>cooldown := 5\<rparr>],
                  sim_enemy_agents := [(agent_at 4 1 0)\<lparr>wetness := 114, cooldown := 3\<rparr>]\<rparr>"
      and agents = "[(agent_at 1 0 0)\<lparr>wetness := 40\<rparr>]" and actions = "[shoot_decision 4]"
      and enemies = "[agent_at 4 1 0]" and w = 90 and dmg = 24 and p = 1]
      run nonneg
    by (simp add: agent_at_def calculate_kill_probability_def)
  have b: "calculate_kill_probability 10 24 = Some 0.34"
    by (simp add: calculate_kill_probability_def double_div_def)
  from idle a b show ?thesis by blast
qed

text \<open>
  Claim C7 as stated fails: wetness is not kept inside \<open>[0, 100]\<close>. The Sniper's shot of
  24 on an agent of wetness 90 leaves that agent with the wetness 114.
\<close>

theorem wetness_bounds_counterexample:
  "map_option (\<lambda>s. map wetness (sim_enemy_agents s))
     (apply_action (example_sim [shoot_node 4, hunker_node]) 0 True) = Some [114]"
  by (simp add: apply_action_def example_defs vec_at_def apply_node_def data_index_def
      calculate_shooting_damage_def manhattan_distance_def Let_def)


section \<open>A turn after the loss of an agent\<close>

lemma two_left_agents:
  "current_my_agents_of example_ai two_left
     = [(agent_at 1 0 0)\<lparr>cooldown := 1\<rparr>, (agent_at 2 0 1)\<lparr>cooldown := 1\<rparr>]"
  "current_enemy_agents_of example_ai two_left = [agent_at 4 5 5]"
  by (simp_all add: current_my_agents_of_def current_enemy_agents_of_def two_left_def
      example_ai_def agent_at_def)

lemma two_left_search_fails:
  "compute_decisions example_ai 5 (\<lambda>my en. Inl runtime_failure) mk
      (current_my_agents_of example_ai two_left) (current_enemy_agents_of example_ai two_left)
     = Inl runtime_failure"
  by (simp add: two_left_agents compute_decisions_def Let_def)

lemma two_left_search_returns:
  "compute_decisions example_ai 6 (\<lambda>my en. Inr [hunker_decision 50, move_decision_to 1 0]) mk
      (current_my_agents_of example_ai two_left) (current_enemy_agents_of example_ai two_left)
     = Inr [1 \<mapsto> hunker_decision 50, 2 \<mapsto> move_decision_to 1 0]"
  by (simp add: two_left_agents compute_decisions_def Let_def initial_decisions_def
      process_agent_def proposed_decision_def agent_at_def is_alive_def resolve_collision_def
      is_move_class_def hunker_decision_def move_decision_to_def default_decision_def
      focus_fire_override_def split: option.splits)


section \<open>The action lines\<close>

lemma to_string_ex: "to_string 0 = ''0'' \<and> to_string 12 = ''12'' \<and> to_string (- 7) = ''-7''"
  by (simp add: to_string_def string_of_nat.simps digit_char_def)

lemma format_cases:
  "(action_type d = ''SHOOT'' \<longrightarrow>
      format_compound_action aid d
        = spec_line ''SHOOT'' aid (Attack (target_agent_id d)) (Some Hunker))
   \<and> (action_type d = ''MOVE'' \<longrightarrow>
      format_compound_action aid d
        = spec_line ''SHOOT'' aid (Move (target_x d) (target_y d)) (Some Hunker))
   \<and> (action_type d = ''THROW'' \<longrightarrow>
      format_compound_action aid d
        = spec_line ''SHOOT'' aid (Throw (target_x d) (target_y d)) (Some Hunker))
   \<and> (action_type d = ''MOVE_SHOOT'' \<longrightarrow>
      format_compound_action aid d
        = spec_line ''SHOOT'' aid (Move (target_x d) (target_y d))
            (Some (Attack (target_agent_id d))))
   \<and> (action_type d = ''MOVE_THROW'' \<longrightarrow>
      format_compound_action aid d
        = spec_line ''SHOOT'' aid (Move (target_x d) (target_y d))
            (Some (Throw (bomb_x d) (bomb_y d))))
   \<and> (action_type d \<notin> {''SHOOT'', ''MOVE'', ''THROW'', ''MOVE_SHOOT'', ''MOVE_THROW''} \<longrightarrow>
      format_compound_action aid d = spec_line ''SHOOT'' aid Hunker None)"
  by (simp add: format_compound_action_def spec_line_def)

lemma reference_action_cases:
  "reference_action aid None = spec_line ''SHOOT'' aid Hunker (Some Hunker)
   \<and> (node_action_type mv = ''SHOOT'' \<longrightarrow>
        reference_action aid (Some mv)
          = spec_line ''SHOOT'' aid (Attack (node_target_agent_id mv)) (Some Hunker))
   \<and> (node_action_type mv = ''MOVE'' \<longrightarrow>
        reference_action aid (Some mv)
          = spec_line ''SHOOT'' aid (Move (node_target_x mv) (node_target_y mv)) (Some Hunker))
   \<and> (node_action_type mv = ''THROW'' \<longrightarrow>
        reference_action aid (Some mv)
          = spec_line ''SHOOT'' aid (Throw (node_target_x mv) (node_target_y mv)) (Some Hunker))
   \<and> (node_action_type mv \<notin> {''SHOOT'', ''MOVE'', ''THROW''} \<longrightarrow>
        reference_action aid (Some mv) = spec_line ''SHOOT'' aid Hunker (Some Hunker))"
  by (simp add: reference_action_def spec_line_def)

lemma output_lines_length: "length (output_lines ai my decisions n) = nat n"
  by (simp add: output_lines_def)

lemma output_lines_nth:
  "line < nat n \<Longrightarrow> output_lines ai my decisions n ! line
     = output_line ai (filter is_alive my) decisions line"
  by (simp add: output_lines_def)

lemma output_line_agent:
  "line < length alive \<Longrightarrow>
     output_line ai alive decisions line
       = Some (format_compound_action (agent_id (alive ! line))
                 (case decisions (agent_id (alive ! line)) of
                    Some d \<Rightarrow> d
                  | None \<Rightarrow> default_decision\<lparr>action_type := ''HUNKER_DOWN''\<rparr>))"
  by (simp add: output_line_def Let_def)

lemma output_line_fallback:
  "\<not> line < length alive \<Longrightarrow> alive \<noteq> [] \<or> my_agent_ids ai \<noteq> [] \<Longrightarrow>
     output_line ai alive decisions line
       = Some (spec_line ''SHOOT''
                 (if alive = [] then my_agent_ids ai ! 0 else agent_id (alive ! 0)) Hunker None)"
  by (auto simp: output_line_def spec_line_def vec_at_def)

lemma reference_output_lines_length:
  "length (reference_output_lines ids my best_moves n) = nat n"
  by (simp add: reference_output_lines_def)

lemma reference_output_line_agent:
  "i < length my \<Longrightarrow>
     reference_output_line ids my best_moves i
       = Some (reference_action (agent_id (my ! i))
                 (if i < length best_moves then best_moves ! i else None))"
  by (simp add: reference_output_line_def)

lemma reference_output_line_fallback:
  "\<not> i < length my \<Longrightarrow> ids \<noteq> [] \<Longrightarrow>
     reference_output_line ids my best_moves i
       = Some (spec_line ''SHOOT'' (if i < length ids then ids ! i else ids ! 0)
                 Hunker (Some Hunker))"
  by (auto simp: reference_output_line_def spec_line_def vec_at_def)

text \<open>
  Claim C9, as amended. Every line the output loops print for an expected output slot
  has the form \<open><agentId>;<PRIMARY>[; <SECONDARY>]\<close> over the commands \<open>HUNKER_DOWN\<close>,
  \<open>MOVE <x> <y>\<close>, \<open>SHOOT <targetAgentId>\<close> and \<open>THROW <x> <y>\<close> (the attack keyword is
  \<open>SHOOT\<close>): an Attack, a Move or a Throw prints its command and a trailing
  \<open>HUNKER_DOWN\<close>, a compound action a Move and then the Attack or the Throw, and in the
  heuristic engine any other decision the single command \<open>HUNKER_DOWN\<close>. The output loop
  of the heuristic engine (\<open>output_lines\<close>, whose lines are the output of a turn that
  computed its decisions without an exception) gives one line to each expected slot: a slot below the number of living controlled agents
  prints the decision of the living agent at that index, every other slot prints
  \<open>HUNKER_DOWN\<close> for the first living agent, or for the first controlled id when none
  lives. The output loop of the search variant prints one command and a trailing
  \<open>HUNKER_DOWN\<close> for the agent at the slot's index, and past the agents \<open>HUNKER_DOWN;
  HUNKER_DOWN\<close> for the id at the slot's index, or for the first id past the end of the id
  list. (The lines of the \<open>catch\<close> block are not those of the output loop.)
\<close>

theorem output_line_format:
  "(action_type d = ''SHOOT'' \<longrightarrow>
      format_compound_action aid d
        = spec_line ''SHOOT'' aid (Attack (target_agent_id d)) (Some Hunker))
   \<and> (action_type d = ''MOVE'' \<longrightarrow>
      format_compound_action aid d
        = spec_line ''SHOOT'' aid (Move (target_x d) (target_y d)) (Some Hunker))
   \<and> (action_type d = ''THROW'' \<longrightarrow>
      format_compound_action aid d
        = spec_line ''SHOOT'' aid (Throw (target_x d) (target_y d)) (Some Hunker))
   \<and> (action_type d = ''MOVE_SHOOT'' \<longrightarrow>
      format_compound_action aid d
        = spec_line ''SHOOT'' aid (Move (target_x d) (target_y d))
            (Some (Attack (target_agent_id d))))
   \<and> (action_type d = ''MOVE_THROW'' \<longrightarrow>
      format_compound_action aid d
        = spec_line ''SHOOT'' aid (Move (target_x d) (target_y d))
            (Some (Throw (bomb_x d) (bomb_y d))))
   \<and> (action_type d \<notin> {''SHOOT'', ''MOVE'', ''THROW'', ''MOVE_SHOOT'', ''MOVE_THROW''} \<longrightarrow>
      format_compound_action aid d = spec_line ''SHOOT'' aid Hunker None)
   \<and> length (output_lines ai my decisions n) = nat n
   \<and> (line < nat n \<and> line < length (filter is_alive my) \<longrightarrow>
        output_lines ai my decisions n ! line
          = Some (format_compound_action (agent_id (filter is_alive my ! line))
                    (case decisions (agent_id (filter is_alive my ! line)) of
                       Some d \<Rightarrow> d
                     | None \<Rightarrow> default_decision\<lparr>action_type := ''HUNKER_DOWN''\<rparr>)))
   \<and> (line < nat n \<and> \<not> line < length (filter is_alive my)
        \<and> (filter is_alive my \<noteq> [] \<or> my_agent_ids ai \<noteq> []) \<longrightarrow>
        output_lines ai my decisions n ! line
          = Some (spec_line ''SHOOT''
                    (if filter is_alive my = [] then my_agent_ids ai ! 0
                     else agent_id (filter is_alive my ! 0)) Hunker None))
   \<and> reference_action aid None = spec_line ''SHOOT'' aid Hunker (Some Hunker)
   \<and> (node_action_type mv = ''SHOOT'' \<longrightarrow>
        reference_action aid (Some mv)
          = spec_line ''SHOOT'' aid (Attack (node_target_agent_id mv)) (Some Hunker))
   \<and> (node_action_type mv = ''MOVE'' \<longrightarrow>
        reference_action aid (Some mv)
          = spec_line ''SHOOT'' aid (Move (node_target_x mv) (node_target_y mv)) (Some Hunker))
   \<and> (node_action_type mv = ''THROW'' \<longrightarrow>
        reference_action aid (Some mv)
          = spec_line ''SHOOT'' aid (Throw (node_target_x mv) (node_target_y mv)) (Some Hunker))
   \<and> (node_action_type mv \<notin> {''SHOOT'', ''MOVE'', ''THROW''} \<longrightarrow>
        reference_action aid (Some mv) = spec_line ''SHOOT'' aid Hunker (Some Hunker))
   \<and> length (reference_output_lines ids cur best_moves n) = nat n
   \<and> (line < nat n \<and> line < length cur \<longrightarrow>
        reference_output_lines ids cur best_moves n ! line
          = Some (reference_action (agent_id (cur ! line))
                    (if line < length best_moves then best_moves ! line else None)))
   \<and> (line < nat n \<and> \<not> line < length cur \<and> ids \<noteq> [] \<longrightarrow>
        reference_output_lines ids cur best_moves n ! line
          = Some (spec_line ''SHOOT'' (if line < length ids then ids ! line else ids ! 0)
                    Hunker (Some Hunker)))
   \<and> (compute_decisions ai turn search mk (current_my_agents_of ai inp)
          (current_enemy_agents_of ai inp) = Inr ds \<longrightarrow>
        run_turn ai turn (Some inp) search mk
          = Lines (output_lines ai (current_my_agents_of ai inp) ds (my_agent_count inp)))"
proof -
  have turn_lines: "compute_decisions ai turn search mk (current_my_agents_of ai inp)
          (current_enemy_agents_of ai inp) = Inr ds \<longrightarrow>
        run_turn ai turn (Some inp) search mk
          = Lines (output_lines ai (current_my_agents_of ai inp) ds (my_agent_count inp))"
    by (simp add: run_turn_def)
  have agent_line: "line < nat n \<and> line < length (filter is_alive my) \<longrightarrow>
        output_lines ai my decisions n ! line
          = Some (format_compound_action (agent_id (filter is_alive my ! line))
                    (case decisions (agent_id (filter is_alive my ! line)) of
                       Some d \<Rightarrow> d
                     | None \<Rightarrow> default_decision\<lparr>action_type := ''HUNKER_DOWN''\<rparr>))"
    by (simp add: output_lines_nth output_line_agent)
  have fallback_line: "line < nat n \<and> \<not> line < length (filter is_alive my)
        \<and> (filter is_alive my \<noteq> [] \<or> my_agent_ids ai \<noteq> []) \<longrightarrow>
        output_lines ai my decisions n ! line
          = Some (spec_line ''SHOOT''
                    (if filter is_alive my = [] then my_agent_ids ai ! 0
                     else agent_id (filter is_alive my ! 0)) Hunker None)"
    using output_line_fallback [of line "filter is_alive my" ai decisions]
    by (simp add: output_lines_nth)
  have ref_agent: "line < nat n \<and> line < length cur \<longrightarrow>
        reference_output_lines ids cur best_moves n ! line
          = Some (reference_action (agent_id (cur ! line))
                    (if line < length best_moves then best_moves ! line else None))"
    by (simp add: reference_output_lines_def reference_output_line_agent)
  have ref_fallback: "line < nat n \<and> \<not> line < length cur \<and> ids \<noteq> [] \<longrightarrow>
        reference_output_lines ids cur best_moves n ! line
          = Some (spec_line ''SHOOT'' (if line < length ids then ids ! line else ids ! 0)
                    Hunker (Some Hunker))"
    using reference_output_line_fallback [of line cur ids best_moves]
    by (simp add: reference_output_lines_def)
  note f = format_cases [of d aid]
  note r = reference_action_cases [of aid mv]
  show ?thesis
    using f [THEN conjunct1] f [THEN conjunct2, THEN conjunct1]
      f [THEN conjunct2, THEN conjunct2, THEN conjunct1]
      f [THEN conjunct2, THEN conjunct2, THEN conjunct2, THEN conjunct1]
      f [THEN conjunct2, THEN conjunct2, THEN conjunct2, THEN conjunct2, THEN conjunct1]
      f [THEN conjunct2, THEN conjunct2, THEN conjunct2, THEN conjunct2, THEN conjunct2]
      output_lines_length [of ai my decisions n] agent_line fallback_line
      r [THEN conjunct1] r [THEN conjunct2, THEN conjunct1]
      r [THEN conjunct2, THEN conjunct2, THEN conjunct1]
      r [THEN conjunct2, THEN conjunct2, THEN conjunct2, THEN conjunct1]
      r [THEN conjunct2, THEN conjunct2, THEN conjunct2, THEN conjunct2]
      reference_output_lines_length [of ids cur best_moves n] ref_agent ref_fallback
      turn_lines
    by - (intro conjI; assumption)
qed

lemmas string_defs = to_string_def string_of_nat.simps digit_char_def spec_line_def

theorem output_line_format_witness:
  "format_compound_action 1 (shoot_decision 4) = ''1;SHOOT 4; HUNKER_DOWN''
   \<and> format_compound_action 2 (move_decision_to 3 10) = ''2;MOVE 3 10; HUNKER_DOWN''
   \<and> format_compound_action 3 (throw_decision_at 3 0) = ''3;THROW 3 0; HUNKER_DOWN''
   \<and> format_compound_action 1 ((move_decision_to 1 0)\<lparr>action_type := ''MOVE_SHOOT'',
         target_agent_id := 4\<rparr>) = ''1;MOVE 1 0; SHOOT 4''
   \<and> format_compound_action 3 ((move_decision_to 1 0)\<lparr>action_type := ''MOVE_THROW'',
         bomb_x := 3, bomb_y := 1\<rparr>) = ''3;MOVE 1 0; THROW 3 1''
   \<and> format_compound_action 1 (hunker_decision 50) = ''1;HUNKER_DOWN''
   \<and> output_lines example_ai [agent_at 1 0 0, (agent_at 2 5 5)\<lparr>wetness := 100\<rparr>]
        [1 \<mapsto> move_decision_to 1 0] 2
       = [Some ''1;MOVE 1 0; HUNKER_DOWN'', Some ''1;HUNKER_DOWN'']
   \<and> reference_action 2 (Some (shoot_node 4)) = ''2;SHOOT 4; HUNKER_DOWN''
   \<and> reference_action 2 (Some (move_node 1 0)) = ''2;MOVE 1 0; HUNKER_DOWN''
   \<and> reference_action 3 (Some (throw_node 1 0)) = ''3;THROW 1 0; HUNKER_DOWN''
   \<and> reference_action 2 (Some hunker_node) = ''2;HUNKER_DOWN; HUNKER_DOWN''
   \<and> reference_output_lines [1, 2, 3] [agent_at 2 0 0] [Some (shoot_node 4)] 2
       = [Some ''2;SHOOT 4; HUNKER_DOWN'', Some ''2;HUNKER_DOWN; HUNKER_DOWN'']
   \<and> run_turn example_ai 6 (Some two_left)
        (\<lambda>my en. Inr [hunker_decision 50, move_decision_to 1 0]) (\<lambda>a. Inl runtime_failure)
       = Lines [Some ''1;HUNKER_DOWN'', Some ''2;MOVE 1 0; HUNKER_DOWN'']"
proof -
  have turn: "run_turn example_ai 6 (Some two_left)
        (\<lambda>my en. Inr [hunker_decision 50, move_decision_to 1 0]) (\<lambda>a. Inl runtime_failure)
       = Lines [Some ''1;HUNKER_DOWN'', Some ''2;MOVE 1 0; HUNKER_DOWN'']"
  proof -
    note t = output_line_format [where ai = example_ai and turn = 6 and inp = two_left
        and search = "\<lambda>my en. Inr [hunker_decision 50, move_decision_to 1 0]"
        and mk = "\<lambda>a. Inl runtime_failure"
        and ds = "[1 \<mapsto> hunker_decision 50, 2 \<mapsto> move_decision_to 1 0]"]
    note last = t [THEN conjunct2, THEN conjunct2, THEN conjunct2, THEN conjunct2,
        THEN conjunct2, THEN conjunct2, THEN conjunct2, THEN conjunct2, THEN conjunct2,
        THEN conjunct2, THEN conjunct2, THEN conjunct2, THEN conjunct2, THEN conjunct2,
        THEN conjunct2, THEN conjunct2, THEN conjunct2]
    have "run_turn example_ai 6 (Some two_left)
        (\<lambda>my en. Inr [hunker_decision 50, move_decision_to 1 0]) (\<lambda>a. Inl runtime_failure)
       = Lines (output_lines example_ai (current_my_agents_of example_ai two_left)
                  [1 \<mapsto> hunker_decision 50, 2 \<mapsto> move_decision_to 1 0]
                  (my_agent_count two_left))"
      using last two_left_search_returns [of "\<lambda>a. Inl runtime_failure"] by (rule mp)
    then show ?thesis
      unfolding two_left_agents
      by (simp add: output_lines_def output_line_def is_alive_def agent_at_def
          to_string_def string_of_nat.simps digit_char_def format_compound_action_def
          hunker_decision_def move_decision_to_def default_decision_def two_left_def
          numeral_2_eq_2)
  qed
  have w1: "format_compound_action 1 (shoot_decision 4) = ''1;SHOOT 4; HUNKER_DOWN''
      \<and> reference_action 2 (Some (shoot_node 4)) = ''2;SHOOT 4; HUNKER_DOWN''"
    using output_line_format [where d = "shoot_decision 4" and aid = 1 and mv = "shoot_node 4"
        and line = 0 and n = 0 and my = "[]" and cur = "[]" and ids = "[]"]
      output_line_format [where d = "shoot_decision 4" and aid = 2 and mv = "shoot_node 4"
        and line = 0 and n = 0 and my = "[]" and cur = "[]" and ids = "[]"]
    by (simp add: example_defs string_defs)
  have w2: "format_compound_action 2 (move_decision_to 3 10) = ''2;MOVE 3 10; HUNKER_DOWN''
      \<and> reference_action 2 (Some (move_node 1 0)) = ''2;MOVE 1 0; HUNKER_DOWN''"
    using output_line_format [where d = "move_decision_to 3 10" and aid = 2
        and mv = "move_node 1 0"
        and line = 0 and n = 0 and my = "[]" and cur = "[]" and ids = "[]"]
    by (simp add: example_defs string_defs)
  have w3: "format_compound_action 3 (throw_decision_at 3 0) = ''3;THROW 3 0; HUNKER_DOWN''
      \<and> reference_action 3 (Some (throw_node 1 0)) = ''3;THROW 1 0; HUNKER_DOWN''"
    using output_line_format [where d = "throw_decision_at 3 0" and aid = 3
        and mv = "throw_node 1 0"
        and line = 0 and n = 0 and my = "[]" and cur = "[]" and ids = "[]"]
    by (simp add: example_defs string_defs)
  have w4: "format_compound_action 1 ((move_decision_to 1 0)\<lparr>action_type := ''MOVE_SHOOT'',
         target_agent_id := 4\<rparr>) = ''1;MOVE 1 0; SHOOT 4''"
    using output_line_format [where d = "(move_decision_to 1 0)\<lparr>action_type := ''MOVE_SHOOT'',
         target_agent_id := 4\<rparr>" and aid = 1 and mv = "hunker_node"
        and line = 0 and n = 0 and my = "[]" and cur = "[]" and ids = "[]"]
    by (simp add: example_defs string_defs)
  have w5: "format_compound_action 3 ((move_decision_to 1 0)\<lparr>action_type := ''MOVE_THROW'',
         bomb_x := 3, bomb_y := 1\<rparr>) = ''3;MOVE 1 0; THROW 3 1''"
    using output_line_format [where d = "(move_decision_to 1 0)\<lparr>action_type := ''MOVE_THROW'',
         bomb_x := 3, bomb_y := 1\<rparr>" and aid = 3 and mv = "hunker_node"
        and line = 0 and n = 0 and my = "[]" and cur = "[]" and ids = "[]"]
    by (simp add: example_defs string_defs)
  have w6: "format_compound_action 1 (hunker_decision 50) = ''1;HUNKER_DOWN''
      \<and> reference_action 2 (Some hunker_node) = ''2;HUNKER_DOWN; HUNKER_DOWN''"
    using output_line_format [where d = "hunker_decision 50" and aid = 1 and mv = "hunker_node"
        and line = 0 and n = 0 and my = "[]" and cur = "[]" and ids = "[]"]
      output_line_format [where d = "hunker_decision 50" and aid = 2 and mv = "hunker_node"
        and line = 0 and n = 0 and my = "[]" and cur = "[]" and ids = "[]"]
    by (simp add: example_defs string_defs)
  have l0: "output_lines example_ai [agent_at 1 0 0, (agent_at 2 5 5)\<lparr>wetness := 100\<rparr>]
        [1 \<mapsto> move_decision_to 1 0] 2 ! 0 = Some ''1;MOVE 1 0; HUNKER_DOWN''
      \<and> reference_output_lines [1, 2, 3] [agent_at 2 0 0] [Some (shoot_node 4)] 2 ! 0
        = Some ''2;SHOOT 4; HUNKER_DOWN''
      \<and> length (output_lines example_ai [agent_at 1 0 0, (agent_at 2 5 5)\<lparr>wetness := 100\<rparr>]
        [1 \<mapsto> move_decision_to 1 0] 2) = 2
      \<and> length (reference_output_lines [1, 2, 3] [agent_at 2 0 0] [Some (shoot_node 4)] 2) = 2"
    using output_line_format [where d = "hunker_decision 50" and aid = 1 and mv = "hunker_node"
        and line = 0 and n = 2 and ai = example_ai
        and my = "[agent_at 1 0 0, (agent_at 2 5 5)\<lparr>wetness := 100\<rparr>]"
        and decisions = "[1 \<mapsto> move_decision_to 1 0]"
        and cur = "[agent_at 2 0 0]" and ids = "[1, 2, 3]" and best_moves = "[Some (shoot_node 4)]"]
    by (simp add: example_defs string_defs is_alive_def format_compound_action_def
        reference_action_def)
  have l1: "output_lines example_ai [agent_at 1 0 0, (agent_at 2 5 5)\<lparr>wetness := 100\<rparr>]
        [1 \<mapsto> move_decision_to 1 0] 2 ! 1 = Some ''1;HUNKER_DOWN''
      \<and> reference_output_lines [1, 2, 3] [agent_at 2 0 0] [Some (shoot_node 4)] 2 ! 1
        = Some ''2;HUNKER_DOWN; HUNKER_DOWN''"
    using output_line_format [where d = "hunker_decision 50" and aid = 1 and mv = "hunker_node"
        and line = 1 and n = 2 and ai = example_ai
        and my = "[agent_at 1 0 0, (agent_at 2 5 5)\<lparr>wetness := 100\<rparr>]"
        and decisions = "[1 \<mapsto> move_decision_to 1 0]"
        and cur = "[agent_at 2 0 0]" and ids = "[1, 2, 3]" and best_moves = "[Some (shoot_node 4)]"]
    by (simp add: example_defs string_defs is_alive_def)
  have lists: "xs ! 0 = a \<and> xs ! 1 = b \<and> length xs = 2 \<Longrightarrow> xs = [a, b]" for xs :: "string option list" and a b
    by (cases xs; cases "tl xs") auto
  have o: "output_lines example_ai [agent_at 1 0 0, (agent_at 2 5 5)\<lparr>wetness := 100\<rparr>]
        [1 \<mapsto> move_decision_to 1 0] 2
       = [Some ''1;MOVE 1 0; HUNKER_DOWN'', Some ''1;HUNKER_DOWN'']"
    using l0 l1 by (intro lists) blast
  have ro: "reference_output_lines [1, 2, 3] [agent_at 2 0 0] [Some (shoot_node 4)] 2
       = [Some ''2;SHOOT 4; HUNKER_DOWN'', Some ''2;HUNKER_DOWN; HUNKER_DOWN'']"
    using l0 l1 by (intro lists) blast
  from w1 w2 w3 w4 w5 w6 o ro turn show ?thesis
    by - (intro conjI; (elim conjE)?; assumption)
qed

text \<open>
  Claim C9 as stated fails: an Attack is printed with the keyword \<open>SHOOT\<close>, not
  \<open>ATTACK\<close>, and a plain Hunker decision of the heuristic engine is printed without a
  trailing \<open>HUNKER_DOWN\<close>.
\<close>

theorem output_line_format_counterexample:
  "format_compound_action 1 (shoot_decision 4) = ''1;SHOOT 4; HUNKER_DOWN''
   \<and> spec_line ''ATTACK'' 1 (Attack 4) (Some Hunker) = ''1;ATTACK 4; HUNKER_DOWN''
   \<and> format_compound_action 1 (shoot_decision 4) \<noteq> spec_line ''ATTACK'' 1 (Attack 4) (Some Hunker)
   \<and> format_compound_action 1 (hunker_decision 0) = ''1;HUNKER_DOWN''"
  by (simp add: format_compound_action_def example_defs string_defs)


section \<open>Exceptions in a turn\<close>

text \<open>
  Claim C5. A turn whose decisions end in an exception prints one line \<open>id;HUNKER_DOWN\<close>
  for every entry of \<open>my_agent_ids\<close>, and the match loop goes on with the next turn; a
  turn without an exception prints exactly \<open>my_agent_count\<close> lines; the loop ends only
  when the input stream does. The number of lines of the exception path is the number
  of controlled ids of the match, not the number the turn's input asks for: the two
  differ as soon as a controlled agent has left the match.
\<close>

theorem exception_turn:
  "(compute_decisions ai (t + 1) search mk (current_my_agents_of ai inp)
        (current_enemy_agents_of ai inp) = Inl e \<longrightarrow>
      run_match ai t ((Some inp, search, mk) # rest)
        = exception_lines ai # run_match ai (t + 1) rest
      \<and> exception_lines ai
          = map (\<lambda>i. Some (spec_line ''SHOOT'' i Hunker None)) (my_agent_ids ai))
   \<and> (compute_decisions ai (t + 1) search mk (current_my_agents_of ai inp)
        (current_enemy_agents_of ai inp) = Inr ds \<longrightarrow>
      run_match ai t ((Some inp, search, mk) # rest)
        = output_lines ai (current_my_agents_of ai inp) ds (my_agent_count inp)
            # run_match ai (t + 1) rest
      \<and> length (output_lines ai (current_my_agents_of ai inp) ds (my_agent_count inp))
          = nat (my_agent_count inp))
   \<and> run_match ai t ((None, search, mk) # rest) = []"
  by (simp add: run_turn_def exception_lines_def spec_line_def output_lines_def)

text \<open>
  With the controlled ids 1, 2 and 3 and agent 3 gone, a turn that asks for two lines
  gets three when the search throws, and two when it returns.
\<close>

theorem exception_turn_witness:
  "run_match example_ai 4
     [(Some two_left, \<lambda>my en. Inl runtime_failure, \<lambda>a. Inl runtime_failure),
      (Some two_left, \<lambda>my en. Inr [hunker_decision 50, move_decision_to 1 0],
         \<lambda>a. Inl runtime_failure),
      (None, \<lambda>my en. Inl runtime_failure, \<lambda>a. Inl runtime_failure)]
    = [[Some ''1;HUNKER_DOWN'', Some ''2;HUNKER_DOWN'', Some ''3;HUNKER_DOWN''],
       [Some ''1;HUNKER_DOWN'', Some ''2;MOVE 1 0; HUNKER_DOWN'']]
   \<and> my_agent_count two_left = 2"
  using exception_turn [where ai = example_ai and t = 4 and inp = two_left
      and search = "\<lambda>my en. Inl runtime_failure" and mk = "\<lambda>a. Inl runtime_failure"
      and e = runtime_failure
      and rest = "[(Some two_left, \<lambda>my en. Inr [hunker_decision 50, move_decision_to 1 0],
                     \<lambda>a. Inl runtime_failure),
                   (None, \<lambda>my en. Inl runtime_failure, \<lambda>a. Inl runtime_failure)]"]
    exception_turn [where ai = example_ai and t = 5 and inp = two_left
      and search = "\<lambda>my en. Inr [hunker_decision 50, move_decision_to 1 0]"
      and mk = "\<lambda>a. Inl runtime_failure"
      and ds = "[1 \<mapsto> hunker_decision 50, 2 \<mapsto> move_decision_to 1 0]"
      and rest = "[(None, \<lambda>my en. Inl runtime_failure, \<lambda>a. Inl runtime_failure)]"]
    two_left_search_fails [of "\<lambda>a. Inl runtime_failure"]
    two_left_search_returns [of "\<lambda>a. Inl runtime_failure"]
  apply (simp only: two_left_agents)
  apply (simp add: exception_lines_def output_lines_def output_line_def is_alive_def agent_at_def
       example_ai_def to_string_def string_of_nat.simps digit_char_def spec_line_def
       format_compound_action_def hunker_decision_def move_decision_to_def default_decision_def
       two_left_def run_turn_def numeral_2_eq_2)
  done


section \<open>Collision resolution\<close>







































section \<open>Landing tiles of throws\<close>

lemma bomb_tile_step_clean:
  "snd (snd best) \<le> 0 \<or> \<not> hits_friendly agent allies (fst best) (fst (snd best)) \<Longrightarrow>
   snd (snd (bomb_tile_step ai agent enemies allies enemy off best)) \<le> 0
   \<or> \<not> hits_friendly agent allies (fst (bomb_tile_step ai agent enemies allies enemy off best))
          (fst (snd (bomb_tile_step ai agent enemies allies enemy off best)))"
  by (simp add: bomb_tile_step_def Let_def)

lemma bomb_enemy_step_clean:
  "snd (snd best) \<le> 0 \<or> \<not> hits_friendly agent allies (fst best) (fst (snd best)) \<Longrightarrow>
   snd (snd (bomb_enemy_step ai agent enemies allies enemy best)) \<le> 0
   \<or> \<not> hits_friendly agent allies (fst (bomb_enemy_step ai agent enemies allies enemy best))
          (fst (snd (bomb_enemy_step ai agent enemies allies enemy best)))"
  unfolding bomb_enemy_step_def
  by (simp add: fold_invariant [where I = "\<lambda>best. snd (snd best) \<le> 0
        \<or> \<not> hits_friendly agent allies (fst best) (fst (snd best))"] bomb_tile_step_clean)

lemma bombing_fold_clean:
  "snd (snd (fold (bomb_enemy_step ai agent enemies allies) es (-1, -1, 0))) \<le> 0
   \<or> \<not> hits_friendly agent allies
          (fst (fold (bomb_enemy_step ai agent enemies allies) es (-1, -1, 0)))
          (fst (snd (fold (bomb_enemy_step ai agent enemies allies) es (-1, -1, 0))))"
  by (rule fold_invariant [where I = "\<lambda>best. snd (snd best) \<le> 0
        \<or> \<not> hits_friendly agent allies (fst best) (fst (snd best))"])
     (simp_all add: bomb_enemy_step_clean)

lemma bombing_clean:
  "action_type (find_best_bombing_target_with_allies ai agent enemies allies) = ''THROW'' \<longrightarrow>
     \<not> hits_friendly agent allies
          (target_x (find_best_bombing_target_with_allies ai agent enemies allies))
          (target_y (find_best_bombing_target_with_allies ai agent enemies allies))"
  using bombing_fold_clean [of ai agent enemies allies enemies]
  by (auto simp add: find_best_bombing_target_with_allies_def Let_def hunker_decision_def
      default_decision_def)

lemma focus_fire_throw:
  assumes "data_at (all_agents_data ai) (agent_id agent) = Inr d"
    and "splash_bombs agent > 0" and "wetness agent < 80"
    and "agent_distance agent target \<le> THROW_DISTANCE_MAX"
    and "optimal_range d < agent_distance agent target"
  shows "evaluate_focus_fire ai agent target
      = Inr ((hunker_decision 0)\<lparr>action_type := ''THROW'', target_x := pos_x target,
               target_y := pos_y target,
               expected_value := (if wetness target + 30 \<ge> 100 then 12500 else 4500),
               expected_damage := 30\<rparr>)"
  using assms
  by (simp add: evaluate_focus_fire_def focus_shoot_def focus_throw_def Let_def
      hunker_decision_def default_decision_def)

lemma focus_fire_adopted:
  assumes "data_at (all_agents_data ai) (agent_id agent) = Inr d"
    and "splash_bombs agent > 0" and "wetness agent < 80"
    and "agent_distance agent target \<le> THROW_DISTANCE_MAX"
    and "optimal_range d < agent_distance agent target"
    and "cooldown agent = 0" and "expected_value decision * 0.8 < 4500"
  shows "focus_fire_override ai (Some target) agent decision
      = Inr ((hunker_decision 0)\<lparr>action_type := ''THROW'', target_x := pos_x target,
               target_y := pos_y target,
               expected_value := (if wetness target + 30 \<ge> 100 then 12500 else 4500),
               expected_damage := 30\<rparr>)"
  using assms(6,7) by (simp add: focus_fire_override_def focus_fire_throw [OF assms(1-5)])

lemma bombing_example:
  "find_best_bombing_target_with_allies example_ai bomber_3 [agent_at 4 3 0]
        [bomber_3, agent_at 2 3 1]
     = (hunker_decision 0)\<lparr>action_type := ''THROW'', target_x := 2, target_y := 0,
          expected_value := 600, expected_damage := 30\<rparr>"
  by (simp add: find_best_bombing_target_with_allies_def bomb_enemy_step_def bomb_tile_step_def
      offsets3_def hits_friendly_def in_splash_def calculate_total_splash_damage_clean_def
      count_enemies_in_splash_clean_def is_alive_def agent_distance_def manhattan_distance_def
      THROW_DISTANCE_MAX_def bomber_3_def agent_at_def example_ai_def Let_def)

lemma priority_example:
  "select_priority_target [bomber_3, agent_at 2 3 1] [agent_at 4 3 0] = Some (agent_at 4 3 0)"
  by (simp add: select_priority_target_def priority_step_def target_score_def Let_def
      agent_distance_def manhattan_distance_def INT_MAX_def bomber_3_def agent_at_def)

text \<open>
  Claim C4. A Throw that \<open>find_best_bombing_target_with_allies\<close> proposes never has a
  living ally other than the thrower within Manhattan distance 1 of its landing tile.
  \<open>evaluate_focus_fire\<close> has no such test: for a thrower with a bomb and wetness below 80,
  within throwing distance of the priority target and out of its own shooting range, it
  proposes a Throw at the target's own tile, whoever stands next to it, and
  \<open>focus_fire_override\<close> adopts that Throw for an agent off cooldown whenever 0.8 times
  the value of the agent's decision is below 4500.
\<close>

theorem throw_landing_tiles:
  "(action_type (find_best_bombing_target_with_allies ai agent enemies allies) = ''THROW'' \<longrightarrow>
     \<not> hits_friendly agent allies
          (target_x (find_best_bombing_target_with_allies ai agent enemies allies))
          (target_y (find_best_bombing_target_with_allies ai agent enemies allies)))
   \<and> (data_at (all_agents_data ai) (agent_id agent) = Inr d
        \<and> splash_bombs agent > 0 \<and> wetness agent < 80
        \<and> agent_distance agent target \<le> THROW_DISTANCE_MAX
        \<and> optimal_range d < agent_distance agent target \<longrightarrow>
       evaluate_focus_fire ai agent target
         = Inr ((hunker_decision 0)\<lparr>action_type := ''THROW'', target_x := pos_x target,
                  target_y := pos_y target,
                  expected_value := (if wetness target + 30 \<ge> 100 then 12500 else 4500),
                  expected_damage := 30\<rparr>))
   \<and> (data_at (all_agents_data ai) (agent_id agent) = Inr d
        \<and> splash_bombs agent > 0 \<and> wetness agent < 80
        \<and> agent_distance agent target \<le> THROW_DISTANCE_MAX
        \<and> optimal_range d < agent_distance agent target
        \<and> cooldown agent = 0 \<and> expected_value decision * 0.8 < 4500 \<longrightarrow>
       focus_fire_override ai (Some target) agent decision
         = Inr ((hunker_decision 0)\<lparr>action_type := ''THROW'', target_x := pos_x target,
                  target_y := pos_y target,
                  expected_value := (if wetness target + 30 \<ge> 100 then 12500 else 4500),
                  expected_damage := 30\<rparr>))"
  using bombing_clean [of ai agent enemies allies] focus_fire_throw [of ai agent d target]
    focus_fire_adopted [of ai agent d target decision]
  by simp

text \<open>
  The Bomber 3 at \<open>(0, 0)\<close>, the enemy 4 at \<open>(3, 0)\<close> and the Sniper 2 at \<open>(3, 1)\<close>: the
  bombing candidate is the tile \<open>(2, 0)\<close>, out of the Sniper's reach; the focus-fire
  candidate is the enemy's tile \<open>(3, 0)\<close>, next to the Sniper, and it replaces the former
  in the agent's turn.
\<close>

theorem throw_landing_tiles_witness:
  "find_best_bombing_target_with_allies example_ai bomber_3 [agent_at 4 3 0]
        [bomber_3, agent_at 2 3 1]
     = (hunker_decision 0)\<lparr>action_type := ''THROW'', target_x := 2, target_y := 0,
          expected_value := 600, expected_damage := 30\<rparr>
   \<and> \<not> hits_friendly bomber_3 [bomber_3, agent_at 2 3 1] 2 0
   \<and> evaluate_focus_fire example_ai bomber_3 (agent_at 4 3 0)
     = Inr ((hunker_decision 0)\<lparr>action_type := ''THROW'', target_x := 3, target_y := 0,
              expected_value := 4500, expected_damage := 30\<rparr>)
   \<and> hits_friendly bomber_3 [bomber_3, agent_at 2 3 1] 3 0
   \<and> process_agent example_ai False
        (\<lambda>a. Inr (find_best_bombing_target_with_allies example_ai a [agent_at 4 3 0]
                    [bomber_3, agent_at 2 3 1]))
        [bomber_3, agent_at 2 3 1] [agent_at 4 3 0]
        (select_priority_target [bomber_3, agent_at 2 3 1] [agent_at 4 3 0])
        bomber_3 \<lparr>movement_blacklist = {}, agent_decisions = Map.empty\<rparr>
     = Inr \<lparr>movement_blacklist = {},
            agent_decisions = [3 \<mapsto> (hunker_decision 0)\<lparr>action_type := ''THROW'',
               target_x := 3, target_y := 0, expected_value := 4500, expected_damage := 30\<rparr>]\<rparr>"
proof -
  note t = throw_landing_tiles [where ai = example_ai and agent = bomber_3
      and enemies = "[agent_at 4 3 0]" and allies = "[bomber_3, agent_at 2 3 1]"
      and d = "bomber_profile 3" and target = "agent_at 4 3 0"
      and decision = "(hunker_decision 0)\<lparr>action_type := ''THROW'', target_x := 2, target_y := 0,
          expected_value := 600, expected_damage := 30\<rparr>"]
  have pre: "data_at (all_agents_data example_ai) (agent_id bomber_3) = Inr (bomber_profile 3)
      \<and> splash_bombs bomber_3 > 0 \<and> wetness bomber_3 < 80
      \<and> agent_distance bomber_3 (agent_at 4 3 0) \<le> THROW_DISTANCE_MAX
      \<and> optimal_range (bomber_profile 3) < agent_distance bomber_3 (agent_at 4 3 0)
      \<and> cooldown bomber_3 = 0
      \<and> expected_value ((hunker_decision 0)\<lparr>action_type := ''THROW'', target_x := 2, target_y := 0,
          expected_value := 600, expected_damage := 30\<rparr>) * 0.8 < 4500"
    by (simp add: data_at_def example_ai_def example_profiles_def bomber_profile_def bomber_3_def
        agent_at_def agent_distance_def manhattan_distance_def THROW_DISTANCE_MAX_def
        hunker_decision_def default_decision_def)
  have clean: "\<not> hits_friendly bomber_3 [bomber_3, agent_at 2 3 1] 2 0"
    using t [THEN conjunct1] by (simp add: bombing_example hunker_decision_def default_decision_def)
  have focus: "evaluate_focus_fire example_ai bomber_3 (agent_at 4 3 0)
     = Inr ((hunker_decision 0)\<lparr>action_type := ''THROW'', target_x := 3, target_y := 0,
              expected_value := 4500, expected_damage := 30\<rparr>)"
    using t [THEN conjunct2, THEN conjunct1] pre by (simp add: agent_at_def)
  have override: "focus_fire_override example_ai (Some (agent_at 4 3 0)) bomber_3
        ((hunker_decision 0)\<lparr>action_type := ''THROW'', target_x := 2, target_y := 0,
          expected_value := 600, expected_damage := 30\<rparr>)
     = Inr ((hunker_decision 0)\<lparr>action_type := ''THROW'', target_x := 3, target_y := 0,
              expected_value := 4500, expected_damage := 30\<rparr>)"
    using t [THEN conjunct2, THEN conjunct2] pre by (simp add: agent_at_def)
  have hit: "hits_friendly bomber_3 [bomber_3, agent_at 2 3 1] 3 0"
    by (simp add: hits_friendly_def in_splash_def is_alive_def bomber_3_def agent_at_def)
  have alive: "is_alive bomber_3" "agent_id bomber_3 = 3"
    by (simp_all add: is_alive_def bomber_3_def agent_at_def)
  have adopted: "process_agent example_ai False
        (\<lambda>a. Inr (find_best_bombing_target_with_allies example_ai a [agent_at 4 3 0]
                    [bomber_3, agent_at 2 3 1]))
        [bomber_3, agent_at 2 3 1] [agent_at 4 3 0]
        (select_priority_target [bomber_3, agent_at 2 3 1] [agent_at 4 3 0])
        bomber_3 \<lparr>movement_blacklist = {}, agent_decisions = Map.empty\<rparr>
     = Inr \<lparr>movement_blacklist = {},
            agent_decisions = [3 \<mapsto> (hunker_decision 0)\<lparr>action_type := ''THROW'',
               target_x := 3, target_y := 0, expected_value := 4500, expected_damage := 30\<rparr>]\<rparr>"
    using override unfolding priority_example process_agent_def proposed_decision_def
    by (simp add: alive bombing_example resolve_collision_def is_move_class_def
        hunker_decision_def default_decision_def)
  from bombing_example clean focus hit adopted show ?thesis
    by - (intro conjI; assumption)
qed


section \<open>Movement and attack values\<close>

lemma quick_move_score_cap:
  "quick_move_score strategic d cls agent enemies closest_enemy_pos nx ny \<le> 1400"
  by (simp add: quick_move_score_def Let_def)

lemma shot_score_low: "0 < damage \<Longrightarrow> 1520 \<le> shot_score cls enemy distance damage"
  by (simp add: shot_score_def Let_def)

lemma sniper_shot_score_low: "0 < damage \<Longrightarrow> 2025 \<le> sniper_shot_score enemy distance damage"
  by (simp add: sniper_shot_score_def Let_def)

lemma sniper_step_mono: "fst best \<le> fst (sniper_step d agent enemy best)"
  by (simp add: sniper_step_def Let_def)

lemma shooter_step_mono: "fst best \<le> fst (shooter_step d cls agent enemy best)"
  by (simp add: shooter_step_def Let_def)

lemma thrower_step_mono: "fst best \<le> fst (thrower_step d agent enemies enemy best)"
  by (simp add: thrower_step_def Let_def)

lemma quick_move_step_mono:
  "fst best \<le> fst (quick_move_step strategic temp_sim d cls agent cp off best)"
  by (simp add: quick_move_step_def Let_def)

lemma sniper_step_hit:
  assumes "wetness enemy < 100" and "sim_distance agent enemy \<le> 6"
    and "0 < calculate_shooting_damage d enemy (sim_distance agent enemy)"
  shows "2025 \<le> fst (sniper_step d agent enemy best)"
  using assms sniper_shot_score_low [OF assms(3), of enemy "sim_distance agent enemy"]
  by (simp add: sniper_step_def Let_def)

lemma shooter_step_hit:
  assumes "wetness enemy < 100" and "sim_distance agent enemy \<le> optimal_range d"
    and "0 < calculate_shooting_damage d enemy (sim_distance agent enemy)"
  shows "1520 \<le> fst (shooter_step d cls agent enemy best)"
  using assms shot_score_low [OF assms(3), of cls enemy "sim_distance agent enemy"]
  by (simp add: shooter_step_def Let_def)

lemma damage_in_range:
  "0 < calculate_shooting_damage d enemy distance \<Longrightarrow> distance \<le> optimal_range d"
  by (simp add: calculate_shooting_damage_def split: if_splits)

lemma sniper_range: "determine_agent_class d = SNIPER \<Longrightarrow> optimal_range d = 6"
  by (simp add: determine_agent_class_def split: if_splits)

lemma sniper_step_kind:
  "1400 < fst best \<longrightarrow> pm_action_type (snd best) = ''SHOOT'' \<or> pm_action_type (snd best) = ''THROW'' \<Longrightarrow>
   1400 < fst (sniper_step d agent enemy best) \<longrightarrow>
     pm_action_type (snd (sniper_step d agent enemy best)) = ''SHOOT''
     \<or> pm_action_type (snd (sniper_step d agent enemy best)) = ''THROW''"
  by (simp add: sniper_step_def Let_def)

lemma shooter_step_kind:
  "1400 < fst best \<longrightarrow> pm_action_type (snd best) = ''SHOOT'' \<or> pm_action_type (snd best) = ''THROW'' \<Longrightarrow>
   1400 < fst (shooter_step d cls agent enemy best) \<longrightarrow>
     pm_action_type (snd (shooter_step d cls agent enemy best)) = ''SHOOT''
     \<or> pm_action_type (snd (shooter_step d cls agent enemy best)) = ''THROW''"
  by (simp add: shooter_step_def Let_def)

lemma thrower_step_kind:
  "1400 < fst best \<longrightarrow> pm_action_type (snd best) = ''SHOOT'' \<or> pm_action_type (snd best) = ''THROW'' \<Longrightarrow>
   1400 < fst (thrower_step d agent enemies enemy best) \<longrightarrow>
     pm_action_type (snd (thrower_step d agent enemies enemy best)) = ''SHOOT''
     \<or> pm_action_type (snd (thrower_step d agent enemies enemy best)) = ''THROW''"
  by (simp add: thrower_step_def Let_def)

lemma quick_move_step_kind:
  "1400 < fst best \<longrightarrow> pm_action_type (snd best) = ''SHOOT'' \<or> pm_action_type (snd best) = ''THROW'' \<Longrightarrow>
   1400 < fst (quick_move_step strategic temp_sim d cls agent cp off best) \<longrightarrow>
     pm_action_type (snd (quick_move_step strategic temp_sim d cls agent cp off best)) = ''SHOOT''
     \<or> pm_action_type (snd (quick_move_step strategic temp_sim d cls agent cp off best)) = ''THROW''"
  using quick_move_score_cap [of strategic d cls agent "sim_enemy_agents temp_sim" cp
      "pos_x agent + fst off" "pos_y agent + snd off"]
  by (simp add: quick_move_step_def Let_def)


lemma quick_phases_attack:
  assumes cls: "determine_agent_class d \<noteq> BOMBER" and cd: "cooldown agent = 0"
    and mem: "enemy \<in> set (sim_enemy_agents temp_sim)" and alive: "wetness enemy < 100"
    and dmg: "0 < calculate_shooting_damage d enemy (sim_distance agent enemy)"
  shows "pm_action_type (quick_phases strategic temp_sim d agent) = ''SHOOT''
       \<or> pm_action_type (quick_phases strategic temp_sim d agent) = ''THROW''"
proof -
  let ?K = "\<lambda>best :: real \<times> PrecomputedMove.
      1400 < fst best \<longrightarrow> pm_action_type (snd best) = ''SHOOT'' \<or> pm_action_type (snd best) = ''THROW''"
  define cl where "cl = determine_agent_class d"
  define es where "es = sim_enemy_agents temp_sim"
  define b0 :: "real \<times> PrecomputedMove" where "b0 = (-1000.0, default_move)"
  define b1 where "b1 = (if cl = SNIPER \<and> cooldown agent = 0
                  then fold (sniper_step d agent) es b0 else b0)"
  define b3 where "b3 = (if cooldown agent = 0 \<and> cl \<noteq> SNIPER \<and> cl \<noteq> BOMBER
                  then fold (shooter_step d cl agent) es b1 else b1)"
  define b4 where "b4 = (if cooldown agent = 0 \<and> splash_bombs agent > 0 \<and> (cl = ASSAULT \<or> cl = GUNNER)
                  then fold (thrower_step d agent es) es b3 else b3)"
  define cp where "cp = snd (fold (quick_closest_step agent) es (999, -1, -1))"
  define b5 where "b5 = fold (quick_move_step strategic temp_sim d cl agent cp) dirs8_tactical b4"
  have range: "sim_distance agent enemy \<le> optimal_range d"
    using dmg by (rule damage_in_range)
  have K0: "?K b0" by (simp add: b0_def)
  have K1: "?K b1"
    unfolding b1_def using K0
    by (simp add: fold_invariant [where I = ?K] sniper_step_kind del: One_nat_def)
  have K3: "?K b3"
    unfolding b3_def using K1
    by (simp add: fold_invariant [where I = ?K] shooter_step_kind)
  have K4: "?K b4"
    unfolding b4_def using K3
    by (simp add: fold_invariant [where I = ?K] thrower_step_kind)
  have K5: "?K b5"
    unfolding b5_def using K4
    by (simp add: fold_invariant [where I = ?K] quick_move_step_kind)
  have low3: "1520 \<le> fst b3"
  proof (cases "cl = SNIPER")
    case True
    then have six: "sim_distance agent enemy \<le> 6"
      using range sniper_range [of d] by (simp add: cl_def)
    have "2025 \<le> fst (fold (sniper_step d agent) es b0)"
      using mem unfolding es_def
      by (rule fold_reaches [where m = fst]) (simp_all add: sniper_step_hit alive six dmg sniper_step_mono)
    then show ?thesis using True cd by (simp add: b3_def b1_def)
  next
    case False
    have "1520 \<le> fst (fold (shooter_step d cl agent) es b1)"
      using mem unfolding es_def
      by (rule fold_reaches [where m = fst]) (simp_all add: shooter_step_hit alive range dmg shooter_step_mono)
    then show ?thesis using False cd cls by (simp add: b3_def cl_def)
  qed
  have "fst b3 \<le> fst b4"
    unfolding b4_def by (simp add: fold_mono [where m = fst] thrower_step_mono)
  also have "\<dots> \<le> fst b5"
    unfolding b5_def by (rule fold_mono [where m = fst]) (rule quick_move_step_mono)
  finally have "1400 < fst b5" using low3 by simp
  with K5 have kind: "pm_action_type (snd b5) = ''SHOOT'' \<or> pm_action_type (snd b5) = ''THROW''"
    by simp
  have b2: "(if cl = BOMBER \<and> cooldown agent = 0 \<and> splash_bombs agent > 0
                  then bomber_phase d agent es b1 else b1) = b1"
    using cls by (simp add: cl_def)
  have "quick_phases strategic temp_sim d agent
      = (if pm_action_type (snd b5) = [] then
           (snd b5)\<lparr>pm_action_type := ''HUNKER_DOWN'', confidence_score := 0.1\<rparr>
         else snd b5)"
    unfolding quick_phases_def Let_def
    unfolding cl_def [symmetric] es_def [symmetric] b0_def [symmetric] b1_def [symmetric] b2
      b3_def [symmetric] b4_def [symmetric] cp_def [symmetric] b5_def [symmetric]
    by (rule refl)
  with kind show ?thesis by auto
qed


lemma tactical_tile_value_cap: "tactical_tile_value d agent enemies nx ny \<le> 1500"
  by (simp add: tactical_tile_value_def Let_def)

lemma tactical_dir_step_cap:
  "expected_value best \<le> 1500 \<Longrightarrow>
   expected_value (tactical_dir_step ai d agent enemies occupied off best) \<le> 1500"
  by (simp add: tactical_dir_step_def Let_def tactical_tile_value_cap)

lemma evaluate_tactical_movement_cap:
  "evaluate_tactical_movement ai agent enemies allies = Inr decision \<Longrightarrow>
   expected_value decision \<le> 1500"
  unfolding evaluate_tactical_movement_def
  by (auto split: sum.splits
      intro!: fold_invariant [where I = "\<lambda>best. expected_value best \<le> 1500"] tactical_dir_step_cap
      simp: hunker_decision_def default_decision_def)

lemma quick_example:
  "compute_best_move_quick (\<lambda>x y. 0) (agent_at 2 0 0) (example_sim []) 0
     = Inr (default_move\<lparr>pm_action_type := ''SHOOT'', pm_target_agent_id := 4,
              confidence_score := 1\<rparr>)"
  by (simp add: compute_best_move_quick_def quick_phases_def data_at_def example_defs
      determine_agent_class_def sniper_step_def sniper_shot_score_def sim_distance_def
      manhattan_distance_def calculate_shooting_damage_def quick_closest_step_def
      quick_move_step_def quick_move_score_def quick_blocked_def positioning_step_def
      dirs8_tactical_def default_move_def Let_def)

text \<open>
  Claim C8, as amended. In the search variant (\<open>compute_best_move_quick\<close>) the score of a
  movement candidate is capped at 1400, and every shooting candidate with positive damage
  scores at least 1520 (2025 for a Sniper); so for an agent of any class but Bomber that
  is off cooldown and has a living enemy on which \<open>calculate_shooting_damage\<close> is
  positive, the move selected is an Attack or a Throw, never a movement. In the heuristic
  engine \<open>evaluate_tactical_movement\<close> never returns a value above 1500.
\<close>

theorem movement_below_attack:
  "quick_move_score strategic d cls agent enemies closest_enemy_pos nx ny \<le> 1400
   \<and> (0 < damage \<longrightarrow> 1520 \<le> shot_score cls enemy distance damage
                       \<and> 2025 \<le> sniper_shot_score enemy distance damage)
   \<and> (data_at (sim_agent_data temp_sim) (agent_id agent) = Inr d
        \<and> determine_agent_class d \<noteq> BOMBER \<and> cooldown agent = 0
        \<and> enemy \<in> set (sim_enemy_agents temp_sim) \<and> wetness enemy < 100
        \<and> 0 < calculate_shooting_damage d enemy (sim_distance agent enemy) \<longrightarrow>
       (\<exists>move. compute_best_move_quick strategic agent temp_sim agent_index = Inr move
          \<and> (pm_action_type move = ''SHOOT'' \<or> pm_action_type move = ''THROW'')))
   \<and> (evaluate_tactical_movement ai agent enemies allies = Inr decision \<longrightarrow>
        expected_value decision \<le> 1500)"
proof -
  have quick: "data_at (sim_agent_data temp_sim) (agent_id agent) = Inr d
        \<and> determine_agent_class d \<noteq> BOMBER \<and> cooldown agent = 0
        \<and> enemy \<in> set (sim_enemy_agents temp_sim) \<and> wetness enemy < 100
        \<and> 0 < calculate_shooting_damage d enemy (sim_distance agent enemy) \<longrightarrow>
       (\<exists>move. compute_best_move_quick strategic agent temp_sim agent_index = Inr move
          \<and> (pm_action_type move = ''SHOOT'' \<or> pm_action_type move = ''THROW''))"
    using quick_phases_attack [of d agent enemy temp_sim strategic]
    by (simp add: compute_best_move_quick_def)
  have scores: "0 < damage \<longrightarrow> 1520 \<le> shot_score cls enemy distance damage
                       \<and> 2025 \<le> sniper_shot_score enemy distance damage"
    by (simp add: shot_score_low sniper_shot_score_low)
  have tactical: "evaluate_tactical_movement ai agent enemies allies = Inr decision \<longrightarrow>
        expected_value decision \<le> 1500"
    by (simp add: evaluate_tactical_movement_cap)
  from quick_move_score_cap [of strategic d cls agent enemies closest_enemy_pos nx ny]
    scores quick tactical
  show ?thesis by - (intro conjI; assumption)
qed

text \<open>
  The Sniper 2 at \<open>(0, 0)\<close> with the enemy 4 next to it: whatever the strategic value of
  the tiles, the selected move is the Attack.
\<close>

theorem movement_below_attack_witness:
  "quick_move_score (\<lambda>x y. 40) (sniper_profile 2) SNIPER (agent_at 2 0 0)
       [(agent_at 4 1 0)\<lparr>wetness := 90, cooldown := 3\<rparr>] (1, 0) 0 1 \<le> 1400
   \<and> 1520 \<le> shot_score GUNNER (agent_at 4 1 0) 4 1
   \<and> 2025 \<le> sniper_shot_score (agent_at 4 1 0) 3 1
   \<and> compute_best_move_quick (\<lambda>x y. 0) (agent_at 2 0 0) (example_sim []) 0
     = Inr (default_move\<lparr>pm_action_type := ''SHOOT'', pm_target_agent_id := 4,
              confidence_score := 1\<rparr>)
   \<and> (\<exists>move. compute_best_move_quick (\<lambda>x y. 40) (agent_at 2 0 0) (example_sim []) 0
                 = Inr move
          \<and> (pm_action_type move = ''SHOOT'' \<or> pm_action_type move = ''THROW''))
   \<and> evaluate_tactical_movement example_ai bomber_3 [agent_at 4 3 0] [bomber_3]
     = Inr ((move_decision_to 1 0)\<lparr>expected_value := 1500\<rparr>)"
proof -
  have tactical: "evaluate_tactical_movement example_ai bomber_3 [agent_at 4 3 0] [bomber_3]
     = Inr ((move_decision_to 1 0)\<lparr>expected_value := 1500\<rparr>)"
    by (simp add: evaluate_tactical_movement_def data_at_def example_defs bomber_3_def
        tactical_dir_step_def tactical_tile_value_def tactical_enemy_step_def
        occupied_positions_def calculate_movement_cost_def is_alive_def dirs8_tactical_def
        WETNESS_AFFECTS_DISTANCE_def cast_int_def Let_def)
  have pre: "data_at (sim_agent_data (example_sim [])) (agent_id (agent_at 2 0 0))
          = Inr (sniper_profile 2)
      \<and> determine_agent_class (sniper_profile 2) \<noteq> BOMBER \<and> cooldown (agent_at 2 0 0) = 0
      \<and> (agent_at 4 1 0)\<lparr>wetness := 90, cooldown := 3\<rparr> \<in> set (sim_enemy_agents (example_sim []))
      \<and> wetness ((agent_at 4 1 0)\<lparr>wetness := 90, cooldown := 3\<rparr>) < 100
      \<and> 0 < calculate_shooting_damage (sniper_profile 2)
              ((agent_at 4 1 0)\<lparr>wetness := 90, cooldown := 3\<rparr>)
              (sim_distance (agent_at 2 0 0) ((agent_at 4 1 0)\<lparr>wetness := 90, cooldown := 3\<rparr>))"
    by (simp add: data_at_def example_defs determine_agent_class_def sim_distance_def
        manhattan_distance_def calculate_shooting_damage_def)
  note t = movement_below_attack [where strategic = "\<lambda>x y. 40" and d = "sniper_profile 2"
      and cls = SNIPER and agent = "agent_at 2 0 0"
      and enemies = "[(agent_at 4 1 0)\<lparr>wetness := 90, cooldown := 3\<rparr>]"
      and closest_enemy_pos = "(1, 0)" and nx = 0 and ny = 1 and damage = 1
      and enemy = "(agent_at 4 1 0)\<lparr>wetness := 90, cooldown := 3\<rparr>"
      and temp_sim = "example_sim []" and agent_index = 0 and ai = example_ai
      and allies = "[bomber_3]" and decision = "(move_decision_to 1 0)\<lparr>expected_value := 1500\<rparr>"]
  note g = movement_below_attack [where damage = 1 and cls = GUNNER and enemy = "agent_at 4 1 0"
      and distance = 4]
  note s = movement_below_attack [where damage = 1 and enemy = "agent_at 4 1 0" and distance = 3]
  have c1: "quick_move_score (\<lambda>x y. 40) (sniper_profile 2) SNIPER (agent_at 2 0 0)
       [(agent_at 4 1 0)\<lparr>wetness := 90, cooldown := 3\<rparr>] (1, 0) 0 1 \<le> 1400"
    using t by (rule conjunct1)
  have c2: "1520 \<le> shot_score GUNNER (agent_at 4 1 0) 4 1"
    using g [THEN conjunct2, THEN conjunct1] by simp
  have c3: "2025 \<le> sniper_shot_score (agent_at 4 1 0) 3 1"
    using s [THEN conjunct2, THEN conjunct1] by simp
  have c5: "\<exists>move. compute_best_move_quick (\<lambda>x y. 40) (agent_at 2 0 0) (example_sim []) 0
                 = Inr move
          \<and> (pm_action_type move = ''SHOOT'' \<or> pm_action_type move = ''THROW'')"
    using t [THEN conjunct2, THEN conjunct2, THEN conjunct1] pre by simp
  from c1 c2 c3 quick_example c5 tactical show ?thesis
    by - (intro conjI; assumption)
qed

text \<open>
  Claim C8 as stated fails. In the heuristic engine the Gunner 1 at \<open>(0, 0)\<close> can attack
  agent 4 at \<open>(3, 0)\<close> for a value of 3680, and \<open>generate_random_moves\<close> values the move
  to \<open>(1, 0)\<close> at 7800; the Bomber 3 in the same place can attack for 920, and
  \<open>evaluate_tactical_movement\<close> values its best move at 1500. In the search variant a
  Bomber without bombs next to the enemy 4 selects a movement: Bombers never shoot there.
\<close>

theorem movement_below_attack_counterexample:
  "find_best_shooting_target example_ai (agent_at 1 0 0) [agent_at 4 3 0]
     = Inr ((hunker_decision 3680)\<lparr>action_type := ''SHOOT'', target_agent_id := 4,
                                     expected_damage := 16\<rparr>)
   \<and> map_sum id (map (\<lambda>m. (action_type m, target_x m, target_y m, expected_value m)))
        (generate_random_moves example_ai (agent_at 1 0 0) [agent_at 4 3 0] [agent_at 1 0 0] 50)
     = Inr [(''MOVE'', 1, 0, 7800), (''MOVE'', 1, 1, 5800), (''MOVE'', 0, 1, 3300),
            (''MOVE'', 1, 0, 7800), (''MOVE'', 1, 1, 5800), (''MOVE'', 0, 1, 3300),
            (''MOVE'', 2, 0, 7800), (''MOVE'', 2, 2, 5800), (''MOVE'', 0, 2, 300)]
   \<and> find_best_shooting_target example_ai (agent_at 3 0 0) [agent_at 4 3 0]
     = Inr ((hunker_decision 920)\<lparr>action_type := ''SHOOT'', target_agent_id := 4,
                                    expected_damage := 4\<rparr>)
   \<and> evaluate_tactical_movement example_ai (agent_at 3 0 0) [agent_at 4 3 0] [agent_at 3 0 0]
     = Inr ((move_decision_to 1 0)\<lparr>expected_value := 1500\<rparr>)
   \<and> compute_best_move_quick (\<lambda>x y. 0) (agent_at 3 0 0)
        ((example_sim [])\<lparr>sim_my_agents := [agent_at 3 0 0]\<rparr>) 0
     = Inr (default_move\<lparr>pm_action_type := ''MOVE'', pm_target_x := 0, pm_target_y := 1,
              confidence_score := 6 / 7\<rparr>)"
proof -
  have a: "find_best_shooting_target example_ai (agent_at 1 0 0) [agent_at 4 3 0]
     = Inr ((hunker_decision 3680)\<lparr>action_type := ''SHOOT'', target_agent_id := 4,
                                     expected_damage := 16\<rparr>)"
    by (simp add: find_best_shooting_target_def example_defs data_at_def shooting_step_def
        is_alive_def agent_distance_def calculate_cover_protection_def offsets3_def tile_at_def
        vec_at_def cast_int_def Let_def)
  have b: "map_sum id (map (\<lambda>m. (action_type m, target_x m, target_y m, expected_value m)))
        (generate_random_moves example_ai (agent_at 1 0 0) [agent_at 4 3 0] [agent_at 1 0 0] 50)
     = Inr [(''MOVE'', 1, 0, 7800), (''MOVE'', 1, 1, 5800), (''MOVE'', 0, 1, 3300),
            (''MOVE'', 1, 0, 7800), (''MOVE'', 1, 1, 5800), (''MOVE'', 0, 1, 3300),
            (''MOVE'', 2, 0, 7800), (''MOVE'', 2, 2, 5800), (''MOVE'', 0, 2, 300)]"
    by (simp add: generate_random_moves_def occupied_positions_def closest_alive_def
        closest_step_def movement_candidates_def in_bounds_def dirs8_def
        random_move_candidate_def move_value_def data_at_def example_defs is_alive_def
        INT_MAX_def Let_def)
  have c: "find_best_shooting_target example_ai (agent_at 3 0 0) [agent_at 4 3 0]
     = Inr ((hunker_decision 920)\<lparr>action_type := ''SHOOT'', target_agent_id := 4,
                                    expected_damage := 4\<rparr>)"
    by (simp add: find_best_shooting_target_def example_defs data_at_def shooting_step_def
        is_alive_def agent_distance_def calculate_cover_protection_def offsets3_def tile_at_def
        vec_at_def cast_int_def int_quot_def Let_def)
  have d: "evaluate_tactical_movement example_ai (agent_at 3 0 0) [agent_at 4 3 0] [agent_at 3 0 0]
     = Inr ((move_decision_to 1 0)\<lparr>expected_value := 1500\<rparr>)"
    by (simp add: evaluate_tactical_movement_def data_at_def example_defs
        tactical_dir_step_def tactical_tile_value_def tactical_enemy_step_def
        occupied_positions_def calculate_movement_cost_def is_alive_def dirs8_tactical_def
        WETNESS_AFFECTS_DISTANCE_def cast_int_def Let_def)
  have e: "compute_best_move_quick (\<lambda>x y. 0) (agent_at 3 0 0)
        ((example_sim [])\<lparr>sim_my_agents := [agent_at 3 0 0]\<rparr>) 0
     = Inr (default_move\<lparr>pm_action_type := ''MOVE'', pm_target_x := 0, pm_target_y := 1,
              confidence_score := 6 / 7\<rparr>)"
    by (simp add: compute_best_move_quick_def quick_phases_def data_at_def example_defs
      determine_agent_class_def sim_distance_def bomber_phase_def bomber_step_def
      manhattan_distance_def quick_closest_step_def
      quick_move_step_def quick_move_score_def quick_blocked_def positioning_step_def
      dirs8_tactical_def default_move_def Let_def)
  from a b c d e show ?thesis by - (intro conjI; assumption)
qed

end
